theory Spec2Isabelle
  imports Complex_Main "HOL-Library.Char_ord" "HOL-Library.List_Lexorder"
begin

chapter \<open>The model\<close>

section \<open>Conventions of the embedding\<close>

text \<open>
  The C++ type \<open>double\<close> is modelled by \<^typ>\<open>real\<close>: arithmetic is exact, and the
  rounding of IEEE arithmetic is not represented. Where the source divides, the model
  divides too; HOL's \<open>x / 0 = 0\<close> differs from the IEEE result (an infinity or a NaN),
  so every theorem whose statement depends on such a quotient carries the hypothesis
  that the divisor is not zero. The C++ type \<open>int\<close> is modelled by \<^typ>\<open>int\<close>; the
  only places where the passes modelled here produce an \<open>int\<close> from a computation are
  conversions of a \<open>double\<close>, which \<open>trunc_int\<close> below models with its 32-bit
  range.

  A \<open>std::map<std::string, double>\<close> is modelled by the list of its entries in
  iteration order (ascending keys); a \<open>std::vector\<close> by a list, \<open>push_back\<close> by
  appending at the end.
\<close>

section \<open>The conversion of a \<open>double\<close> to \<open>int\<close>\<close>

text \<open>The conversions \<open>(int) x\<close> and \<open>int(x)\<close> of a \<open>double\<close> truncate towards zero
  (\<open>truncation\<close>) when the truncated value fits the 32-bit \<open>int\<close>, that is, lies
  between \<open>INT_MIN\<close> and \<open>INT_MAX\<close> (\<open>in_int_range\<close>). Outside that range the
  language leaves the conversion undefined; the conversion instruction of the x86-64
  target then yields \<open>INT_MIN\<close>, and so does \<open>trunc_int\<close>. The theorems below that
  depend on a conversion assume that its operand is in range.\<close>

definition INT_MIN :: int where "INT_MIN = - 2147483648"

definition INT_MAX :: int where "INT_MAX = 2147483647"

definition truncation :: "real \<Rightarrow> int" where
  "truncation x = (if x < 0 then \<lceil>x\<rceil> else \<lfloor>x\<rfloor>)"

definition in_int_range :: "real \<Rightarrow> bool" where
  "in_int_range x \<longleftrightarrow> INT_MIN \<le> truncation x \<and> truncation x \<le> INT_MAX"

definition trunc_int :: "real \<Rightarrow> int" where
  "trunc_int x = (if in_int_range x then truncation x else INT_MIN)"

section \<open>Elementary materials: \<open>Extractor::Z\<close> and \<open>Extractor::analyseElements\<close>\<close>

text \<open>A row of the material table (\<open>MaterialRow\<close>): tag, density, radiation length and
  interaction length.\<close>

record MaterialRow =
  tag :: string
  density :: real
  rlength :: real
  ilength :: real

text \<open>The elementary-material record \<open>Element\<close> of the output bundle.\<close>

record Element =
  elem_tag :: string
  elem_density :: real
  atomic_weight :: real
  atomic_number :: int

text \<open>\<open>int Extractor::Z(double x0, double A)\<close>. \<open>floor\<close> returns a \<open>double\<close>, which
  \<open>int(...)\<close> converts.\<close>

definition Z :: "real \<Rightarrow> real \<Rightarrow> int" where
  "Z x0 A =
     (let d = 4 - 4 * (1.0 - 181.0 * A / x0)
      in if d > 0 then trunc_int (of_int \<lfloor>(sqrt d - 2.0) / 2.0 + 0.5\<rfloor>) else - 1)"

text \<open>The body of the loop of \<open>analyseElements\<close>: the record built from row \<open>r\<close>.
  \<open>pow(x, 3)\<close> is the third power.\<close>

definition element_of_row :: "MaterialRow \<Rightarrow> Element" where
  "element_of_row r =
     (let e_tag = tag r;
          e_density = density r;
          e_atomic_weight = (ilength r / 35) ^ 3;
          e_atomic_number = Z (rlength r) e_atomic_weight
      in \<lparr>elem_tag = e_tag, elem_density = e_density,
           atomic_weight = e_atomic_weight, atomic_number = e_atomic_number\<rparr>)"

text \<open>The loop \<open>for (unsigned int i = 0; i < mattab.rowCount(); i++)\<close>, started at
  index \<open>i\<close> with the output vector \<open>elems\<close>.\<close>

function analyseElements_from :: "MaterialRow list \<Rightarrow> nat \<Rightarrow> Element list \<Rightarrow> Element list" where
  "analyseElements_from mattab i elems =
     (if i < length mattab
      then analyseElements_from mattab (Suc i) (elems @ [element_of_row (mattab ! i)])
      else elems)"
  by pat_completeness auto
termination
  by (relation "measure (\<lambda>(mattab, i, elems). length mattab - i)") auto

declare analyseElements_from.simps [simp del]

definition analyseElements :: "MaterialRow list \<Rightarrow> Element list \<Rightarrow> Element list" where
  "analyseElements mattab elems = analyseElements_from mattab 0 elems"

text \<open>The elementary-material record as the specification words it: atomic weight
  \<open>(il/35)^3\<close>, and the atomic number from \<open>d = 4 - 4 (1 - 181 A / X0)\<close>.\<close>

definition spec_atomic_weight :: "real \<Rightarrow> real" where
  "spec_atomic_weight il = (il / 35) ^ 3"

definition spec_atomic_number :: "real \<Rightarrow> real \<Rightarrow> int" where
  "spec_atomic_number X0 A =
     (if 4 - 4 * (1 - 181 * A / X0) > 0
      then \<lfloor>(sqrt (4 - 4 * (1 - 181 * A / X0)) - 2) / 2 + 1 / 2\<rfloor>
      else - 1)"

definition spec_element :: "MaterialRow \<Rightarrow> Element" where
  "spec_element r =
     \<lparr>elem_tag = tag r, elem_density = density r,
      atomic_weight = spec_atomic_weight (ilength r),
      atomic_number = spec_atomic_number (rlength r) (spec_atomic_weight (ilength r))\<rparr>"

section \<open>Vectors, modules and material elements\<close>

text \<open>\<open>XYZVector\<close> (a Cartesian 3-vector of the geometry library): the coordinates, the
  sum, the difference, the product with a scalar, the quotient by a scalar, the
  magnitude \<open>R()\<close> and the transverse radius \<open>Rho()\<close>.\<close>

record XYZVector =
  vecX :: real
  vecY :: real
  vecZ :: real

definition vadd :: "XYZVector \<Rightarrow> XYZVector \<Rightarrow> XYZVector" where
  "vadd a b = \<lparr>vecX = vecX a + vecX b, vecY = vecY a + vecY b, vecZ = vecZ a + vecZ b\<rparr>"

definition vsub :: "XYZVector \<Rightarrow> XYZVector \<Rightarrow> XYZVector" where
  "vsub a b = \<lparr>vecX = vecX a - vecX b, vecY = vecY a - vecY b, vecZ = vecZ a - vecZ b\<rparr>"

definition smul :: "real \<Rightarrow> XYZVector \<Rightarrow> XYZVector" where
  "smul k a = \<lparr>vecX = k * vecX a, vecY = k * vecY a, vecZ = k * vecZ a\<rparr>"

definition vdiv :: "XYZVector \<Rightarrow> real \<Rightarrow> XYZVector" where
  "vdiv a k = \<lparr>vecX = vecX a / k, vecY = vecY a / k, vecZ = vecZ a / k\<rparr>"

definition R :: "XYZVector \<Rightarrow> real" where
  "R a = sqrt ((vecX a)\<^sup>2 + (vecY a)\<^sup>2 + (vecZ a)\<^sup>2)"

definition Rho :: "XYZVector \<Rightarrow> real" where
  "Rho a = sqrt ((vecX a)\<^sup>2 + (vecY a)\<^sup>2)"

definition SetZ :: "XYZVector \<Rightarrow> real \<Rightarrow> XYZVector" where
  "SetZ a z = a\<lparr>vecZ := z\<rparr>"

text \<open>The base polygon of a module has four vertices; \<open>getVertex\<close> reads one.\<close>

record Polygon =
  vertex0 :: XYZVector
  vertex1 :: XYZVector
  vertex2 :: XYZVector
  vertex3 :: XYZVector

definition getVertex :: "Polygon \<Rightarrow> nat \<Rightarrow> XYZVector" where
  "getVertex poly i =
     (if i = 0 then vertex0 poly else if i = 1 then vertex1 poly
      else if i = 2 then vertex2 poly else vertex3 poly)"

text \<open>A material element of a module (\<open>MaterialObject::Element\<close>), with the accessors
  that \<open>buildSubVolumes\<close> reads. \<open>quantityInGrams\<close> holds the value of
  \<open>quantityInGrams(module)\<close> for the module that owns the element.\<close>

record MatElement =
  componentName :: string
  elementName :: string
  targetVolume :: int
  quantityInGrams :: real

record UniRef =
  side :: int
  phi :: int
  ring :: int

record Sensor =
  numROCRows :: int
  numROCCols :: int
  numROCX :: int
  numROCY :: int

datatype ModuleShape = RECTANGULAR | WEDGE

text \<open>A detector module, with the accessors that the extractor reads. \<open>mod_length\<close> is
  the accessor \<open>length()\<close>, \<open>mod_shape\<close> is \<open>shape()\<close>.\<close>

record Module =
  area :: real
  mod_length :: real
  thickness :: real
  sensorThickness :: real
  dsDistance :: real
  frontEndHybridWidth :: real
  serviceHybridWidth :: real
  hybridThickness :: real
  supportPlateThickness :: real
  center :: XYZVector
  normal :: XYZVector
  basePoly :: Polygon
  getLocalElements :: "MatElement list"
  uniRef :: UniRef
  tiltAngle :: real
  flipped :: bool
  moduleType :: string
  numSensors :: int
  stereoRotation :: real
  innerSensor :: Sensor
  outerSensor :: Sensor
  mod_shape :: ModuleShape
  minWidth :: real
  maxWidth :: real

text \<open>The material of an object (\<open>MaterialProperties\<close>, the base class of \<open>ModuleCap\<close>
  and of \<open>InactiveElement\<close>): its category, the elemental masses it holds locally, its
  total mass, and its radiation and interaction length.\<close>

datatype Category = no_cat | b_mod | e_mod | b_ser | e_ser | b_sup | e_sup | o_sup | t_sup | u_sup

record MaterialProperties =
  getCategory :: Category
  getLocalMasses :: "(string \<times> real) list"
  getTotalMass :: real
  getRadiationLength :: real
  getInteractionLength :: real

text \<open>A module with its material (\<open>ModuleCap\<close>).\<close>

record ModuleCap = MaterialProperties +
  getModule :: Module
  getSurface :: real

text \<open>A service or support volume (\<open>InactiveElement\<close>): a tube section.\<close>

record InactiveElement = MaterialProperties +
  getInnerRadius :: real
  getRWidth :: real
  getZOffset :: real
  getZLength :: real

section \<open>Sub-volumes of a module: \<open>ModuleComplex::Volume\<close>\<close>

text \<open>A \<open>std::map<std::string, double>\<close> as the list of its entries in ascending key
  order. \<open>map_add\<close> is \<open>m[tag] += val\<close>: a missing key is inserted (at its place in
  the order) with the value \<open>0.0 + val\<close>.\<close>

fun map_add :: "string \<Rightarrow> real \<Rightarrow> (string \<times> real) list \<Rightarrow> (string \<times> real) list" where
  "map_add k v [] = [(k, 0 + v)]"
| "map_add k v ((k', v') # m) =
     (if k = k' then (k', v' + v) # m
      else if k < k' then (k, 0 + v) # (k', v') # m
      else (k', v') # map_add k v m)"

text \<open>
  Modelled from the spec: the class \<open>Volume\<close> is declared in a header that is not part
  of the sources at hand. A sub-volume has its name, its kind, the name of its parent,
  a box extent, a position relative to the module, an accumulated mass and an
  accumulated elemental-mass mapping. \<open>getVolume\<close> is the product of the three
  extents. The density read by \<open>getDensity()\<close> is taken as a parameter of the
  functions that read it.
\<close>

record Volume =
  getName :: string
  getType :: int
  getParentName :: string
  getDx :: real
  getDy :: real
  getDz :: real
  getX :: real
  getY :: real
  getZ :: real
  getMass :: real
  getMaterialList :: "(string \<times> real) list"

definition new_Volume ::
  "string \<Rightarrow> int \<Rightarrow> string \<Rightarrow> real \<Rightarrow> real \<Rightarrow> real \<Rightarrow> real \<Rightarrow> real \<Rightarrow> real \<Rightarrow> Volume" where
  "new_Volume name type pname dx dy dz posx posy posz =
     \<lparr>getName = name, getType = type, getParentName = pname,
      getDx = dx, getDy = dy, getDz = dz, getX = posx, getY = posy, getZ = posz,
      getMass = 0, getMaterialList = []\<rparr>"

definition getVolume :: "Volume \<Rightarrow> real" where
  "getVolume v = getDx v * getDy v * getDz v"

definition addMaterial :: "string \<Rightarrow> real \<Rightarrow> Volume \<Rightarrow> Volume" where
  "addMaterial tg val v = v\<lparr>getMaterialList := map_add tg val (getMaterialList v)\<rparr>"

definition addMass :: "real \<Rightarrow> Volume \<Rightarrow> Volume" where
  "addMass dm v = v\<lparr>getMass := getMass v + dm\<rparr>"

section \<open>\<open>ModuleComplex\<close>: construction\<close>

text \<open>The kinds of sub-volume and the target identifiers of a material element.\<close>

definition HybridFBLR_0 :: int where "HybridFBLR_0 = 0"
definition InnerSensor :: int where "InnerSensor = 1"
definition OuterSensor :: int where "OuterSensor = 2"
definition HybridFront :: int where "HybridFront = 3"
definition HybridBack :: int where "HybridBack = 4"
definition HybridLeft :: int where "HybridLeft = 5"
definition HybridRight :: int where "HybridRight = 6"
definition HybridBetween :: int where "HybridBetween = 7"
definition SupportPlate :: int where "SupportPlate = 8"
definition nTypes :: int where "nTypes = 9"
definition HybridFB :: int where "HybridFB = 34"
definition HybridLR :: int where "HybridLR = 56"
definition HybridFBLR_3456 :: int where "HybridFBLR_3456 = 3456"

text \<open>The members of a \<open>ModuleComplex\<close>. The members \<open>sensorThickness\<close>,
  \<open>frontEndHybridWidth\<close>, \<open>serviceHybridWidth\<close>, \<open>hybridThickness\<close>,
  \<open>supportPlateThickness\<close>, \<open>center\<close> and \<open>normal\<close> carry the prefix \<open>mc_\<close> here, and
  \<open>module\<close> is \<open>the_module\<close>. The ten members of the envelope (\<open>xmin\<close> to
  \<open>rmaxatzmax\<close>) are not initialised by the constructor; \<open>buildSubVolumes\<close> assigns all
  of them before any of them is read, and the model holds \<open>0\<close> until then.\<close>

record ModuleComplex =
  moduleId :: string
  parentId :: string
  modulecap :: ModuleCap
  the_module :: Module
  modWidth :: real
  modLength :: real
  modThickness :: real
  mc_sensorThickness :: real
  sensorDistance :: real
  mc_frontEndHybridWidth :: real
  mc_serviceHybridWidth :: real
  mc_hybridThickness :: real
  mc_supportPlateThickness :: real
  hybridTotalMass :: real
  hybridTotalVolume_mm3 :: real
  hybridFrontAndBackVolume_mm3 :: real
  hybridLeftAndRightVolume_mm3 :: real
  moduleMassWithoutSensors_expected :: real
  expandedModWidth :: real
  expandedModLength :: real
  expandedModThickness :: real
  mc_center :: XYZVector
  mc_normal :: XYZVector
  prefix_xmlfile :: string
  prefix_material :: string
  volumes :: "Volume list"
  vertex :: "XYZVector list"
  xmin :: real
  xmax :: real
  ymin :: real
  ymax :: real
  zmin :: real
  zmax :: real
  rmin :: real
  rmax :: real
  rminatzmin :: real
  rmaxatzmax :: real

text \<open>The constructor \<open>ModuleComplex(moduleName, parentName, modcap)\<close>.\<close>

definition new_ModuleComplex :: "string \<Rightarrow> string \<Rightarrow> ModuleCap \<Rightarrow> ModuleComplex" where
  "new_ModuleComplex moduleName parentName modcap =
     (let m = getModule modcap;
          w = area m / mod_length m;
          l = mod_length m
      in \<lparr>moduleId = moduleName,
          parentId = parentName,
          modulecap = modcap,
          the_module = m,
          modWidth = w,
          modLength = l,
          modThickness = thickness m,
          mc_sensorThickness = sensorThickness m,
          sensorDistance = dsDistance m,
          mc_frontEndHybridWidth = frontEndHybridWidth m,
          mc_serviceHybridWidth = serviceHybridWidth m,
          mc_hybridThickness = hybridThickness m,
          mc_supportPlateThickness = supportPlateThickness m,
          hybridTotalMass = 0,
          hybridTotalVolume_mm3 = - 1,
          hybridFrontAndBackVolume_mm3 = - 1,
          hybridLeftAndRightVolume_mm3 = - 1,
          moduleMassWithoutSensors_expected = 0,
          expandedModWidth = w + 2 * serviceHybridWidth m,
          expandedModLength = l + 2 * frontEndHybridWidth m,
          expandedModThickness = dsDistance m + 2 * (supportPlateThickness m + sensorThickness m),
          mc_center = center m,
          mc_normal = normal m,
          prefix_xmlfile = ''tracker:'',
          prefix_material = ''hybridcomposite'',
          volumes = [],
          vertex = [],
          xmin = 0, xmax = 0, ymin = 0, ymax = 0, zmin = 0, zmax = 0,
          rmin = 0, rmax = 0, rminatzmin = 0, rmaxatzmax = 0\<rparr>)"

section \<open>\<open>ModuleComplex::buildSubVolumes\<close>\<close>

text \<open>The ways in which \<open>buildSubVolumes\<close> does not return: the two calls of
  \<open>std::exit(1)\<close>, each after an error message that carries the target identifier, and
  the dereference of the end iterator that \<open>std::min_element\<close> and
  \<open>std::max_element\<close> return on an empty vector.\<close>

datatype fatal =
    SensorTargetVolume int
  | UnsupportedTargetVolume int
  | EmptyRange

definition and_then :: "fatal + 'a \<Rightarrow> ('a \<Rightarrow> fatal + 'b) \<Rightarrow> fatal + 'b" where
  "and_then r f = (case r of Inl e \<Rightarrow> Inl e | Inr x \<Rightarrow> f x)"

definition min_element :: "real list \<Rightarrow> fatal + real" where
  "min_element xs = (case xs of [] \<Rightarrow> Inl EmptyRange | y # ys \<Rightarrow> Inr (foldl min y ys))"

definition max_element :: "real list \<Rightarrow> fatal + real" where
  "max_element xs = (case xs of [] \<Rightarrow> Inl EmptyRange | y # ys \<Rightarrow> Inr (foldl max y ys))"

subsection \<open>The six sub-volumes\<close>

text \<open>The local array \<open>Volume* vol[nTypes]\<close>: entries 0 to 2 are null, entries 3 to 8
  point to the six volumes.\<close>

definition make_volumes :: "ModuleComplex \<Rightarrow> Volume option list" where
  "make_volumes mc =
     (let dx = mc_serviceHybridWidth mc;
          dy = modLength mc;
          dz = mc_hybridThickness mc;
          posx = (modWidth mc + mc_serviceHybridWidth mc) / 2;
          posy = 0;
          posz = 0;
          front = new_Volume (moduleId mc @ ''FSide'') HybridFront (parentId mc) dx dy dz posx posy posz;
          posx = - (modWidth mc + mc_serviceHybridWidth mc) / 2;
          posy = 0;
          posz = 0;
          back = new_Volume (moduleId mc @ ''BSide'') HybridBack (parentId mc) dx dy dz posx posy posz;
          dx = modWidth mc + 2 * mc_serviceHybridWidth mc;
          dy = mc_frontEndHybridWidth mc;
          posx = 0;
          posy = (modLength mc + mc_frontEndHybridWidth mc) / 2;
          posz = 0;
          left = new_Volume (moduleId mc @ ''LSide'') HybridLeft (parentId mc) dx dy dz posx posy posz;
          posx = 0;
          posy = - (modLength mc + mc_frontEndHybridWidth mc) / 2;
          posz = 0;
          right = new_Volume (moduleId mc @ ''RSide'') HybridRight (parentId mc) dx dy dz posx posy posz;
          dx = modWidth mc;
          dy = modLength mc;
          posx = 0;
          posy = 0;
          posz = 0;
          between = new_Volume (moduleId mc @ ''Between'') HybridBetween (parentId mc) dx dy dz posx posy posz;
          dx = expandedModWidth mc;
          dy = expandedModLength mc;
          dz = mc_supportPlateThickness mc;
          posx = 0;
          posy = 0;
          posz = - ((sensorDistance mc + mc_supportPlateThickness mc) / 2 + mc_sensorThickness mc);
          plate = new_Volume (moduleId mc @ ''SupportPlate'') SupportPlate (parentId mc) dx dy dz posx posy posz
      in [None, None, None, Some front, Some back, Some left, Some right, Some between, Some plate])"

text \<open>\<open>vol[i]->f(...)\<close> for a member function that changes the volume, and
  \<open>vol[i]->getVolume()\<close>. The entries that the source dereferences are never null.\<close>

definition on_vol :: "int \<Rightarrow> (Volume \<Rightarrow> Volume) \<Rightarrow> Volume option list \<Rightarrow> Volume option list" where
  "on_vol i f vol = vol[nat i := map_option f (vol ! nat i)]"

definition vol_getVolume :: "Volume option list \<Rightarrow> int \<Rightarrow> real" where
  "vol_getVolume vol i = (case vol ! nat i of Some v \<Rightarrow> getVolume v | None \<Rightarrow> 0)"

subsection \<open>The envelope\<close>

text \<open>The four vertices of the base polygon after the expansion by the hybrids.\<close>

definition expanded_vertices :: "ModuleComplex \<Rightarrow> XYZVector list" where
  "expanded_vertices mc =
     (let m = the_module mc;
          mx = vsub (smul 0.5 (vadd (getVertex (basePoly m) 2) (getVertex (basePoly m) 3))) (mc_center mc);
          my = vsub (smul 0.5 (vadd (getVertex (basePoly m) 1) (getVertex (basePoly m) 2))) (mc_center mc);
          a = expandedModWidth mc / modWidth mc;
          b = expandedModLength mc / modLength mc
      in [vsub (vsub (center m) (smul a mx)) (smul b my),
          vadd (vsub (center m) (smul a mx)) (smul b my),
          vadd (vadd (center m) (smul a mx)) (smul b my),
          vsub (vadd (center m) (smul a mx)) (smul b my)])"

text \<open>The corners of the top and of the bottom surface (\<open>v_top[0..3]\<close>,
  \<open>v_bottom[0..3]\<close>).\<close>

definition v_top :: "ModuleComplex \<Rightarrow> XYZVector list" where
  "v_top mc =
     map (\<lambda>v. vadd v (smul (0.5 * expandedModThickness mc) (mc_normal mc))) (expanded_vertices mc)"

definition v_bottom :: "ModuleComplex \<Rightarrow> XYZVector list" where
  "v_bottom mc =
     map (\<lambda>v. vsub v (smul (0.5 * expandedModThickness mc) (mc_normal mc))) (expanded_vertices mc)"

text \<open>The order in which the first loop pushes: top, bottom, top, bottom, ...\<close>

fun interleave :: "'a list \<Rightarrow> 'a list \<Rightarrow> 'a list" where
  "interleave (x # xs) (y # ys) = x # y # interleave xs ys"
| "interleave xs ys = []"

text \<open>The mid-points of the four edges of a surface: \<open>(v[ip] + v[ip+1]) / 2.0\<close>, where
  \<open>v[4]\<close> is a copy of \<open>v[0]\<close>.\<close>

definition mid_points :: "XYZVector list \<Rightarrow> XYZVector list" where
  "mid_points vs = map (\<lambda>ip. vdiv (vadd (vs ! ip) ((vs @ [vs ! 0]) ! (ip + 1))) 2) [0..<4]"

definition v_mid_top :: "ModuleComplex \<Rightarrow> XYZVector list" where
  "v_mid_top mc = mid_points (v_top mc)"

definition v_mid_bottom :: "ModuleComplex \<Rightarrow> XYZVector list" where
  "v_mid_bottom mc = mid_points (v_bottom mc)"

text \<open>One pass of the loop that fills \<open>ratzminv\<close>, \<open>ratzmaxv\<close> and \<open>rv\<close>, for the bottom
  corner \<open>vb\<close>, the top corner \<open>vt\<close>, the bottom mid-point \<open>vmb\<close> and the top mid-point
  \<open>vmt\<close> of index \<open>ip\<close>. The source projects a point in place (\<open>SetZ(0.)\<close>) as soon as
  a test on it succeeds, so a later test on the same point reads the projected
  point.\<close>

definition radius_step ::
  "real \<Rightarrow> real \<Rightarrow> XYZVector \<times> XYZVector \<times> XYZVector \<times> XYZVector \<Rightarrow>
   real list \<times> real list \<times> real list \<Rightarrow> real list \<times> real list \<times> real list" where
  "radius_step z_min z_max pts acc =
     (let (vb, vt, vmb, vmt) = pts;
          (ratzminv, ratzmaxv, rv) = acc;
          (vb, ratzminv) =
            (if \<bar>vecZ vb - z_min\<bar> < 0.001 then (SetZ vb 0, ratzminv @ [R (SetZ vb 0)]) else (vb, ratzminv));
          (vb, ratzmaxv) =
            (if \<bar>vecZ vb - z_max\<bar> < 0.001 then (SetZ vb 0, ratzmaxv @ [R (SetZ vb 0)]) else (vb, ratzmaxv));
          vb = SetZ vb 0;
          rv = rv @ [R vb];
          (vt, ratzminv) =
            (if \<bar>vecZ vt - z_min\<bar> < 0.001 then (SetZ vt 0, ratzminv @ [R (SetZ vt 0)]) else (vt, ratzminv));
          (vt, ratzmaxv) =
            (if \<bar>vecZ vt - z_max\<bar> < 0.001 then (SetZ vt 0, ratzmaxv @ [R (SetZ vt 0)]) else (vt, ratzmaxv));
          vt = SetZ vt 0;
          rv = rv @ [R vt];
          (vmb, ratzminv) =
            (if \<bar>vecZ vmb - z_min\<bar> < 0.001 then (SetZ vmb 0, ratzminv @ [R (SetZ vmb 0)]) else (vmb, ratzminv));
          vmb = SetZ vmb 0;
          rv = rv @ [R vmb];
          (vmt, ratzminv) =
            (if \<bar>vecZ vmt - z_min\<bar> < 0.001 then (SetZ vmt 0, ratzminv @ [R (SetZ vmt 0)]) else (vmt, ratzminv));
          vmt = SetZ vmt 0;
          rv = rv @ [R vmt]
      in (ratzminv, ratzmaxv, rv))"

text \<open>The loop over \<open>ip = 0, ..., 3\<close>.\<close>

definition radius_lists :: "ModuleComplex \<Rightarrow> real \<Rightarrow> real \<Rightarrow> real list \<times> real list \<times> real list" where
  "radius_lists mc z_min z_max =
     foldl (\<lambda>acc ip. radius_step z_min z_max
                (v_bottom mc ! ip, v_top mc ! ip, v_mid_bottom mc ! ip, v_mid_top mc ! ip) acc)
       ([], [], []) [0..<4]"

subsection \<open>The material assignment\<close>

definition is_sensor_component :: "string \<Rightarrow> bool" where
  "is_sensor_component n \<longleftrightarrow>
     n = ''Sensor'' \<or> n = ''Sensors'' \<or> n = ''PS Sensor'' \<or> n = ''PS Sensors'' \<or>
     n = ''2S Sensor'' \<or> n = ''2S Sensors''"

text \<open>The body of the loop over the material elements of the module. The state is the
  object (for the members \<open>moduleMassWithoutSensors_expected\<close> and the three cached
  volumes) and the array \<open>vol\<close>.\<close>

definition assign_element ::
  "MatElement \<Rightarrow> ModuleComplex \<times> Volume option list \<Rightarrow> fatal + (ModuleComplex \<times> Volume option list)" where
  "assign_element el st =
     (let (mc, vol) = st;
          t = targetVolume el;
          q = quantityInGrams el;
          n = elementName el
      in if is_sensor_component (componentName el) then Inr (mc, vol)
         else if t = InnerSensor \<or> t = OuterSensor then Inl (SensorTargetVolume t)
         else if t \<ge> nTypes \<and> t \<noteq> HybridFB \<and> t \<noteq> HybridLR \<and> t \<noteq> HybridFBLR_3456
           then Inl (UnsupportedTargetVolume t)
         else
           (let mc = mc\<lparr>moduleMassWithoutSensors_expected := moduleMassWithoutSensors_expected mc + q\<rparr>
            in if t = HybridFront \<or> t = HybridBack \<or> t = HybridLeft \<or> t = HybridRight \<or>
                  t = HybridBetween \<or> t = SupportPlate
               then
                 (let vol = on_vol t (addMaterial n q) vol;
                      vol = on_vol t (addMass q) vol
                  in Inr (mc, vol))
               else if t = HybridFB then
                 (let mc = (if hybridFrontAndBackVolume_mm3 mc < 0
                            then mc\<lparr>hybridFrontAndBackVolume_mm3 :=
                                     vol_getVolume vol HybridFront + vol_getVolume vol HybridBack\<rparr>
                            else mc);
                      vol = on_vol HybridFront (addMaterial n q) vol;
                      vol = on_vol HybridBack (addMaterial n q) vol;
                      vol = on_vol HybridFront
                              (addMass (q * vol_getVolume vol HybridFront / hybridFrontAndBackVolume_mm3 mc)) vol;
                      vol = on_vol HybridBack
                              (addMass (q * vol_getVolume vol HybridBack / hybridFrontAndBackVolume_mm3 mc)) vol
                  in Inr (mc, vol))
               else if t = HybridLR then
                 (let mc = (if hybridLeftAndRightVolume_mm3 mc < 0
                            then mc\<lparr>hybridLeftAndRightVolume_mm3 :=
                                     vol_getVolume vol HybridLeft + vol_getVolume vol HybridRight\<rparr>
                            else mc);
                      vol = on_vol HybridLeft (addMaterial n q) vol;
                      vol = on_vol HybridRight (addMaterial n q) vol;
                      vol = on_vol HybridLeft
                              (addMass (q * vol_getVolume vol HybridLeft / hybridLeftAndRightVolume_mm3 mc)) vol;
                      vol = on_vol HybridRight
                              (addMass (q * vol_getVolume vol HybridRight / hybridLeftAndRightVolume_mm3 mc)) vol
                  in Inr (mc, vol))
               else if t = HybridFBLR_0 \<or> t = HybridFBLR_3456 then
                 (let vol = on_vol HybridFront (addMaterial n q) vol;
                      vol = on_vol HybridBack (addMaterial n q) vol;
                      vol = on_vol HybridLeft (addMaterial n q) vol;
                      vol = on_vol HybridRight (addMaterial n q) vol;
                      mc = (if hybridTotalVolume_mm3 mc < 0
                            then mc\<lparr>hybridTotalVolume_mm3 :=
                                     vol_getVolume vol HybridFront + vol_getVolume vol HybridBack +
                                     vol_getVolume vol HybridLeft + vol_getVolume vol HybridRight\<rparr>
                            else mc);
                      vol = on_vol HybridFront
                              (addMass (q * vol_getVolume vol HybridFront / hybridTotalVolume_mm3 mc)) vol;
                      vol = on_vol HybridBack
                              (addMass (q * vol_getVolume vol HybridBack / hybridTotalVolume_mm3 mc)) vol;
                      vol = on_vol HybridLeft
                              (addMass (q * vol_getVolume vol HybridLeft / hybridTotalVolume_mm3 mc)) vol;
                      vol = on_vol HybridRight
                              (addMass (q * vol_getVolume vol HybridRight / hybridTotalVolume_mm3 mc)) vol
                  in Inr (mc, vol))
               else Inr (mc, vol)))"

text \<open>The loop over \<open>matElements\<close>: it stops at the first element that exits the
  process.\<close>

fun assign_elements ::
  "MatElement list \<Rightarrow> ModuleComplex \<times> Volume option list \<Rightarrow> fatal + (ModuleComplex \<times> Volume option list)" where
  "assign_elements [] st = Inr st"
| "assign_elements (el # els) st = and_then (assign_element el st) (assign_elements els)"

subsection \<open>The whole function\<close>

text \<open>The entries 3 to 8 of \<open>vol\<close>, in the order in which they are pushed to
  \<open>volumes\<close>.\<close>

definition pushed_volumes :: "Volume option list \<Rightarrow> Volume list" where
  "pushed_volumes vol =
     concat (map (\<lambda>i. case vol ! nat i of Some v \<Rightarrow> [v] | None \<Rightarrow> [])
       [HybridFront, HybridBack, HybridLeft, HybridRight, HybridBetween, SupportPlate])"

definition buildSubVolumes :: "ModuleComplex \<Rightarrow> fatal + ModuleComplex" where
  "buildSubVolumes mc =
     (let vol = make_volumes mc;
          tops = v_top mc;
          bottoms = v_bottom mc;
          mc = mc\<lparr>vertex := vertex mc @ interleave tops bottoms\<rparr>;
          xv = interleave (map vecX tops) (map vecX bottoms);
          yv = interleave (map vecY tops) (map vecY bottoms);
          zv = interleave (map vecZ tops) (map vecZ bottoms)
      in and_then (min_element xv) (\<lambda>x_min.
         and_then (max_element xv) (\<lambda>x_max.
         and_then (min_element yv) (\<lambda>y_min.
         and_then (max_element yv) (\<lambda>y_max.
         and_then (min_element zv) (\<lambda>z_min.
         and_then (max_element zv) (\<lambda>z_max.
           (let (ratzminv, ratzmaxv, rv) = radius_lists mc z_min z_max
            in and_then (min_element rv) (\<lambda>r_min.
               and_then (max_element rv) (\<lambda>r_max.
               and_then (min_element ratzminv) (\<lambda>r_minatzmin.
               and_then (max_element ratzmaxv) (\<lambda>r_maxatzmax.
                 (let mc = mc\<lparr>xmin := x_min, xmax := x_max, ymin := y_min, ymax := y_max,
                               zmin := z_min, zmax := z_max, rmin := r_min, rmax := r_max,
                               rminatzmin := r_minatzmin, rmaxatzmax := r_maxatzmax\<rparr>
                  in and_then (assign_elements (getLocalElements (the_module mc)) (mc, vol))
                       (\<lambda>(mc, vol). Inr (mc\<lparr>volumes := volumes mc @ pushed_volumes vol\<rparr>)))))))))))))))"

section \<open>Notions used in the statements about \<open>buildSubVolumes\<close>\<close>

text \<open>The box extent of a sub-volume, and the ten members of the envelope.\<close>

definition extent :: "Volume \<Rightarrow> real \<times> real \<times> real" where
  "extent v = (getDx v, getDy v, getDz v)"

definition envelope :: "ModuleComplex \<Rightarrow> real list" where
  "envelope mc = [xmin mc, xmax mc, ymin mc, ymax mc, zmin mc, zmax mc, rmin mc, rmax mc,
     rminatzmin mc, rmaxatzmax mc]"

text \<open>The eight corner points, and the sixteen points (corners and edge mid-points) of
  the expanded module.\<close>

definition corners8 :: "ModuleComplex \<Rightarrow> XYZVector list" where
  "corners8 mc = v_top mc @ v_bottom mc"

definition points16 :: "ModuleComplex \<Rightarrow> XYZVector list" where
  "points16 mc = v_top mc @ v_bottom mc @ v_mid_top mc @ v_mid_bottom mc"

text \<open>The radius of a point after its projection onto the plane perpendicular to the
  beam axis (\<open>z\<close> set to \<open>0\<close>).\<close>

definition projected_radius :: "XYZVector \<Rightarrow> real" where
  "projected_radius p = sqrt ((vecX p)\<^sup>2 + (vecY p)\<^sup>2)"

text \<open>\<open>near z p\<close>: the point \<open>p\<close> lies at \<open>z\<close> within the tolerance \<open>0.001\<close>.
  \<open>tested_at_zmax\<close> is the test that the loop applies to a corner for \<open>ratzmaxv\<close>: a
  corner that passed the test at \<open>zmin\<close> has been projected before, and is tested
  with \<open>z = 0\<close>.\<close>

definition near :: "real \<Rightarrow> XYZVector \<Rightarrow> bool" where
  "near z p \<longleftrightarrow> \<bar>vecZ p - z\<bar> < 1 / 1000"

definition tested_at_zmax :: "real \<Rightarrow> real \<Rightarrow> XYZVector \<Rightarrow> bool" where
  "tested_at_zmax z_min z_max p \<longleftrightarrow> (if near z_min p then \<bar>0 - z_max\<bar> < 1 / 1000 else near z_max p)"

text \<open>The points in the order in which the loop visits them.\<close>

definition loop_points :: "ModuleComplex \<Rightarrow> XYZVector list" where
  "loop_points mc =
     concat (map (\<lambda>ip. [v_bottom mc ! ip, v_top mc ! ip, v_mid_bottom mc ! ip, v_mid_top mc ! ip]) [0..<4])"

definition loop_corners :: "ModuleComplex \<Rightarrow> XYZVector list" where
  "loop_corners mc = concat (map (\<lambda>ip. [v_bottom mc ! ip, v_top mc ! ip]) [0..<4])"

text \<open>\<open>rejected el\<close>: the element is not a sensor component, and its target is a
  sensor volume (1, 2) or an identifier from 9 on that is none of 34, 56, 3456.
  \<open>exit_of el\<close> is the way in which the process then stops.\<close>

definition rejected :: "MatElement \<Rightarrow> bool" where
  "rejected el \<longleftrightarrow>
     \<not> is_sensor_component (componentName el) \<and>
     (targetVolume el = 1 \<or> targetVolume el = 2 \<or>
      (9 \<le> targetVolume el \<and> targetVolume el \<noteq> 34 \<and> targetVolume el \<noteq> 56 \<and> targetVolume el \<noteq> 3456))"

definition exit_of :: "MatElement \<Rightarrow> fatal" where
  "exit_of el =
     (if targetVolume el = 1 \<or> targetVolume el = 2 then SensorTargetVolume (targetVolume el)
      else UnsupportedTargetVolume (targetVolume el))"

section \<open>Example modules\<close>

text \<open>A rectangular module of an endcap disc, normal to the beam axis, with the material
  elements \<open>els\<close>.\<close>

definition ex_module :: "MatElement list \<Rightarrow> Module" where
  "ex_module els =
     \<lparr>area = 40, mod_length = 2, thickness = 2, sensorThickness = 0, dsDistance = 2,
      frontEndHybridWidth = 1, serviceHybridWidth = 5, hybridThickness = 1,
      supportPlateThickness = 0,
      center = \<lparr>vecX = 100, vecY = 0, vecZ = 50\<rparr>,
      normal = \<lparr>vecX = 0, vecY = 0, vecZ = 1\<rparr>,
      basePoly = \<lparr>vertex0 = \<lparr>vecX = 90, vecY = - 1, vecZ = 50\<rparr>,
                  vertex1 = \<lparr>vecX = 90, vecY = 1, vecZ = 50\<rparr>,
                  vertex2 = \<lparr>vecX = 110, vecY = 1, vecZ = 50\<rparr>,
                  vertex3 = \<lparr>vecX = 110, vecY = - 1, vecZ = 50\<rparr>\<rparr>,
      getLocalElements = els,
      uniRef = \<lparr>side = 1, phi = 1, ring = 1\<rparr>,
      tiltAngle = 0, flipped = False, moduleType = ''pt2S'', numSensors = 2,
      stereoRotation = 0,
      innerSensor = \<lparr>numROCRows = 1, numROCCols = 1, numROCX = 1, numROCY = 1\<rparr>,
      outerSensor = \<lparr>numROCRows = 1, numROCCols = 1, numROCX = 1, numROCY = 1\<rparr>,
      mod_shape = RECTANGULAR, minWidth = 20, maxWidth = 20\<rparr>"

definition ex_cap :: "MatElement list \<Rightarrow> ModuleCap" where
  "ex_cap els = \<lparr>getCategory = e_mod, getLocalMasses = [], getTotalMass = 0,
     getRadiationLength = 0, getInteractionLength = 0,
     getModule = ex_module els, getSurface = 40\<rparr>"

definition ex_mc :: "MatElement list \<Rightarrow> ModuleComplex" where
  "ex_mc els = new_ModuleComplex ''EModule1Disc1'' ''EModule1Disc1'' (ex_cap els)"

text \<open>The same module without hybrids, its base polygon inclined by \<open>0.0015\<close> over
  its width.\<close>

definition tilted_module :: Module where
  "tilted_module =
     (ex_module [])\<lparr>frontEndHybridWidth := 0, serviceHybridWidth := 0,
      basePoly := \<lparr>vertex0 = \<lparr>vecX = 90, vecY = - 1, vecZ = 50 + 3 / 4000\<rparr>,
                   vertex1 = \<lparr>vecX = 90, vecY = 1, vecZ = 50 + 3 / 4000\<rparr>,
                   vertex2 = \<lparr>vecX = 110, vecY = 1, vecZ = 50 - 3 / 4000\<rparr>,
                   vertex3 = \<lparr>vecX = 110, vecY = - 1, vecZ = 50 - 3 / 4000\<rparr>\<rparr>\<rparr>"

definition tilted_mc :: ModuleComplex where
  "tilted_mc = new_ModuleComplex ''EModule1Disc1'' ''EModule1Disc1''
     \<lparr>getCategory = e_mod, getLocalMasses = [], getTotalMass = 0,
      getRadiationLength = 0, getInteractionLength = 0,
      getModule = tilted_module, getSurface = 40\<rparr>"

text \<open>Three material elements: copper on the front hybrid, copper sent to the inner
  sensor volume, and a sensor component with a target identifier that does not
  exist.\<close>

definition hybrid_element :: MatElement where
  "hybrid_element = \<lparr>componentName = ''Hybrid'', elementName = ''Cu'', targetVolume = 3, quantityInGrams = 4\<rparr>"

definition misplaced_element :: MatElement where
  "misplaced_element = \<lparr>componentName = ''Hybrid'', elementName = ''Cu'', targetVolume = 1, quantityInGrams = 4\<rparr>"

definition sensor_element :: MatElement where
  "sensor_element = \<lparr>componentName = ''Sensor'', elementName = ''SenSi'', targetVolume = 99, quantityInGrams = 3\<rparr>"

section \<open>Constants, number formatting and output records\<close>

text \<open>The named constants of the extractor (\<open>xml_...\<close>), which a header outside the
  sources at hand defines, are fields of one record that every pass takes as its first
  argument. The record also holds what \<open>operator<<\<close> prints for a \<open>double\<close>
  (\<open>show_double\<close>) and the integral value that it prints for a category
  (\<open>category_code\<close>).\<close>

record Constants =
  rot_sensor_tag :: string
  type_stereo :: string
  xml_2OTbar :: string
  xml_2OTfwd :: string
  xml_algorithm_numeric :: string
  xml_algorithm_string :: string
  xml_algorithm_value :: string
  xml_algorithm_vector_close :: string
  xml_algorithm_vector_open :: string
  xml_barrel_module :: string
  xml_base_2s :: string
  xml_base_act :: string
  xml_base_lazy :: string
  xml_base_lazycomp :: string
  xml_base_lower :: string
  xml_base_pixel :: string
  xml_base_ps :: string
  xml_base_serf :: string
  xml_base_serfcomp :: string
  xml_base_strip :: string
  xml_base_upper :: string
  xml_base_waf :: string
  xml_childparam :: string
  xml_det_layer :: string
  xml_det_ring :: string
  xml_det_straight_or_tilted_rod :: string
  xml_det_tiddet :: string
  xml_det_tobdet :: string
  xml_det_wheel :: string
  xml_disc :: string
  xml_endcap_module :: string
  xml_fileident :: string
  xml_flip_mod_rot :: string
  xml_general_endline :: string
  xml_incrcopyno :: string
  xml_isflipped :: string
  xml_iszplus :: string
  xml_layer :: string
  xml_material_air :: string
  xml_minus :: string
  xml_newfileident :: string
  xml_nmods :: string
  xml_number :: string
  xml_par_tail :: string
  xml_phialt_algo :: string
  xml_pixbarident :: string
  xml_pixfwdident :: string
  xml_places_flipped_mod_in_rod :: string
  xml_places_unflipped_mod_in_rod :: string
  xml_plus :: string
  xml_radius :: string
  xml_radiusin :: string
  xml_radiusout :: string
  xml_rangeangle :: string
  xml_ring :: string
  xml_rod :: string
  xml_sensor_silicon :: string
  xml_startangle :: string
  xml_startcopyno :: string
  xml_subdet_2OT_barrel_stack :: string
  xml_subdet_2OT_endcap_stack :: string
  xml_subdet_barrel_stack :: string
  xml_subdet_endcap_stack :: string
  xml_subdet_layer :: string
  xml_subdet_ring :: string
  xml_subdet_straight_or_tilted_rod :: string
  xml_subdet_tiddet :: string
  xml_subdet_tobdet :: string
  xml_subdet_wheel :: string
  xml_tid :: string
  xml_tilt :: string
  xml_tiltangle :: string
  xml_tkddd_structure :: string
  xml_tob :: string
  xml_tracker :: string
  xml_trackerring_algo :: string
  xml_zposition :: string
  xml_epsilon :: real
  xml_z_pixfwd :: real
  show_double :: "real \<Rightarrow> string"
  category_code :: "Category \<Rightarrow> int"

text \<open>What \<open>operator<<\<close> prints for an \<open>int\<close>: the decimal digits, after a minus sign for
  a negative number.\<close>

definition digit_char :: "nat \<Rightarrow> char" where
  "digit_char d = char_of (48 + d)"

function show_nat :: "nat \<Rightarrow> string" where
  "show_nat n = (if n < 10 then [digit_char n] else show_nat (n div 10) @ [digit_char (n mod 10)])"
  by pat_completeness auto
termination
  by (relation "measure id") auto

declare show_nat.simps [simp del]

definition show_int :: "int \<Rightarrow> string" where
  "show_int i = (if i < 0 then ''-'' @ show_nat (nat (- i)) else show_nat (nat i))"

text \<open>The records of the output bundle. Their declarations are in a header outside the
  sources at hand; the fields, and the enumerators of the three
  enumerations, are those that the sources name. The fields carry a
  prefix for the record: \<open>comp_\<close> (\<open>Composite\<close>), \<open>sh_\<close> (\<open>ShapeInfo\<close>), \<open>so_\<close>
  (\<open>ShapeOperationInfo\<close>), \<open>lg_\<close> (\<open>LogicalInfo\<close>), \<open>tr_\<close> (\<open>Translation\<close>), \<open>pos_\<close>
  (\<open>PosInfo\<close>), \<open>alg_\<close> (\<open>AlgoInfo\<close>), \<open>rot_\<close> (\<open>Rotation\<close>), \<open>roc_\<close>
  (\<open>ModuleROCInfo\<close>), \<open>spec_\<close> (\<open>SpecParInfo\<close>) and \<open>ril_\<close> (\<open>RILengthInfo\<close>).\<close>

datatype CompType = wt

record Composite =
  comp_name :: string
  comp_density :: real
  comp_method :: CompType
  comp_elements :: "(string \<times> real) list"

datatype ShapeType = bx | tb | co | tp | pc

record ShapeInfo =
  sh_type :: ShapeType
  sh_name_tag :: string
  sh_dx :: real
  sh_dxx :: real
  sh_dy :: real
  sh_dyy :: real
  sh_dz :: real
  sh_rmin :: real
  sh_rmax :: real
  sh_rmin1 :: real
  sh_rmax1 :: real
  sh_rmin2 :: real
  sh_rmax2 :: real
  sh_rzup :: "(real \<times> real) list"
  sh_rzdown :: "(real \<times> real) list"

datatype ShapeOperationType = intersec

record ShapeOperationInfo =
  so_type :: ShapeOperationType
  so_name_tag :: string
  so_rSolid1 :: string
  so_rSolid2 :: string

record LogicalInfo =
  lg_name_tag :: string
  lg_shape_tag :: string
  lg_material_tag :: string
  lg_extra :: string

record Translation =
  tr_dx :: real
  tr_dy :: real
  tr_dz :: real

record PosInfo =
  pos_parent_tag :: string
  pos_child_tag :: string
  pos_trans :: Translation
  pos_rotref :: string
  pos_copy :: int

record AlgoInfo =
  alg_name :: string
  alg_parent :: string
  alg_parameters :: "string list"

record Rotation =
  rot_name :: string
  rot_thetax :: real
  rot_phix :: real
  rot_thetay :: real
  rot_phiy :: real
  rot_thetaz :: real
  rot_phiz :: real

record ModuleROCInfo =
  roc_name :: string
  roc_rocrows :: string
  roc_roccols :: string
  roc_rocx :: string
  roc_rocy :: string

record SpecParInfo =
  spec_name :: string
  spec_parameter :: "string \<times> string"
  spec_partselectors :: "string list"
  spec_moduletypes :: "ModuleROCInfo list"
  spec_partextras :: "string list"

record RILengthInfo =
  ril_barrel :: bool
  ril_index :: int
  ril_rlength :: real
  ril_ilength :: real

section \<open>Composite materials\<close>

text \<open>\<open>Extractor::createComposite(name, density, mp, nosensors)\<close>. The first loop walks
  the local masses of \<open>mp\<close> and keeps an entry unless \<open>nosensors\<close> is set and the entry is
  the sensor silicon; \<open>m\<close> is the sum of the masses kept.\<close>

fun collect_elements ::
  "string \<Rightarrow> bool \<Rightarrow> (string \<times> real) list \<Rightarrow> (string \<times> real) list \<times> real \<Rightarrow>
   (string \<times> real) list \<times> real" where
  "collect_elements sensor_silicon nosensors [] acc = acc"
| "collect_elements sensor_silicon nosensors (it # rest) acc =
     (if \<not> nosensors \<or> fst it \<noteq> sensor_silicon
      then collect_elements sensor_silicon nosensors rest (fst acc @ [it], snd acc + snd it)
      else collect_elements sensor_silicon nosensors rest acc)"

text \<open>The second loop, \<open>for (i = 0; i < comp.elements.size(); i++)\<close>, divides the mass of
  every entry by \<open>m\<close>.\<close>

function normalise_from :: "real \<Rightarrow> nat \<Rightarrow> (string \<times> real) list \<Rightarrow> (string \<times> real) list" where
  "normalise_from m i elems =
     (if i < length elems
      then normalise_from m (Suc i) (elems[i := (fst (elems ! i), snd (elems ! i) / m)])
      else elems)"
  by pat_completeness auto
termination
  by (relation "measure (\<lambda>(m, i, elems). length elems - i)") auto

declare normalise_from.simps [simp del]

definition createComposite ::
  "Constants \<Rightarrow> string \<Rightarrow> real \<Rightarrow> 'a MaterialProperties_scheme \<Rightarrow> bool \<Rightarrow> Composite" where
  "createComposite K name dens mp nosensors =
     (let (elems, m) = collect_elements (xml_sensor_silicon K) nosensors (getLocalMasses mp) ([], 0)
      in \<lparr>comp_name = name, comp_density = dens, comp_method = wt,
          comp_elements = normalise_from m 0 elems\<rparr>)"

text \<open>\<open>Extractor::compositeDensity(InactiveElement& ie)\<close>.\<close>

definition compositeDensity_ie :: "InactiveElement \<Rightarrow> real" where
  "compositeDensity_ie ie =
     (let d = getRWidth ie + getInnerRadius ie;
          d = d * d - getInnerRadius ie * getInnerRadius ie;
          d = 1000 * getTotalMass ie / (pi * getZLength ie * d)
      in d)"

text \<open>\<open>Extractor::compositeDensity(ModuleCap& mc, bool nosensors)\<close>.\<close>

fun non_sensor_mass :: "string \<Rightarrow> (string \<times> real) list \<Rightarrow> real \<Rightarrow> real" where
  "non_sensor_mass sensor_silicon [] m = m"
| "non_sensor_mass sensor_silicon (it # rest) m =
     non_sensor_mass sensor_silicon rest (if fst it \<noteq> sensor_silicon then m + snd it else m)"

definition compositeDensity :: "Constants \<Rightarrow> ModuleCap \<Rightarrow> bool \<Rightarrow> real" where
  "compositeDensity K mc nosensors =
     (let d = getSurface mc * thickness (getModule mc)
      in if nosensors
         then 1000 * non_sensor_mass (xml_sensor_silicon K) (getLocalMasses mc) 0 / d
         else 1000 * getTotalMass mc / d)"

section \<open>The records that a \<open>ModuleComplex\<close> adds for its sub-volumes\<close>

text \<open>\<open>addShapeInfo\<close>, \<open>addLogicInfo\<close>, \<open>addPositionInfo\<close> and \<open>addMaterialInfo\<close> walk
  \<open>volumes\<close> and skip a volume unless its density is positive. The local record \<open>ele\<close>
  is declared once before the loop, so a field that the loop does not assign keeps its
  value; \<open>ele0\<close> is the record as declared.\<close>

fun addShapeInfo_loop ::
  "Volume list \<Rightarrow> (Volume \<Rightarrow> real) \<Rightarrow> ShapeInfo \<Rightarrow> ShapeInfo list \<Rightarrow> ShapeInfo list" where
  "addShapeInfo_loop [] getDensity ele vec = vec"
| "addShapeInfo_loop (v # vs) getDensity ele vec =
     (if \<not> (getDensity v > 0) then addShapeInfo_loop vs getDensity ele vec
      else
        (let ele = ele\<lparr>sh_name_tag := getName v, sh_dx := getDx v / 2, sh_dy := getDy v / 2,
                        sh_dz := getDz v / 2\<rparr>
         in addShapeInfo_loop vs getDensity ele (vec @ [ele])))"

definition addShapeInfo ::
  "ModuleComplex \<Rightarrow> (Volume \<Rightarrow> real) \<Rightarrow> ShapeInfo \<Rightarrow> ShapeInfo list \<Rightarrow> ShapeInfo list" where
  "addShapeInfo mc getDensity ele0 vec =
     addShapeInfo_loop (volumes mc) getDensity (ele0\<lparr>sh_type := bx\<rparr>) vec"

fun addLogicInfo_loop ::
  "ModuleComplex \<Rightarrow> Volume list \<Rightarrow> (Volume \<Rightarrow> real) \<Rightarrow> LogicalInfo \<Rightarrow> LogicalInfo list \<Rightarrow>
   LogicalInfo list" where
  "addLogicInfo_loop mc [] getDensity ele vec = vec"
| "addLogicInfo_loop mc (v # vs) getDensity ele vec =
     (if \<not> (getDensity v > 0) then addLogicInfo_loop mc vs getDensity ele vec
      else
        (let ele = ele\<lparr>lg_name_tag := getName v,
                        lg_shape_tag := prefix_xmlfile mc @ getName v,
                        lg_material_tag := prefix_xmlfile mc @ prefix_material mc @ getName v\<rparr>
         in addLogicInfo_loop mc vs getDensity ele (vec @ [ele])))"

definition addLogicInfo ::
  "ModuleComplex \<Rightarrow> (Volume \<Rightarrow> real) \<Rightarrow> LogicalInfo \<Rightarrow> LogicalInfo list \<Rightarrow> LogicalInfo list" where
  "addLogicInfo mc getDensity ele0 vec = addLogicInfo_loop mc (volumes mc) getDensity ele0 vec"

fun addPositionInfo_loop ::
  "ModuleComplex \<Rightarrow> Volume list \<Rightarrow> (Volume \<Rightarrow> real) \<Rightarrow> PosInfo \<Rightarrow> PosInfo list \<Rightarrow> PosInfo list" where
  "addPositionInfo_loop mc [] getDensity ele vec = vec"
| "addPositionInfo_loop mc (v # vs) getDensity ele vec =
     (if \<not> (getDensity v > 0) then addPositionInfo_loop mc vs getDensity ele vec
      else
        (let ele = ele\<lparr>pos_parent_tag := prefix_xmlfile mc @ getParentName v,
                        pos_child_tag := prefix_xmlfile mc @ getName v,
                        pos_trans := (pos_trans ele)\<lparr>tr_dx := getX v, tr_dy := getY v, tr_dz := getZ v\<rparr>\<rparr>
         in addPositionInfo_loop mc vs getDensity ele (vec @ [ele])))"

definition addPositionInfo ::
  "ModuleComplex \<Rightarrow> (Volume \<Rightarrow> real) \<Rightarrow> PosInfo \<Rightarrow> PosInfo list \<Rightarrow> PosInfo list" where
  "addPositionInfo mc getDensity ele0 vec =
     addPositionInfo_loop mc (volumes mc) getDensity (ele0\<lparr>pos_copy := 1\<rparr>) vec"

text \<open>In \<open>addMaterialInfo\<close> the composite is declared inside the loop. The first inner loop
  copies the material list of the volume and sums its masses in \<open>m\<close>; the second divides
  every mass by \<open>m\<close>.\<close>

fun copy_materials ::
  "(string \<times> real) list \<Rightarrow> (string \<times> real) list \<times> real \<Rightarrow> (string \<times> real) list \<times> real" where
  "copy_materials [] acc = acc"
| "copy_materials (it # rest) acc = copy_materials rest (fst acc @ [it], snd acc + snd it)"

definition volume_composite :: "ModuleComplex \<Rightarrow> (Volume \<Rightarrow> real) \<Rightarrow> Volume \<Rightarrow> Composite" where
  "volume_composite mc getDensity v =
     (let (elems, m) = copy_materials (getMaterialList v) ([], 0)
      in \<lparr>comp_name = prefix_material mc @ getName v, comp_density = getDensity v,
          comp_method = wt, comp_elements = normalise_from m 0 elems\<rparr>)"

fun addMaterialInfo_loop ::
  "ModuleComplex \<Rightarrow> Volume list \<Rightarrow> (Volume \<Rightarrow> real) \<Rightarrow> Composite list \<Rightarrow> Composite list" where
  "addMaterialInfo_loop mc [] getDensity vec = vec"
| "addMaterialInfo_loop mc (v # vs) getDensity vec =
     (if \<not> (getDensity v > 0) then addMaterialInfo_loop mc vs getDensity vec
      else addMaterialInfo_loop mc vs getDensity (vec @ [volume_composite mc getDensity v]))"

definition addMaterialInfo ::
  "ModuleComplex \<Rightarrow> (Volume \<Rightarrow> real) \<Rightarrow> Composite list \<Rightarrow> Composite list" where
  "addMaterialInfo mc getDensity vec = addMaterialInfo_loop mc (volumes mc) getDensity vec"

section \<open>Notions used in the statements about composite materials\<close>

text \<open>The entries of a mass mapping that \<open>createComposite\<close> keeps, and the sum of the
  mass fractions of a composite.\<close>

definition kept_masses :: "Constants \<Rightarrow> bool \<Rightarrow> (string \<times> real) list \<Rightarrow> (string \<times> real) list" where
  "kept_masses K nosensors masses =
     filter (\<lambda>it. \<not> nosensors \<or> fst it \<noteq> xml_sensor_silicon K) masses"

definition fractions_sum :: "Composite \<Rightarrow> real" where
  "fractions_sum c = sum_list (map snd (comp_elements c))"

section \<open>Declared locals and default arguments\<close>

text \<open>The passes declare a local of each output record type without an initialiser and
  assign some of its fields only. What such a local holds in its other fields depends on
  the declaration of the type, which is outside the sources at hand, so the content of
  a freshly declared local of each type is a parameter. \<open>default_wt\<close> is the default
  argument of the parameter \<open>wt\<close> of the service and support passes, which \<open>analyse\<close>
  calls without it; it is declared in the same header.\<close>

record Declared =
  declared_ShapeInfo :: ShapeInfo
  declared_ShapeOperationInfo :: ShapeOperationInfo
  declared_LogicalInfo :: LogicalInfo
  declared_PosInfo :: PosInfo
  declared_AlgoInfo :: AlgoInfo
  declared_Rotation :: Rotation
  declared_ModuleROCInfo :: ModuleROCInfo
  declared_SpecParInfo :: SpecParInfo
  declared_RILengthInfo :: RILengthInfo
  default_wt :: bool

section \<open>Services and supports\<close>

text \<open>The inactive surfaces: the lists of barrel services, endcap services and
  supports.\<close>

record InactiveSurfaces =
  getBarrelServices :: "InactiveElement list"
  getEndcapServices :: "InactiveElement list"
  getSupports :: "InactiveElement list"

text \<open>The state of a service pass: the four output vectors it appends to, its locals
  \<open>shape\<close>, \<open>logic\<close> and \<open>pos\<close>, and the warnings it has logged.\<close>

record ServiceState =
  sv_c :: "Composite list"
  sv_l :: "LogicalInfo list"
  sv_s :: "ShapeInfo list"
  sv_p :: "PosInfo list"
  sv_shape :: ShapeInfo
  sv_logic :: LogicalInfo
  sv_pos :: PosInfo
  sv_warnings :: "string list"

record BarrelServiceState = ServiceState +
  previousInnerRadius :: int

record SupportState = ServiceState +
  found :: "Category set"

text \<open>The name space: \<open>xml_newfileident\<close> when \<open>wt\<close> is set, \<open>xml_fileident\<close>
  otherwise.\<close>

definition nspace_of :: "Constants \<Rightarrow> bool \<Rightarrow> string" where
  "nspace_of K wtflag = (if wtflag then xml_newfileident K else xml_fileident K)"

text \<open>The message of \<open>logWARNING\<close> for a volume that holds no local mass; \<open>std::ends\<close>
  adds a null character.\<close>

definition empty_warning :: "string \<Rightarrow> string" where
  "empty_warning shapename = shapename @ '' is not exported to XML because it is empty.'' @ [CHR 0x00]"

subsection \<open>\<open>Extractor::analyseBarrelServices\<close>\<close>

text \<open>The names that the loop writes to the streams \<open>matname\<close> and \<open>shapename\<close> for
  the service \<open>iter\<close>.\<close>

definition barrel_matname :: "Constants \<Rightarrow> InactiveElement \<Rightarrow> string" where
  "barrel_matname K iter =
     xml_base_serfcomp K @ show_int (category_code K (getCategory iter)) @ ''R''
       @ show_int (trunc_int (getInnerRadius iter)) @ ''Z''
       @ show_int (trunc_int \<bar>getZOffset iter + getZLength iter / 2\<bar>)"

definition barrel_shapename :: "Constants \<Rightarrow> InactiveElement \<Rightarrow> string" where
  "barrel_shapename K iter =
     xml_base_serf K @ ''R'' @ show_int (trunc_int (getInnerRadius iter)) @ ''Z''
       @ show_int (trunc_int \<bar>getZOffset iter + getZLength iter / 2\<bar>)"

text \<open>The body of the loop over the barrel services. \<open>createComposite\<close> is called without
  its last argument \<open>nosensors\<close>; its documentation has an inactive volume include all of
  its components, so the model passes \<open>False\<close>.\<close>

definition barrel_service_step ::
  "Constants \<Rightarrow> string \<Rightarrow> InactiveElement \<Rightarrow> BarrelServiceState \<Rightarrow> BarrelServiceState" where
  "barrel_service_step K nspace iter st =
     (if trunc_int (getZOffset iter) = 0 \<and> previousInnerRadius st = trunc_int (getInnerRadius iter)
      then st
      else
        (let st = (if trunc_int (getZOffset iter) = 0
                   then st\<lparr>previousInnerRadius := trunc_int (getInnerRadius iter)\<rparr> else st);
             matname = barrel_matname K iter;
             shapename = barrel_shapename K iter
         in if getZOffset iter + getZLength iter > 0
            then
              (if getLocalMasses iter \<noteq> []
               then
                 (let c = sv_c st @ [createComposite K matname (compositeDensity_ie iter) iter False];
                      shape = (sv_shape st)\<lparr>sh_name_tag := shapename,
                                 sh_dz := getZLength iter / 2,
                                 sh_rmin := getInnerRadius iter,
                                 sh_rmax := getInnerRadius iter + getRWidth iter\<rparr>;
                      s = sv_s st @ [shape];
                      logic = (sv_logic st)\<lparr>lg_name_tag := shapename,
                                 lg_shape_tag := nspace @ '':'' @ shapename,
                                 lg_material_tag := nspace @ '':'' @ matname\<rparr>;
                      l = sv_l st @ [logic];
                      pos = (sv_pos st)\<lparr>pos_parent_tag := xml_pixbarident K @ '':'' @ xml_2OTbar K,
                                 pos_child_tag := lg_shape_tag logic,
                                 pos_trans := (pos_trans (sv_pos st))\<lparr>tr_dz := getZOffset iter + sh_dz shape\<rparr>\<rparr>;
                      p = sv_p st @ [pos];
                      pos = pos\<lparr>pos_copy := 2\<rparr>;
                      pos = pos\<lparr>pos_trans := (pos_trans pos)\<lparr>tr_dz := - tr_dz (pos_trans pos)\<rparr>\<rparr>;
                      pos = pos\<lparr>pos_rotref := nspace @ '':'' @ xml_flip_mod_rot K\<rparr>;
                      p = p @ [pos];
                      pos = pos\<lparr>pos_copy := 1\<rparr>;
                      pos = pos\<lparr>pos_rotref := []\<rparr>
                  in st\<lparr>sv_c := c, sv_l := l, sv_s := s, sv_p := p,
                        sv_shape := shape, sv_logic := logic, sv_pos := pos\<rparr>)
               else st\<lparr>sv_warnings := sv_warnings st @ [empty_warning shapename]\<rparr>)
            else st))"

text \<open>The state before the loop: the locals as declared and then assigned, and
  \<open>previousInnerRadius = -1\<close>.\<close>

definition service_locals :: "Declared \<Rightarrow> ShapeInfo \<times> LogicalInfo \<times> PosInfo" where
  "service_locals D =
     ((declared_ShapeInfo D)\<lparr>sh_type := tb, sh_dx := 0, sh_dy := 0, sh_dyy := 0\<rparr>,
      declared_LogicalInfo D,
      (declared_PosInfo D)\<lparr>pos_copy := 1,
         pos_trans := (pos_trans (declared_PosInfo D))\<lparr>tr_dx := 0, tr_dy := 0\<rparr>\<rparr>)"

definition barrel_service_init ::
  "Declared \<Rightarrow> Composite list \<Rightarrow> LogicalInfo list \<Rightarrow> ShapeInfo list \<Rightarrow> PosInfo list \<Rightarrow>
   BarrelServiceState" where
  "barrel_service_init D c l s p =
     (let (shape, logic, pos) = service_locals D
      in \<lparr>sv_c = c, sv_l = l, sv_s = s, sv_p = p, sv_shape = shape, sv_logic = logic,
          sv_pos = pos, sv_warnings = [], previousInnerRadius = - 1\<rparr>)"

definition analyseBarrelServices ::
  "Constants \<Rightarrow> Declared \<Rightarrow> InactiveSurfaces \<Rightarrow> Composite list \<Rightarrow> LogicalInfo list \<Rightarrow>
   ShapeInfo list \<Rightarrow> PosInfo list \<Rightarrow> bool \<Rightarrow> BarrelServiceState" where
  "analyseBarrelServices K D surfaces c l s p wtflag =
     foldl (\<lambda>st iter. barrel_service_step K (nspace_of K wtflag) iter st)
       (barrel_service_init D c l s p) (getBarrelServices surfaces)"

subsection \<open>\<open>Extractor::analyseEndcapServices\<close>\<close>

definition endcap_service_step ::
  "Constants \<Rightarrow> string \<Rightarrow> InactiveElement \<Rightarrow> ServiceState \<Rightarrow> ServiceState" where
  "endcap_service_step K nspace iter st =
     (let matname = xml_base_serfcomp K @ show_int (category_code K (getCategory iter)) @ ''Z''
              @ show_int (trunc_int \<bar>getZOffset iter + getZLength iter / 2\<bar>);
          shapename = xml_base_serf K @ ''R'' @ show_int (trunc_int (getInnerRadius iter)) @ ''Z''
              @ show_int (trunc_int \<bar>getZOffset iter + getZLength iter / 2\<bar>)
      in if getZOffset iter + getZLength iter > 0
         then
           (if getLocalMasses iter \<noteq> []
            then
              (let c = sv_c st @ [createComposite K matname (compositeDensity_ie iter) iter False];
                   shape = (sv_shape st)\<lparr>sh_name_tag := shapename,
                              sh_dz := getZLength iter / 2,
                              sh_rmin := getInnerRadius iter,
                              sh_rmax := getInnerRadius iter + getRWidth iter\<rparr>;
                   s = sv_s st @ [shape];
                   logic = (sv_logic st)\<lparr>lg_name_tag := shapename,
                              lg_shape_tag := nspace @ '':'' @ shapename,
                              lg_material_tag := nspace @ '':'' @ matname\<rparr>;
                   l = sv_l st @ [logic];
                   pos = (sv_pos st)\<lparr>pos_parent_tag := xml_pixfwdident K @ '':'' @ xml_2OTfwd K,
                              pos_child_tag := lg_shape_tag logic,
                              pos_trans := (pos_trans (sv_pos st))\<lparr>tr_dz := getZOffset iter + sh_dz shape\<rparr>\<rparr>;
                   p = sv_p st @ [pos];
                   pos = pos\<lparr>pos_copy := 2\<rparr>;
                   pos = pos\<lparr>pos_trans := (pos_trans pos)\<lparr>tr_dz := - tr_dz (pos_trans pos)\<rparr>\<rparr>;
                   pos = pos\<lparr>pos_rotref := nspace @ '':'' @ xml_flip_mod_rot K\<rparr>;
                   p = p @ [pos];
                   pos = pos\<lparr>pos_copy := 1\<rparr>;
                   pos = pos\<lparr>pos_rotref := []\<rparr>
               in st\<lparr>sv_c := c, sv_l := l, sv_s := s, sv_p := p,
                     sv_shape := shape, sv_logic := logic, sv_pos := pos\<rparr>)
            else st\<lparr>sv_warnings := sv_warnings st @ [empty_warning shapename]\<rparr>)
         else st)"

definition service_init ::
  "Declared \<Rightarrow> Composite list \<Rightarrow> LogicalInfo list \<Rightarrow> ShapeInfo list \<Rightarrow> PosInfo list \<Rightarrow>
   ServiceState" where
  "service_init D c l s p =
     (let (shape, logic, pos) = service_locals D
      in \<lparr>sv_c = c, sv_l = l, sv_s = s, sv_p = p, sv_shape = shape, sv_logic = logic,
          sv_pos = pos, sv_warnings = []\<rparr>)"

definition analyseEndcapServices ::
  "Constants \<Rightarrow> Declared \<Rightarrow> InactiveSurfaces \<Rightarrow> Composite list \<Rightarrow> LogicalInfo list \<Rightarrow>
   ShapeInfo list \<Rightarrow> PosInfo list \<Rightarrow> bool \<Rightarrow> ServiceState" where
  "analyseEndcapServices K D surfaces c l s p wtflag =
     foldl (\<lambda>st iter. endcap_service_step K (nspace_of K wtflag) iter st)
       (service_init D c l s p) (getEndcapServices surfaces)"

subsection \<open>\<open>Extractor::analyseSupports\<close>\<close>

text \<open>One composite, shape, logical volume and pair of placements for the first support
  of every category that holds local mass.\<close>

definition support_step ::
  "Constants \<Rightarrow> string \<Rightarrow> InactiveElement \<Rightarrow> SupportState \<Rightarrow> SupportState" where
  "support_step K nspace iter st =
     (let matname = xml_base_lazycomp K @ show_int (category_code K (getCategory iter));
          shapename = xml_base_lazy K @ ''R'' @ show_int (trunc_int (getInnerRadius iter)) @ ''Z''
              @ show_int (trunc_int (getZLength iter / 2 + getZOffset iter))
      in if getCategory iter \<notin> found st \<and> getLocalMasses iter \<noteq> []
         then
           (let c = sv_c st @ [createComposite K matname (compositeDensity_ie iter) iter False];
                fnd = insert (getCategory iter) (found st);
                shape = (sv_shape st)\<lparr>sh_name_tag := shapename,
                           sh_dz := getZLength iter / 2,
                           sh_rmin := getInnerRadius iter,
                           sh_rmax := getInnerRadius iter + getRWidth iter\<rparr>;
                s = sv_s st @ [shape];
                logic = (sv_logic st)\<lparr>lg_name_tag := shapename,
                           lg_shape_tag := nspace @ '':'' @ shapename,
                           lg_material_tag := nspace @ '':'' @ matname\<rparr>;
                l = sv_l st @ [logic];
                parent =
                  (if getCategory iter = b_sup \<or> getCategory iter = t_sup \<or>
                      getCategory iter = u_sup \<or> getCategory iter = o_sup
                   then xml_pixbarident K @ '':'' @ xml_2OTbar K
                   else if getCategory iter = e_sup
                   then xml_pixfwdident K @ '':'' @ xml_2OTfwd K
                   else nspace @ '':'' @ xml_tracker K);
                dz = (if getCategory iter = o_sup \<or> getCategory iter = t_sup then 0
                      else getZOffset iter + sh_dz shape);
                pos = (sv_pos st)\<lparr>pos_parent_tag := parent,
                           pos_child_tag := lg_shape_tag logic,
                           pos_trans := (pos_trans (sv_pos st))\<lparr>tr_dz := dz\<rparr>\<rparr>;
                p = sv_p st @ [pos];
                pos = pos\<lparr>pos_copy := 2\<rparr>;
                pos = pos\<lparr>pos_trans := (pos_trans pos)\<lparr>tr_dz := - tr_dz (pos_trans pos)\<rparr>\<rparr>;
                pos = pos\<lparr>pos_rotref := nspace @ '':'' @ xml_flip_mod_rot K\<rparr>;
                p = p @ [pos];
                pos = pos\<lparr>pos_copy := 1\<rparr>;
                pos = pos\<lparr>pos_rotref := []\<rparr>
            in st\<lparr>sv_c := c, sv_l := l, sv_s := s, sv_p := p,
                  sv_shape := shape, sv_logic := logic, sv_pos := pos, found := fnd\<rparr>)
         else st)"

definition support_init ::
  "Declared \<Rightarrow> Composite list \<Rightarrow> LogicalInfo list \<Rightarrow> ShapeInfo list \<Rightarrow> PosInfo list \<Rightarrow>
   SupportState" where
  "support_init D c l s p =
     (let (shape, logic, pos) = service_locals D
      in \<lparr>sv_c = c, sv_l = l, sv_s = s, sv_p = p, sv_shape = shape, sv_logic = logic,
          sv_pos = pos, sv_warnings = [], found = {}\<rparr>)"

definition analyseSupports ::
  "Constants \<Rightarrow> Declared \<Rightarrow> InactiveSurfaces \<Rightarrow> Composite list \<Rightarrow> LogicalInfo list \<Rightarrow>
   ShapeInfo list \<Rightarrow> PosInfo list \<Rightarrow> bool \<Rightarrow> SupportState" where
  "analyseSupports K D surfaces c l s p wtflag =
     foldl (\<lambda>st iter. support_step K (nspace_of K wtflag) iter st)
       (support_init D c l s p) (getSupports surfaces)"

section \<open>Notions used in the statements about the barrel services\<close>

text \<open>A pass-through is a service whose z-offset has integer part 0: the test of the
  source is \<open>(int) getZOffset() == 0\<close>. \<open>casts_in_range\<close> says that the three values of
  a service that the loop converts to \<open>int\<close> are in the range of the conversion.
  \<open>barrel_services_run\<close> is the loop of \<open>analyseBarrelServices\<close> from any state;
  \<open>copper_service r\<close> is a pass-through of inner radius \<open>r\<close> that holds one gram of
  copper.\<close>

definition pass_through :: "InactiveElement \<Rightarrow> bool" where
  "pass_through iter \<longleftrightarrow> trunc_int (getZOffset iter) = 0"

definition casts_in_range :: "InactiveElement \<Rightarrow> bool" where
  "casts_in_range iter \<longleftrightarrow>
     in_int_range (getZOffset iter) \<and> in_int_range (getInnerRadius iter) \<and>
     in_int_range \<bar>getZOffset iter + getZLength iter / 2\<bar>"

definition barrel_services_run ::
  "Constants \<Rightarrow> string \<Rightarrow> InactiveElement list \<Rightarrow> BarrelServiceState \<Rightarrow> BarrelServiceState" where
  "barrel_services_run K nspace els st = foldl (\<lambda>st iter. barrel_service_step K nspace iter st) st els"

definition copper_service :: "real \<Rightarrow> InactiveElement" where
  "copper_service r =
     \<lparr>getCategory = b_ser, getLocalMasses = [(''Cu'', 1)], getTotalMass = 1,
      getRadiationLength = 0, getInteractionLength = 0,
      getInnerRadius = r, getRWidth = 5, getZOffset = 0, getZLength = 100\<rparr>"

text \<open>The inactive surfaces whose barrel services are \<open>els\<close>, without endcap services
  and supports.\<close>

definition barrel_only :: "InactiveElement list \<Rightarrow> InactiveSurfaces" where
  "barrel_only els = \<lparr>getBarrelServices = els, getEndcapServices = [], getSupports = []\<rparr>"

section \<open>The container volumes\<close>

text \<open>What the visitor \<open>LayerAggregator\<close> collects from the tracker (\<open>t.accept(lagg)\<close>),
  as far as the passes modelled here read it: the number of barrel layers
  (\<open>getBarrelLayers()->size()\<close>), the module caps of the barrel layers
  (\<open>getBarrelCap()\<close>), and for every endcap disc (\<open>getEndcapLayers()\<close>) its smallest
  \<open>z\<close>, its number of rings and the number of modules of each of its rings
  (\<open>ringsMap()\<close>, as the list of its entries).\<close>

record EndcapLayer =
  minZ :: real
  numRings :: int
  ringsMap :: "(int \<times> int) list"

record Tracker =
  numBarrelLayers :: nat
  getBarrelCap :: "ModuleCap list list"
  getEndcapLayers :: "EndcapLayer list"

text \<open>\<open>std::numeric_limits<double>::max()\<close>.\<close>

definition DBL_MAX :: real where
  "DBL_MAX = (2 - 1 / 2 ^ 52) * 2 ^ 1023"

text \<open>A loop over a vector whose body may stop the process.\<close>

fun for_each :: "('a \<Rightarrow> 's \<Rightarrow> fatal + 's) \<Rightarrow> 'a list \<Rightarrow> 's \<Rightarrow> fatal + 's" where
  "for_each f [] st = Inr st"
| "for_each f (x # xs) st = and_then (f x st) (for_each f xs)"

subsection \<open>\<open>Extractor::analyseBarrelContainer\<close>\<close>

text \<open>The inner loop over the module caps of a layer; the state is
  \<open>(lrmin, lrmax, lzmin, lzmax)\<close>.\<close>

definition barrel_container_module ::
  "Constants \<Rightarrow> int \<Rightarrow> ModuleCap \<Rightarrow> real \<times> real \<times> real \<times> real \<Rightarrow>
   fatal + real \<times> real \<times> real \<times> real" where
  "barrel_container_module K layer iiter acc =
     (let (lrmin, lrmax, lzmin, lzmax) = acc
      in if side (uniRef (getModule iiter)) > 0 \<and>
            (phi (uniRef (getModule iiter)) = 1 \<or> phi (uniRef (getModule iiter)) = 2)
         then
           (let modRing = ring (uniRef (getModule iiter));
                lname = xml_layer K @ show_int layer;
                mname = xml_barrel_module K @ show_int modRing @ lname;
                parentName = mname
            in and_then (buildSubVolumes (new_ModuleComplex mname parentName iiter))
                 (\<lambda>modcomplex.
                    (let lrmin = min lrmin (rmin modcomplex);
                         lrmax = max lrmax (rmax modcomplex);
                         lzmax = max lzmax (zmax modcomplex);
                         lzmin = - lzmax
                     in Inr (lrmin, lrmax, lzmin, lzmax))))
         else Inr acc)"

record BarrelContainerState =
  bc_rz :: "real \<times> real"
  bc_rmax :: real
  bc_zmax :: real
  bc_zmin :: real
  bc_up :: "(real \<times> real) list"
  bc_down :: "(real \<times> real) list"
  bc_layer :: int

text \<open>The body of the loop over the layers. \<open>MIN\<close> and \<open>MAX\<close> are the smaller and the
  larger of two numbers.\<close>

definition barrel_container_layer ::
  "Constants \<Rightarrow> int \<Rightarrow> ModuleCap list \<Rightarrow> BarrelContainerState \<Rightarrow> fatal + BarrelContainerState" where
  "barrel_container_layer K n_of_layers oiter st =
     and_then (for_each (barrel_container_module K (bc_layer st)) oiter (DBL_MAX, 0, 0, 0))
       (\<lambda>(lrmin, lrmax, lzmin, lzmax).
          (let layer = bc_layer st;
               st = (if layer = 1
                     then (let st = st\<lparr>bc_rz := (lrmin, lzmin)\<rparr>;
                               st = st\<lparr>bc_up := bc_up st @ [bc_rz st]\<rparr>;
                               st = st\<lparr>bc_rz := (fst (bc_rz st), lzmax)\<rparr>
                           in st\<lparr>bc_down := bc_down st @ [bc_rz st]\<rparr>)
                     else if lzmax \<noteq> bc_zmax st
                     then (let st = (if lzmax > bc_zmax st then st\<lparr>bc_rz := (lrmin, snd (bc_rz st))\<rparr>
                                     else st\<lparr>bc_rz := (bc_rmax st, snd (bc_rz st))\<rparr>);
                               st = st\<lparr>bc_rz := (fst (bc_rz st), bc_zmin st)\<rparr>;
                               st = st\<lparr>bc_up := bc_up st @ [bc_rz st]\<rparr>;
                               st = st\<lparr>bc_rz := (fst (bc_rz st), bc_zmax st)\<rparr>;
                               st = st\<lparr>bc_down := bc_down st @ [bc_rz st]\<rparr>;
                               st = st\<lparr>bc_rz := (fst (bc_rz st), lzmin)\<rparr>;
                               st = st\<lparr>bc_up := bc_up st @ [bc_rz st]\<rparr>;
                               st = st\<lparr>bc_rz := (fst (bc_rz st), lzmax)\<rparr>
                           in st\<lparr>bc_down := bc_down st @ [bc_rz st]\<rparr>)
                     else st);
               st = (if layer = n_of_layers
                     then (let st = st\<lparr>bc_rz := (lrmax, lzmin)\<rparr>;
                               st = st\<lparr>bc_up := bc_up st @ [bc_rz st]\<rparr>;
                               st = st\<lparr>bc_rz := (fst (bc_rz st), lzmax)\<rparr>
                           in st\<lparr>bc_down := bc_down st @ [bc_rz st]\<rparr>)
                     else st);
               st = st\<lparr>bc_rmax := lrmax\<rparr>;
               st = (if lzmin < 0 then st\<lparr>bc_zmin := lzmin\<rparr> else st);
               st = (if lzmax > 0 then st\<lparr>bc_zmax := lzmax\<rparr> else st)
           in Inr (st\<lparr>bc_layer := layer + 1\<rparr>)))"

text \<open>\<open>analyseBarrelContainer(t, up, down)\<close> clears \<open>up\<close> and \<open>down\<close> and returns them
  filled. The pair \<open>rz\<close> is declared without initialiser; both of its components are
  assigned before every use, and the model starts it at \<open>(0, 0)\<close>.\<close>

definition analyseBarrelContainer ::
  "Constants \<Rightarrow> Tracker \<Rightarrow> fatal + (real \<times> real) list \<times> (real \<times> real) list" where
  "analyseBarrelContainer K t =
     and_then
       (for_each (barrel_container_layer K (int (numBarrelLayers t))) (getBarrelCap t)
          \<lparr>bc_rz = (0, 0), bc_rmax = 0, bc_zmax = 0, bc_zmin = 0, bc_up = [], bc_down = [], bc_layer = 1\<rparr>)
       (\<lambda>st. Inr (bc_up st, bc_down st))"

subsection \<open>\<open>Extractor::analyseEndcapContainer\<close>\<close>

text \<open>The inner loop over the module caps of a disc; the state is
  \<open>(ridx, lrmin, lrmax, lzmin, lzmax)\<close>.\<close>

definition endcap_container_module ::
  "Constants \<Rightarrow> int \<Rightarrow> ModuleCap \<Rightarrow> int set \<times> real \<times> real \<times> real \<times> real \<Rightarrow>
   fatal + int set \<times> real \<times> real \<times> real \<times> real" where
  "endcap_container_module K layer iiter acc =
     (let (ridx, lrmin, lrmax, lzmin, lzmax) = acc;
          modRing = ring (uniRef (getModule iiter))
      in if modRing \<notin> ridx
         then
           (let ridx = insert modRing ridx;
                dname = xml_disc K @ show_int layer;
                mname = xml_endcap_module K @ show_int modRing @ dname;
                parentName = mname
            in and_then (buildSubVolumes (new_ModuleComplex mname parentName iiter))
                 (\<lambda>modcomplex.
                    (let lrmin = min lrmin (rmin modcomplex);
                         lrmax = max lrmax (rmax modcomplex);
                         lzmin = min lzmin (zmin modcomplex);
                         lzmax = max lzmax (zmax modcomplex)
                     in Inr (ridx, lrmin, lrmax, lzmin, lzmax))))
         else Inr acc)"

text \<open>The locals of \<open>analyseEndcapContainer\<close> that live across the discs.\<close>

record EndcapContainerState =
  ec_first :: int
  ec_hasfirst :: bool
  ec_rz :: "real \<times> real"
  ec_rmin :: real
  ec_rmax :: real
  ec_zmax :: real
  ec_up :: "(real \<times> real) list"
  ec_down :: "(real \<times> real) list"
  ec_layer :: int

text \<open>\<open>rz.first = x; up.push_back(rz); rz.first = y; down.push_back(rz);\<close>\<close>

definition push_up_down :: "real \<Rightarrow> real \<Rightarrow> EndcapContainerState \<Rightarrow> EndcapContainerState" where
  "push_up_down x y st =
     (let st = st\<lparr>ec_rz := (x, snd (ec_rz st))\<rparr>;
          st = st\<lparr>ec_up := ec_up st @ [ec_rz st]\<rparr>;
          st = st\<lparr>ec_rz := (y, snd (ec_rz st))\<rparr>
      in st\<lparr>ec_down := ec_down st @ [ec_rz st]\<rparr>)"

definition set_rz_second :: "real \<Rightarrow> EndcapContainerState \<Rightarrow> EndcapContainerState" where
  "set_rz_second z st = st\<lparr>ec_rz := (fst (ec_rz st), z)\<rparr>"

text \<open>The body of the loop over the discs. The test \<open>layer >= first\<close> reads \<open>first\<close>
  whether or not it has been assigned.\<close>

definition endcap_container_disc ::
  "Constants \<Rightarrow> int \<Rightarrow> ModuleCap list \<Rightarrow> EndcapContainerState \<Rightarrow> fatal + EndcapContainerState" where
  "endcap_container_disc K n_of_layers oiter st =
     and_then (for_each (endcap_container_module K (ec_layer st)) oiter ({}, DBL_MAX, 0, DBL_MAX, 0))
       (\<lambda>(ridx, lrmin, lrmax, lzmin, lzmax).
          (let layer = ec_layer st;
               st = (if lzmax > 0 \<and> \<not> ec_hasfirst st
                     then st\<lparr>ec_first := layer, ec_hasfirst := True\<rparr> else st);
               st = (if layer \<ge> ec_first st
                     then
                       (let st =
                          (if layer = ec_first st
                           then
                             (let st = st\<lparr>ec_rmin := lrmin, ec_rmax := lrmax\<rparr>;
                                  st = st\<lparr>ec_rz := (ec_rmax st, lzmin - xml_z_pixfwd K)\<rparr>;
                                  st = st\<lparr>ec_up := ec_up st @ [ec_rz st]\<rparr>;
                                  st = st\<lparr>ec_rz := (ec_rmin st, snd (ec_rz st))\<rparr>
                              in st\<lparr>ec_down := ec_down st @ [ec_rz st]\<rparr>)
                           else
                             (let st =
                                (if ec_rmax st > lrmax
                                 then
                                   (let st = set_rz_second (ec_zmax st - xml_z_pixfwd K) st;
                                        st = push_up_down (ec_rmax st) (ec_rmin st) st;
                                        st = st\<lparr>ec_rmax := lrmax, ec_rmin := lrmin\<rparr>
                                    in push_up_down (ec_rmax st) (ec_rmin st) st)
                                 else st)
                              in if ec_rmax st < lrmax
                                 then
                                   (let st = set_rz_second (lzmin - xml_z_pixfwd K) st;
                                        st = push_up_down (ec_rmax st) (ec_rmin st) st;
                                        st = st\<lparr>ec_rmax := lrmax, ec_rmin := lrmin\<rparr>
                                    in push_up_down (ec_rmax st) (ec_rmin st) st)
                                 else st));
                            st = st\<lparr>ec_zmax := lzmax\<rparr>
                        in if layer = n_of_layers
                           then
                             (let st = st\<lparr>ec_rz := (ec_rmax st, ec_zmax st - xml_z_pixfwd K)\<rparr>;
                                  st = st\<lparr>ec_up := ec_up st @ [ec_rz st]\<rparr>;
                                  st = st\<lparr>ec_rz := (ec_rmin st, snd (ec_rz st))\<rparr>
                              in st\<lparr>ec_down := ec_down st @ [ec_rz st]\<rparr>)
                           else st)
                     else st)
           in Inr (st\<lparr>ec_layer := layer + 1\<rparr>)))"

text \<open>\<open>analyseEndcapContainer(ec, t, up, down)\<close> clears \<open>up\<close> and \<open>down\<close> and returns them
  filled. The locals \<open>first\<close> and \<open>rz\<close> are declared without initialiser. Both
  components of \<open>rz\<close> are assigned before every use, and the model starts it at
  \<open>(0, 0)\<close>; \<open>first\<close> is read before it is assigned, and \<open>first0\<close> is what it holds
  when it is declared.\<close>

definition analyseEndcapContainer ::
  "Constants \<Rightarrow> int \<Rightarrow> ModuleCap list list \<Rightarrow> Tracker \<Rightarrow>
   fatal + (real \<times> real) list \<times> (real \<times> real) list" where
  "analyseEndcapContainer K first0 ec t =
     and_then
       (for_each (endcap_container_disc K (int (length (getEndcapLayers t)))) ec
          \<lparr>ec_first = first0, ec_hasfirst = False, ec_rz = (0, 0), ec_rmin = 0, ec_rmax = 0, ec_zmax = 0,
           ec_up = [], ec_down = [], ec_layer = 1\<rparr>)
       (\<lambda>st. Inr (ec_up st, ec_down st))"

subsection \<open>The container part of \<open>Extractor::analyse\<close>\<close>

text \<open>\<open>analyse\<close> clears the ten output collections, enters three rotations, and then, unless
  \<open>wt\<close> is set, pushes the polycone of the barrel container and, when its profile is not
  empty, that of the endcap container. \<open>analyse_containers\<close> is the vector of shapes
  after this part, before the passes append to it; \<open>first0\<close> is passed on to
  \<open>analyseEndcapContainer\<close>.\<close>

definition analyse_containers ::
  "Constants \<Rightarrow> Declared \<Rightarrow> int \<Rightarrow> Tracker \<Rightarrow> ModuleCap list list \<Rightarrow> bool \<Rightarrow>
   fatal + ShapeInfo list" where
  "analyse_containers K D first0 tr ec wtflag =
     (let s = [];
          shape = declared_ShapeInfo D
      in if \<not> wtflag
         then
           (let shape = shape\<lparr>sh_type := pc, sh_name_tag := xml_tob K\<rparr>
            in and_then (analyseBarrelContainer K tr)
                 (\<lambda>(up, down).
                    (let shape = shape\<lparr>sh_rzup := up, sh_rzdown := down\<rparr>;
                         s = s @ [shape]
                     in and_then (analyseEndcapContainer K first0 ec tr)
                          (\<lambda>(up, down).
                             (let shape = shape\<lparr>sh_rzup := up, sh_rzdown := down\<rparr>
                              in if \<not> (sh_rzup shape = [] \<or> sh_rzdown shape = [])
                                 then Inr (s @ [shape\<lparr>sh_name_tag := xml_tid K\<rparr>])
                                 else Inr s)))))
         else Inr s)"

section \<open>An endcap with discs on both sides\<close>

text \<open>The example module of the endcap, mirrored to \<open>z = -50\<close>.\<close>

definition mirrored_module :: Module where
  "mirrored_module =
     (ex_module [])\<lparr>center := \<lparr>vecX = 100, vecY = 0, vecZ = - 50\<rparr>,
      basePoly := \<lparr>vertex0 = \<lparr>vecX = 90, vecY = - 1, vecZ = - 50\<rparr>,
                   vertex1 = \<lparr>vecX = 90, vecY = 1, vecZ = - 50\<rparr>,
                   vertex2 = \<lparr>vecX = 110, vecY = 1, vecZ = - 50\<rparr>,
                   vertex3 = \<lparr>vecX = 110, vecY = - 1, vecZ = - 50\<rparr>\<rparr>,
      uniRef := \<lparr>side = - 1, phi = 1, ring = 1\<rparr>\<rparr>"

definition mirrored_cap :: ModuleCap where
  "mirrored_cap = (ex_cap [])\<lparr>getModule := mirrored_module\<rparr>"

text \<open>A tracker without barrel and with two endcap discs of one module each, the first
  at \<open>z = -50\<close> and the second at \<open>z = 50\<close>.\<close>

definition two_sided_ec :: "ModuleCap list list" where
  "two_sided_ec = [[mirrored_cap], [ex_cap []]]"

definition two_sided_tracker :: Tracker where
  "two_sided_tracker =
     \<lparr>numBarrelLayers = 0, getBarrelCap = [],
      getEndcapLayers = [\<lparr>minZ = - 51, numRings = 1, ringsMap = [(1, 1)]\<rparr>,
                         \<lparr>minZ = 49, numRings = 1, ringsMap = [(1, 1)]\<rparr>]\<rparr>"

section \<open>The records of a module in the layer and disc passes\<close>

text \<open>The output vectors of \<open>analyseLayers\<close> and \<open>analyseDiscs\<close> and those of their locals
  that live across the modules: the records \<open>shape\<close>, \<open>logic\<close>, \<open>pos\<close>, \<open>rot\<close> and
  \<open>minfo\<close> that are filled and pushed again and again, and the topology records
  \<open>sspec\<close> and \<open>mspec\<close>. The map of rotations is the list of its entries in key order;
  \<open>cerr\<close> holds the lines written to the error stream.\<close>

record PassState =
  out_c :: "Composite list"
  out_l :: "LogicalInfo list"
  out_s :: "ShapeInfo list"
  out_p :: "PosInfo list"
  out_r :: "(string \<times> Rotation) list"
  loc_shape :: ShapeInfo
  loc_logic :: LogicalInfo
  loc_pos :: PosInfo
  loc_rot :: Rotation
  loc_minfo :: ModuleROCInfo
  sspec :: SpecParInfo
  mspec :: SpecParInfo
  cerr :: "string list"

text \<open>Assignments to fields of the locals, and \<open>push_back\<close> of a local.\<close>

definition upd_shape :: "(ShapeInfo \<Rightarrow> ShapeInfo) \<Rightarrow> PassState \<Rightarrow> PassState" where
  "upd_shape f st = st\<lparr>loc_shape := f (loc_shape st)\<rparr>"

definition upd_logic :: "(LogicalInfo \<Rightarrow> LogicalInfo) \<Rightarrow> PassState \<Rightarrow> PassState" where
  "upd_logic f st = st\<lparr>loc_logic := f (loc_logic st)\<rparr>"

definition upd_pos :: "(PosInfo \<Rightarrow> PosInfo) \<Rightarrow> PassState \<Rightarrow> PassState" where
  "upd_pos f st = st\<lparr>loc_pos := f (loc_pos st)\<rparr>"

definition upd_rot :: "(Rotation \<Rightarrow> Rotation) \<Rightarrow> PassState \<Rightarrow> PassState" where
  "upd_rot f st = st\<lparr>loc_rot := f (loc_rot st)\<rparr>"

definition upd_minfo :: "(ModuleROCInfo \<Rightarrow> ModuleROCInfo) \<Rightarrow> PassState \<Rightarrow> PassState" where
  "upd_minfo f st = st\<lparr>loc_minfo := f (loc_minfo st)\<rparr>"

definition push_shape :: "PassState \<Rightarrow> PassState" where
  "push_shape st = st\<lparr>out_s := out_s st @ [loc_shape st]\<rparr>"

definition push_logic :: "PassState \<Rightarrow> PassState" where
  "push_logic st = st\<lparr>out_l := out_l st @ [loc_logic st]\<rparr>"

definition push_pos :: "PassState \<Rightarrow> PassState" where
  "push_pos st = st\<lparr>out_p := out_p st @ [loc_pos st]\<rparr>"

text \<open>\<open>spec.partselectors.push_back(name); spec.moduletypes.push_back(info);\<close>\<close>

definition select_part :: "string \<Rightarrow> ModuleROCInfo \<Rightarrow> SpecParInfo \<Rightarrow> SpecParInfo" where
  "select_part name info spec =
     spec\<lparr>spec_partselectors := spec_partselectors spec @ [name],
          spec_moduletypes := spec_moduletypes spec @ [info]\<rparr>"

text \<open>\<open>ModuleROCInfo minfo_zero = {}\<close>: every member is the empty string.\<close>

definition minfo_zero :: ModuleROCInfo where
  "minfo_zero = \<lparr>roc_name = [], roc_rocrows = [], roc_roccols = [], roc_rocx = [], roc_rocy = []\<rparr>"

text \<open>\<open>r.insert(std::pair<const std::string, Rotation>(name, rot))\<close>: an entry whose key is
  in the map already is left as it is.\<close>

fun map_insert :: "string \<Rightarrow> 'v \<Rightarrow> (string \<times> 'v) list \<Rightarrow> (string \<times> 'v) list" where
  "map_insert k v [] = [(k, v)]"
| "map_insert k v ((k', v') # m) =
     (if k = k' then (k', v') # m
      else if k < k' then (k, v) # (k', v') # m
      else (k', v') # map_insert k v m)"

subsection \<open>\<open>Extractor::findPartnerModule\<close>\<close>

text \<open>The range from the iterator \<open>i\<close> to the iterator \<open>g\<close> is the list of the module caps
  in it; the iterator returned is its distance from \<open>i\<close>, and the length of the list
  stands for \<open>g\<close>. \<open>partner_scan\<close> is the loop \<open>while (res != g)\<close>; the local \<open>plus\<close> of
  the source is \<open>is_plus\<close> here.\<close>

fun partner_scan :: "ModuleCap list \<Rightarrow> int \<Rightarrow> bool \<Rightarrow> bool \<Rightarrow> nat" where
  "partner_scan [] ponrod find_first is_plus = 0"
| "partner_scan (res # rest) ponrod find_first is_plus =
     (if ring (uniRef (getModule res)) = ponrod \<and>
         (find_first \<or> (is_plus \<and> side (uniRef (getModule res)) < 0) \<or>
          (\<not> is_plus \<and> side (uniRef (getModule res)) > 0))
      then 0
      else Suc (partner_scan rest ponrod find_first is_plus))"

definition findPartnerModule :: "ModuleCap list \<Rightarrow> int \<Rightarrow> bool \<Rightarrow> nat" where
  "findPartnerModule caps ponrod find_first =
     (case caps of
        [] \<Rightarrow> 0
      | i # _ \<Rightarrow>
          (let is_plus = False;
               is_plus = (if \<not> find_first then side (uniRef (getModule i)) > 0 else is_plus)
           in partner_scan caps ponrod find_first is_plus))"

subsection \<open>The module in its rod\<close>

text \<open>The placement of a module in its rod in \<open>analyseLayers\<close>, for a straight layer or
  the straight part of a tilted one. \<open>iiter\<close> is the module cap, \<open>rest\<close> the module caps
  after it in the layer, so that \<open>iiter # rest\<close> is the range from \<open>iiter\<close> to
  \<open>oiter->end()\<close>. \<open>findPartnerModule\<close> is called without its last argument, whose
  default it documents as false.\<close>

definition rod_placement ::
  "Constants \<Rightarrow> string \<Rightarrow> string \<Rightarrow> string \<Rightarrow> ModuleCap \<Rightarrow> ModuleCap list \<Rightarrow> int \<Rightarrow> real \<Rightarrow>
   PassState \<Rightarrow> PassState" where
  "rod_placement K nspace rodname mname iiter rest modRing RadiusIn st =
     (let st = upd_pos (\<lambda>pos. pos\<lparr>pos_parent_tag := nspace @ '':'' @ rodname\<rparr>) st;
          st = upd_pos (\<lambda>pos. pos\<lparr>pos_child_tag := nspace @ '':'' @ mname\<rparr>) st;
          partner = findPartnerModule (iiter # rest) modRing False;
          st = upd_pos (\<lambda>pos. pos\<lparr>pos_trans := (pos_trans pos)
                  \<lparr>tr_dx := Rho (center (getModule iiter)) - RadiusIn,
                   tr_dz := vecZ (center (getModule iiter))\<rparr>\<rparr>) st;
          st = (if \<not> flipped (getModule iiter)
                then upd_pos (\<lambda>pos. pos\<lparr>pos_rotref := nspace @ '':'' @ xml_places_unflipped_mod_in_rod K\<rparr>) st
                else upd_pos (\<lambda>pos. pos\<lparr>pos_rotref := nspace @ '':'' @ xml_places_flipped_mod_in_rod K\<rparr>) st);
          st = push_pos st;
          st = (if partner \<noteq> length (iiter # rest)
                then
                  (let pm = getModule ((iiter # rest) ! partner);
                       st = upd_pos (\<lambda>pos. pos\<lparr>pos_trans := (pos_trans pos)
                               \<lparr>tr_dx := Rho (center pm) - RadiusIn, tr_dz := vecZ (center pm)\<rparr>\<rparr>) st;
                       st = (if \<not> flipped pm
                             then upd_pos (\<lambda>pos. pos\<lparr>pos_rotref := nspace @ '':'' @ xml_places_unflipped_mod_in_rod K\<rparr>) st
                             else upd_pos (\<lambda>pos. pos\<lparr>pos_rotref := nspace @ '':'' @ xml_places_flipped_mod_in_rod K\<rparr>) st);
                       st = upd_pos (\<lambda>pos. pos\<lparr>pos_copy := 2\<rparr>) st;
                       st = push_pos st
                   in upd_pos (\<lambda>pos. pos\<lparr>pos_copy := 1\<rparr>) st)
                else st)
      in upd_pos (\<lambda>pos. pos\<lparr>pos_rotref := []\<rparr>) st)"

subsection \<open>The name of an active surface\<close>

text \<open>The statement that names the shape of an active surface, which stands four times
  in the source (inner and outer sensor, in \<open>analyseLayers\<close> and in \<open>analyseDiscs\<close>):
  \<open>if (type == "ptPS") shape.name_tag = ps_name; else if (type == "pt2S") shape.name_tag
  = s2_name; else { std::cerr << "Unknown module type : " << type << " ." << std::endl;
  }\<close>.\<close>

definition name_active_surface :: "string \<Rightarrow> string \<Rightarrow> string \<Rightarrow> PassState \<Rightarrow> PassState" where
  "name_active_surface type ps_name s2_name st =
     (if type = ''ptPS'' then upd_shape (\<lambda>sh. sh\<lparr>sh_name_tag := ps_name\<rparr>) st
      else if type = ''pt2S'' then upd_shape (\<lambda>sh. sh\<lparr>sh_name_tag := s2_name\<rparr>) st
      else st\<lparr>cerr := cerr st @ [''Unknown module type : '' @ type @ '' .'']\<rparr>)"

text \<open>The assignments to \<open>minfo\<close> from a sensor (\<open>any2str<int>\<close> prints an \<open>int\<close>), and the
  stereo rotation of the upper wafer with its reset.\<close>

definition minfo_of_sensor :: "Sensor \<Rightarrow> ModuleROCInfo \<Rightarrow> ModuleROCInfo" where
  "minfo_of_sensor sensor minfo =
     minfo\<lparr>roc_rocrows := show_int (numROCRows sensor), roc_roccols := show_int (numROCCols sensor),
           roc_rocx := show_int (numROCX sensor), roc_rocy := show_int (numROCY sensor)\<rparr>"

definition stereo_rotation :: "string \<Rightarrow> string \<Rightarrow> Module \<Rightarrow> PassState \<Rightarrow> PassState" where
  "stereo_rotation nspace rotname m st =
     (if stereoRotation m \<noteq> 0
      then
        (let st = upd_rot (\<lambda>rot. rot\<lparr>rot_name := rotname\<rparr>) st;
             st = upd_rot (\<lambda>rot. rot\<lparr>rot_thetax := 90\<rparr>) st;
             st = upd_rot (\<lambda>rot. rot\<lparr>rot_phix := stereoRotation m / pi * 180\<rparr>) st;
             st = upd_rot (\<lambda>rot. rot\<lparr>rot_thetay := 90\<rparr>) st;
             st = upd_rot (\<lambda>rot. rot\<lparr>rot_phiy := 90 + stereoRotation m / pi * 180\<rparr>) st;
             st = st\<lparr>out_r := map_insert (rot_name (loc_rot st)) (loc_rot st) (out_r st)\<rparr>
         in upd_pos (\<lambda>pos. pos\<lparr>pos_rotref := nspace @ '':'' @ rot_name (loc_rot st)\<rparr>) st)
      else st)"

definition reset_rotation :: "PassState \<Rightarrow> PassState" where
  "reset_rotation st =
     (let st = upd_pos (\<lambda>pos. pos\<lparr>pos_rotref := []\<rparr>) st;
          st = upd_rot (\<lambda>rot. rot\<lparr>rot_name := [], rot_thetax := 0, rot_phix := 0, rot_thetay := 0,
                  rot_phiy := 0\<rparr>) st
      in upd_pos (\<lambda>pos. pos\<lparr>pos_copy := 1\<rparr>) st)"

text \<open>The four calls \<open>modcomplex.addMaterialInfo(c); modcomplex.addShapeInfo(s);
  modcomplex.addLogicInfo(l); modcomplex.addPositionInfo(p);\<close>.\<close>

definition add_hybrid_records ::
  "Declared \<Rightarrow> (Volume \<Rightarrow> real) \<Rightarrow> ModuleComplex \<Rightarrow> PassState \<Rightarrow> PassState" where
  "add_hybrid_records D getDensity modcomplex st =
     st\<lparr>out_c := addMaterialInfo modcomplex getDensity (out_c st),
        out_s := addShapeInfo modcomplex getDensity (declared_ShapeInfo D) (out_s st),
        out_l := addLogicInfo modcomplex getDensity (declared_LogicalInfo D) (out_l st),
        out_p := addPositionInfo modcomplex getDensity (declared_PosInfo D) (out_p st)\<rparr>"

subsection \<open>A module of a barrel layer\<close>

text \<open>\<open>analyseLayers\<close>, for a module cap \<open>iiter\<close> with \<open>uniRef().phi == 1\<close> on the positive
  side. \<open>mname\<close> and \<open>rodname\<close> are the names written to the streams of these names,
  \<open>modcomplex\<close> is the module after \<open>buildSubVolumes\<close>, and \<open>tilt_angle\<close> is the local
  \<open>tiltAngle\<close> of the source (the tilt angle of the module in degrees in a tilted layer,
  \<open>0\<close> otherwise). The source is one block; it is cut here at its comments \<open>MODULE\<close>,
  \<open>WAFER\<close> and \<open>ACTIVE SURFACE\<close> and at the two tests \<open>numSensors() == 2\<close>.\<close>

text \<open>The box of the module and its logical volume.\<close>

definition layer_module_box :: "Constants \<Rightarrow> string \<Rightarrow> string \<Rightarrow> ModuleComplex \<Rightarrow> PassState \<Rightarrow> PassState" where
  "layer_module_box K nspace mname modcomplex st =
     (let st = upd_shape (\<lambda>sh. sh\<lparr>sh_name_tag := mname\<rparr>) st;
          st = upd_shape (\<lambda>sh. sh\<lparr>sh_dx := expandedModWidth modcomplex / 2\<rparr>) st;
          st = upd_shape (\<lambda>sh. sh\<lparr>sh_dy := expandedModLength modcomplex / 2\<rparr>) st;
          st = upd_shape (\<lambda>sh. sh\<lparr>sh_dz := expandedModThickness modcomplex / 2\<rparr>) st;
          st = push_shape st;
          st = upd_logic (\<lambda>lg. lg\<lparr>lg_material_tag := xml_material_air K\<rparr>) st;
          st = upd_logic (\<lambda>lg. lg\<lparr>lg_name_tag := mname\<rparr>) st;
          st = upd_logic (\<lambda>lg. lg\<lparr>lg_shape_tag := nspace @ '':'' @ lg_name_tag lg\<rparr>) st
      in push_logic st)"

text \<open>The wafer, which is the lower wafer of a module of two sensors; then the upper
  wafer, the body of the first \<open>if (numSensors() == 2)\<close>.\<close>

definition layer_wafer :: "Constants \<Rightarrow> string \<Rightarrow> string \<Rightarrow> Module \<Rightarrow> PassState \<Rightarrow> PassState" where
  "layer_wafer K nspace mname m st =
     (let xml_base_lowerupper = [];
          xml_base_lowerupper = (if numSensors m = 2 then xml_base_lower K else xml_base_lowerupper);
          st = upd_shape (\<lambda>sh. sh\<lparr>sh_name_tag := mname @ xml_base_lowerupper @ xml_base_waf K\<rparr>) st;
          st = upd_shape (\<lambda>sh. sh\<lparr>sh_dx := area m / mod_length m / 2\<rparr>) st;
          st = upd_shape (\<lambda>sh. sh\<lparr>sh_dy := mod_length m / 2\<rparr>) st;
          st = upd_shape (\<lambda>sh. sh\<lparr>sh_dz := sensorThickness m / 2\<rparr>) st;
          st = push_shape st;
          st = upd_logic (\<lambda>lg. lg\<lparr>lg_name_tag := mname @ xml_base_lowerupper @ xml_base_waf K\<rparr>) st;
          st = upd_logic (\<lambda>lg. lg\<lparr>lg_shape_tag := nspace @ '':'' @ lg_name_tag lg\<rparr>) st;
          st = upd_logic (\<lambda>lg. lg\<lparr>lg_material_tag := xml_material_air K\<rparr>) st;
          st = push_logic st;
          st = upd_pos (\<lambda>pos. pos\<lparr>pos_parent_tag := nspace @ '':'' @ mname\<rparr>) st;
          st = upd_pos (\<lambda>pos. pos\<lparr>pos_child_tag := nspace @ '':'' @ mname @ xml_base_lowerupper @ xml_base_waf K\<rparr>) st;
          st = upd_pos (\<lambda>pos. pos\<lparr>pos_trans := (pos_trans pos)\<lparr>tr_dx := 0\<rparr>\<rparr>) st;
          st = upd_pos (\<lambda>pos. pos\<lparr>pos_trans := (pos_trans pos)\<lparr>tr_dz := - dsDistance m / 2\<rparr>\<rparr>) st
      in push_pos st)"

definition layer_wafer_upper :: "Constants \<Rightarrow> string \<Rightarrow> string \<Rightarrow> Module \<Rightarrow> PassState \<Rightarrow> PassState" where
  "layer_wafer_upper K nspace mname m st =
     (let xml_base_lowerupper = xml_base_upper K;
          st = upd_shape (\<lambda>sh. sh\<lparr>sh_name_tag := mname @ xml_base_lowerupper @ xml_base_waf K\<rparr>) st;
          st = push_shape st;
          st = upd_logic (\<lambda>lg. lg\<lparr>lg_name_tag := mname @ xml_base_lowerupper @ xml_base_waf K\<rparr>) st;
          st = upd_logic (\<lambda>lg. lg\<lparr>lg_shape_tag := nspace @ '':'' @ lg_name_tag lg\<rparr>) st;
          st = push_logic st;
          st = upd_pos (\<lambda>pos. pos\<lparr>pos_child_tag := nspace @ '':'' @ mname @ xml_base_lowerupper @ xml_base_waf K\<rparr>) st;
          st = upd_pos (\<lambda>pos. pos\<lparr>pos_trans := (pos_trans pos)
                  \<lparr>tr_dz := tr_dz (pos_trans pos) + dsDistance m\<rparr>\<rparr>) st;
          st = stereo_rotation nspace (type_stereo K @ mname) m st;
          st = push_pos st
      in reset_rotation st)"

text \<open>The active surface of the inner sensor.\<close>

definition layer_active_inner ::
  "Constants \<Rightarrow> string \<Rightarrow> string \<Rightarrow> Module \<Rightarrow> PassState \<Rightarrow> PassState" where
  "layer_active_inner K nspace mname m st =
     (let xml_base_lowerupper = [];
          xml_base_lowerupper = (if numSensors m = 2 then xml_base_lower K else xml_base_lowerupper);
          st = name_active_surface (moduleType m)
                 (mname @ xml_base_lowerupper @ xml_base_ps K @ xml_base_pixel K @ xml_base_act K)
                 (mname @ xml_base_lowerupper @ xml_base_2s K @ xml_base_act K) st;
          st = upd_shape (\<lambda>sh. sh\<lparr>sh_dx := area m / mod_length m / 2\<rparr>) st;
          st = upd_shape (\<lambda>sh. sh\<lparr>sh_dy := mod_length m / 2\<rparr>) st;
          st = upd_shape (\<lambda>sh. sh\<lparr>sh_dz := sensorThickness m / 2\<rparr>) st;
          st = push_shape st;
          shape_name = sh_name_tag (loc_shape st);
          st = upd_logic (\<lambda>lg. lg\<lparr>lg_name_tag := shape_name\<rparr>) st;
          st = upd_logic (\<lambda>lg. lg\<lparr>lg_shape_tag := nspace @ '':'' @ lg_name_tag lg\<rparr>) st;
          st = upd_logic (\<lambda>lg. lg\<lparr>lg_material_tag := nspace @ '':'' @ xml_sensor_silicon K\<rparr>) st;
          st = push_logic st;
          st = upd_pos (\<lambda>pos. pos\<lparr>pos_parent_tag := nspace @ '':'' @ mname @ xml_base_lowerupper @ xml_base_waf K\<rparr>) st;
          st = upd_pos (\<lambda>pos. pos\<lparr>pos_child_tag := nspace @ '':'' @ shape_name\<rparr>) st;
          st = upd_pos (\<lambda>pos. pos\<lparr>pos_trans := (pos_trans pos)\<lparr>tr_dz := 0\<rparr>\<rparr>) st;
          st = push_pos st;
          st = st\<lparr>mspec := (mspec st)\<lparr>spec_partselectors := spec_partselectors (mspec st) @ [shape_name]\<rparr>\<rparr>;
          st = upd_minfo (\<lambda>minfo. minfo\<lparr>roc_name := moduleType m\<rparr>) st;
          st = upd_minfo (minfo_of_sensor (innerSensor m)) st;
          minfo = loc_minfo st
      in st\<lparr>mspec := (mspec st)\<lparr>spec_moduletypes := spec_moduletypes (mspec st) @ [minfo]\<rparr>\<rparr>)"

text \<open>The active surface of the outer sensor: the body of the second
  \<open>if (numSensors() == 2)\<close> before its four calls that add the records of the hybrids.\<close>

definition layer_active_outer ::
  "Constants \<Rightarrow> string \<Rightarrow> string \<Rightarrow> Module \<Rightarrow> PassState \<Rightarrow> PassState" where
  "layer_active_outer K nspace mname m st =
     (let xml_base_lowerupper = xml_base_upper K;
          st = name_active_surface (moduleType m)
                 (mname @ xml_base_lowerupper @ xml_base_ps K @ xml_base_strip K @ xml_base_act K)
                 (mname @ xml_base_lowerupper @ xml_base_2s K @ xml_base_act K) st;
          st = push_shape st;
          shape_name = sh_name_tag (loc_shape st);
          st = upd_logic (\<lambda>lg. lg\<lparr>lg_name_tag := shape_name\<rparr>) st;
          st = upd_logic (\<lambda>lg. lg\<lparr>lg_shape_tag := nspace @ '':'' @ lg_name_tag lg\<rparr>) st;
          st = push_logic st;
          st = upd_pos (\<lambda>pos. pos\<lparr>pos_parent_tag := nspace @ '':'' @ mname @ xml_base_lowerupper @ xml_base_waf K\<rparr>) st;
          st = upd_pos (\<lambda>pos. pos\<lparr>pos_child_tag := nspace @ '':'' @ shape_name\<rparr>) st;
          st = push_pos st;
          st = st\<lparr>mspec := (mspec st)\<lparr>spec_partselectors := spec_partselectors (mspec st) @ [shape_name]\<rparr>\<rparr>;
          st = upd_minfo (minfo_of_sensor (outerSensor m)) st;
          minfo = loc_minfo st
      in st\<lparr>mspec := (mspec st)\<lparr>spec_moduletypes := spec_moduletypes (mspec st) @ [minfo]\<rparr>\<rparr>)"

text \<open>All the records of the module, in the order of the source: the box, the placement in
  the rod for a straight layer or the straight part of a tilted one, the entry of the
  module in \<open>sspec\<close>, the wafers, the active surfaces and the records of the hybrids.\<close>

definition layer_module_records ::
  "Constants \<Rightarrow> Declared \<Rightarrow> (Volume \<Rightarrow> real) \<Rightarrow> string \<Rightarrow> string \<Rightarrow> string \<Rightarrow> ModuleCap \<Rightarrow>
   ModuleCap list \<Rightarrow> int \<Rightarrow> real \<Rightarrow> bool \<Rightarrow> real \<Rightarrow> ModuleComplex \<Rightarrow> PassState \<Rightarrow> PassState" where
  "layer_module_records K D getDensity nspace rodname mname iiter rest modRing RadiusIn isTilted tilt_angle
       modcomplex st =
     (let m = getModule iiter;
          st = layer_module_box K nspace mname modcomplex st;
          st = (if \<not> isTilted \<or> (isTilted \<and> tilt_angle = 0)
                then rod_placement K nspace rodname mname iiter rest modRing RadiusIn st else st);
          st = st\<lparr>sspec := select_part mname minfo_zero (sspec st)\<rparr>;
          st = layer_wafer K nspace mname m st;
          st = (if numSensors m = 2 then layer_wafer_upper K nspace mname m st else st);
          st = layer_active_inner K nspace mname m st
      in if numSensors m = 2
         then add_hybrid_records D getDensity modcomplex (layer_active_outer K nspace mname m st)
         else st)"

subsection \<open>A module of an endcap disc\<close>

text \<open>\<open>analyseDiscs\<close>, for a module cap \<open>iiter\<close> with \<open>uniRef().phi == 1\<close> on the positive
  side, cut in the same way.\<close>

definition disc_module_box ::
  "Constants \<Rightarrow> string \<Rightarrow> string \<Rightarrow> Module \<Rightarrow> ModuleComplex \<Rightarrow> PassState \<Rightarrow> PassState" where
  "disc_module_box K nspace mname m modcomplex st =
     (let st = upd_shape (\<lambda>sh. sh\<lparr>sh_name_tag := mname\<rparr>) st;
          st = upd_shape (\<lambda>sh. sh\<lparr>sh_type := (if mod_shape m = RECTANGULAR then bx else tp)\<rparr>) st;
          st = (if sh_type (loc_shape st) = bx
                then upd_shape (\<lambda>sh. sh\<lparr>sh_dx := expandedModWidth modcomplex / 2,
                        sh_dy := expandedModLength modcomplex / 2,
                        sh_dz := expandedModThickness modcomplex / 2\<rparr>) st
                else upd_shape (\<lambda>sh. sh\<lparr>sh_dx := minWidth m / 2 + serviceHybridWidth m,
                        sh_dxx := maxWidth m / 2 + serviceHybridWidth m,
                        sh_dy := mod_length m / 2 + frontEndHybridWidth m,
                        sh_dyy := mod_length m / 2 + frontEndHybridWidth m,
                        sh_dz := thickness m / 2 + supportPlateThickness m\<rparr>) st);
          st = push_shape st;
          st = upd_shape (\<lambda>sh. sh\<lparr>sh_dx := minWidth m / 2\<rparr>) st;
          st = upd_shape (\<lambda>sh. sh\<lparr>sh_dxx := maxWidth m / 2\<rparr>) st;
          st = upd_shape (\<lambda>sh. sh\<lparr>sh_dy := mod_length m / 2\<rparr>) st;
          st = upd_shape (\<lambda>sh. sh\<lparr>sh_dyy := mod_length m / 2\<rparr>) st;
          st = upd_shape (\<lambda>sh. sh\<lparr>sh_dz := thickness m / 2\<rparr>) st;
          st = upd_logic (\<lambda>lg. lg\<lparr>lg_name_tag := mname\<rparr>) st;
          st = upd_logic (\<lambda>lg. lg\<lparr>lg_shape_tag := nspace @ '':'' @ lg_name_tag lg\<rparr>) st;
          st = upd_logic (\<lambda>lg. lg\<lparr>lg_material_tag := xml_material_air K\<rparr>) st
      in push_logic st)"

definition disc_wafer :: "Constants \<Rightarrow> string \<Rightarrow> string \<Rightarrow> Module \<Rightarrow> PassState \<Rightarrow> PassState" where
  "disc_wafer K nspace mname m st =
     (let xml_base_lowerupper = [];
          xml_base_lowerupper = (if numSensors m = 2 then xml_base_lower K else xml_base_lowerupper);
          shape_tag = lg_shape_tag (loc_logic st);
          st = upd_pos (\<lambda>pos. pos\<lparr>pos_parent_tag := shape_tag\<rparr>) st;
          st = upd_shape (\<lambda>sh. sh\<lparr>sh_name_tag := mname @ xml_base_lowerupper @ xml_base_waf K\<rparr>) st;
          st = upd_shape (\<lambda>sh. sh\<lparr>sh_dz := sensorThickness m / 2\<rparr>) st;
          st = push_shape st;
          shape_name = sh_name_tag (loc_shape st);
          st = upd_logic (\<lambda>lg. lg\<lparr>lg_name_tag := shape_name\<rparr>) st;
          st = upd_logic (\<lambda>lg. lg\<lparr>lg_shape_tag := nspace @ '':'' @ lg_name_tag lg\<rparr>) st;
          st = upd_logic (\<lambda>lg. lg\<lparr>lg_material_tag := xml_material_air K\<rparr>) st;
          st = push_logic st;
          shape_tag = lg_shape_tag (loc_logic st);
          st = upd_pos (\<lambda>pos. pos\<lparr>pos_child_tag := shape_tag\<rparr>) st;
          st = upd_pos (\<lambda>pos. pos\<lparr>pos_trans := (pos_trans pos)
                  \<lparr>tr_dz := (if side (uniRef m) > 0 then - dsDistance m / 2 else dsDistance m / 2)\<rparr>\<rparr>) st
      in push_pos st)"

definition disc_wafer_upper :: "Constants \<Rightarrow> string \<Rightarrow> string \<Rightarrow> Module \<Rightarrow> PassState \<Rightarrow> PassState" where
  "disc_wafer_upper K nspace mname m st =
     (let xml_base_lowerupper = xml_base_upper K;
          st = upd_shape (\<lambda>sh. sh\<lparr>sh_name_tag := mname @ xml_base_lowerupper @ xml_base_waf K\<rparr>) st;
          st = push_shape st;
          shape_name = sh_name_tag (loc_shape st);
          st = upd_logic (\<lambda>lg. lg\<lparr>lg_name_tag := shape_name\<rparr>) st;
          st = upd_logic (\<lambda>lg. lg\<lparr>lg_shape_tag := nspace @ '':'' @ lg_name_tag lg\<rparr>) st;
          st = push_logic st;
          shape_tag = lg_shape_tag (loc_logic st);
          st = upd_pos (\<lambda>pos. pos\<lparr>pos_child_tag := shape_tag\<rparr>) st;
          st = upd_pos (\<lambda>pos. pos\<lparr>pos_trans := (pos_trans pos)
                  \<lparr>tr_dz := (if side (uniRef m) > 0 then dsDistance m / 2 else - dsDistance m / 2)\<rparr>\<rparr>) st;
          st = stereo_rotation nspace (type_stereo K @ xml_endcap_module K @ mname) m st;
          st = push_pos st
      in reset_rotation st)"

definition disc_active_inner ::
  "Constants \<Rightarrow> string \<Rightarrow> string \<Rightarrow> Module \<Rightarrow> PassState \<Rightarrow> PassState" where
  "disc_active_inner K nspace mname m st =
     (let xml_base_lowerupper = [];
          xml_base_lowerupper = (if numSensors m = 2 then xml_base_lower K else xml_base_lowerupper);
          st = upd_pos (\<lambda>pos. pos\<lparr>pos_parent_tag := nspace @ '':'' @ mname @ xml_base_lowerupper @ xml_base_waf K\<rparr>) st;
          st = name_active_surface (moduleType m)
                 (mname @ xml_base_lowerupper @ xml_base_ps K @ xml_base_pixel K @ xml_base_act K)
                 (mname @ xml_base_lowerupper @ xml_base_2s K @ xml_base_act K) st;
          st = push_shape st;
          shape_name = sh_name_tag (loc_shape st);
          st = upd_logic (\<lambda>lg. lg\<lparr>lg_name_tag := shape_name\<rparr>) st;
          st = upd_logic (\<lambda>lg. lg\<lparr>lg_shape_tag := nspace @ '':'' @ lg_name_tag lg\<rparr>) st;
          st = upd_logic (\<lambda>lg. lg\<lparr>lg_material_tag := nspace @ '':'' @ xml_sensor_silicon K\<rparr>) st;
          st = push_logic st;
          shape_tag = lg_shape_tag (loc_logic st);
          logic_name = lg_name_tag (loc_logic st);
          st = upd_pos (\<lambda>pos. pos\<lparr>pos_child_tag := shape_tag\<rparr>) st;
          st = upd_pos (\<lambda>pos. pos\<lparr>pos_trans := (pos_trans pos)\<lparr>tr_dz := 0\<rparr>\<rparr>) st;
          st = push_pos st;
          st = st\<lparr>mspec := (mspec st)\<lparr>spec_partselectors := spec_partselectors (mspec st) @ [logic_name]\<rparr>\<rparr>;
          st = upd_minfo (\<lambda>minfo. minfo\<lparr>roc_name := moduleType m\<rparr>) st;
          st = upd_minfo (minfo_of_sensor (innerSensor m)) st;
          minfo = loc_minfo st
      in st\<lparr>mspec := (mspec st)\<lparr>spec_moduletypes := spec_moduletypes (mspec st) @ [minfo]\<rparr>\<rparr>)"

definition disc_active_outer ::
  "Constants \<Rightarrow> string \<Rightarrow> string \<Rightarrow> Module \<Rightarrow> PassState \<Rightarrow> PassState" where
  "disc_active_outer K nspace mname m st =
     (let xml_base_lowerupper = xml_base_upper K;
          st = upd_pos (\<lambda>pos. pos\<lparr>pos_parent_tag := nspace @ '':'' @ mname @ xml_base_lowerupper @ xml_base_waf K\<rparr>) st;
          st = name_active_surface (moduleType m)
                 (mname @ xml_base_lowerupper @ xml_base_ps K @ xml_base_strip K @ xml_base_act K)
                 (mname @ xml_base_lowerupper @ xml_base_2s K @ xml_base_act K) st;
          st = push_shape st;
          shape_name = sh_name_tag (loc_shape st);
          st = upd_logic (\<lambda>lg. lg\<lparr>lg_name_tag := shape_name\<rparr>) st;
          st = upd_logic (\<lambda>lg. lg\<lparr>lg_shape_tag := nspace @ '':'' @ lg_name_tag lg\<rparr>) st;
          st = upd_logic (\<lambda>lg. lg\<lparr>lg_material_tag := nspace @ '':'' @ xml_sensor_silicon K\<rparr>) st;
          st = push_logic st;
          shape_tag = lg_shape_tag (loc_logic st);
          logic_name = lg_name_tag (loc_logic st);
          st = upd_pos (\<lambda>pos. pos\<lparr>pos_child_tag := shape_tag\<rparr>) st;
          st = upd_pos (\<lambda>pos. pos\<lparr>pos_trans := (pos_trans pos)\<lparr>tr_dz := 0\<rparr>\<rparr>) st;
          st = push_pos st;
          st = st\<lparr>mspec := (mspec st)\<lparr>spec_partselectors := spec_partselectors (mspec st) @ [logic_name]\<rparr>\<rparr>;
          st = upd_minfo (minfo_of_sensor (outerSensor m)) st;
          minfo = loc_minfo st
      in st\<lparr>mspec := (mspec st)\<lparr>spec_moduletypes := spec_moduletypes (mspec st) @ [minfo]\<rparr>\<rparr>)"

definition disc_module_records ::
  "Constants \<Rightarrow> Declared \<Rightarrow> (Volume \<Rightarrow> real) \<Rightarrow> string \<Rightarrow> string \<Rightarrow> ModuleCap \<Rightarrow> ModuleComplex \<Rightarrow>
   PassState \<Rightarrow> PassState" where
  "disc_module_records K D getDensity nspace mname iiter modcomplex st =
     (let m = getModule iiter;
          st = disc_module_box K nspace mname m modcomplex st;
          st = st\<lparr>sspec := select_part mname minfo_zero (sspec st)\<rparr>;
          st = disc_wafer K nspace mname m st;
          st = (if numSensors m = 2 then disc_wafer_upper K nspace mname m st else st);
          st = disc_active_inner K nspace mname m st
      in if numSensors m = 2
         then add_hybrid_records D getDensity modcomplex (disc_active_outer K nspace mname m st)
         else st)"

subsection \<open>The state before the loops\<close>

text \<open>The locals of \<open>analyseLayers\<close> and of \<open>analyseDiscs\<close> as these functions declare and
  then assign them before their loops, with the output vectors \<open>c\<close>, \<open>l\<close>, \<open>s\<close>, \<open>p\<close>
  and \<open>r\<close> as they are passed in.\<close>

definition pass_locals ::
  "Declared \<Rightarrow> ShapeInfo \<times> LogicalInfo \<times> PosInfo \<times> Rotation \<times> ModuleROCInfo" where
  "pass_locals D =
     ((declared_ShapeInfo D)\<lparr>sh_dyy := 0\<rparr>,
      declared_LogicalInfo D,
      (declared_PosInfo D)\<lparr>pos_copy := 1,
         pos_trans := (pos_trans (declared_PosInfo D))\<lparr>tr_dx := 0, tr_dy := 0, tr_dz := 0\<rparr>\<rparr>,
      (declared_Rotation D)\<lparr>rot_phix := 0, rot_phiy := 0, rot_phiz := 0,
         rot_thetax := 0, rot_thetay := 0, rot_thetaz := 0\<rparr>,
      declared_ModuleROCInfo D)"

definition layers_init ::
  "Constants \<Rightarrow> Declared \<Rightarrow> Composite list \<Rightarrow> LogicalInfo list \<Rightarrow> ShapeInfo list \<Rightarrow> PosInfo list \<Rightarrow>
   (string \<times> Rotation) list \<Rightarrow> PassState" where
  "layers_init K D c l s p r =
     (let (shape, logic, pos, rot, minfo) = pass_locals D
      in \<lparr>out_c = c, out_l = l, out_s = s, out_p = p, out_r = r,
          loc_shape = shape, loc_logic = logic, loc_pos = pos, loc_rot = rot, loc_minfo = minfo,
          sspec = (declared_SpecParInfo D)\<lparr>spec_name := xml_subdet_barrel_stack K @ xml_par_tail K,
                    spec_parameter := (xml_tkddd_structure K, xml_subdet_2OT_barrel_stack K)\<rparr>,
          mspec = (declared_SpecParInfo D)\<lparr>spec_name := xml_subdet_tobdet K @ xml_par_tail K,
                    spec_parameter := (xml_tkddd_structure K, xml_det_tobdet K)\<rparr>,
          cerr = []\<rparr>)"

definition discs_init ::
  "Constants \<Rightarrow> Declared \<Rightarrow> Composite list \<Rightarrow> LogicalInfo list \<Rightarrow> ShapeInfo list \<Rightarrow> PosInfo list \<Rightarrow>
   (string \<times> Rotation) list \<Rightarrow> PassState" where
  "discs_init K D c l s p r =
     (let (shape, logic, pos, rot, minfo) = pass_locals D
      in \<lparr>out_c = c, out_l = l, out_s = s, out_p = p, out_r = r,
          loc_shape = shape, loc_logic = logic, loc_pos = pos, loc_rot = rot, loc_minfo = minfo,
          sspec = (declared_SpecParInfo D)\<lparr>spec_name := xml_subdet_endcap_stack K @ xml_par_tail K,
                    spec_parameter := (xml_tkddd_structure K, xml_subdet_2OT_endcap_stack K)\<rparr>,
          mspec = (declared_SpecParInfo D)\<lparr>spec_name := xml_subdet_tiddet K @ xml_par_tail K,
                    spec_parameter := (xml_tkddd_structure K, xml_det_tiddet K)\<rparr>,
          cerr = []\<rparr>)"

section \<open>Notions used in the statements about the records of a module\<close>

text \<open>\<open>opposite_on_ring rg c\<close>: the module cap \<open>c\<close> is on ring \<open>rg\<close> and on the negative
  side. \<open>unknown_type m\<close>: the type of the module is neither \<open>ptPS\<close> nor \<open>pt2S\<close>;
  \<open>unknown_type_message\<close> is the line that is then written to the error stream.\<close>

definition opposite_on_ring :: "int \<Rightarrow> ModuleCap \<Rightarrow> bool" where
  "opposite_on_ring rg c \<longleftrightarrow> ring (uniRef (getModule c)) = rg \<and> side (uniRef (getModule c)) < 0"

definition unknown_type :: "Module \<Rightarrow> bool" where
  "unknown_type m \<longleftrightarrow> moduleType m \<noteq> ''ptPS'' \<and> moduleType m \<noteq> ''pt2S''"

definition unknown_type_message :: "Module \<Rightarrow> string" where
  "unknown_type_message m = ''Unknown module type : '' @ moduleType m @ '' .''"

text \<open>The name that the shape of the last wafer of a module bears.\<close>

definition last_wafer_name :: "Constants \<Rightarrow> string \<Rightarrow> Module \<Rightarrow> string" where
  "last_wafer_name K mname m =
     mname @ (if numSensors m = 2 then xml_base_upper K else []) @ xml_base_waf K"

text \<open>Example module caps: the example module on the side \<open>sd\<close> of ring \<open>rg\<close>, and the
  example module with one sensor and the type \<open>ptXX\<close>.\<close>

definition rod_cap :: "int \<Rightarrow> int \<Rightarrow> ModuleCap" where
  "rod_cap sd rg = (ex_cap [])\<lparr>getModule := (ex_module [])\<lparr>uniRef := \<lparr>side = sd, phi = 1, ring = rg\<rparr>\<rparr>\<rparr>"

definition odd_cap :: ModuleCap where
  "odd_cap = (ex_cap [])\<lparr>getModule := (ex_module [])\<lparr>moduleType := ''ptXX'', numSensors := 1\<rparr>\<rparr>"

text \<open>\<open>keeps_output st st'\<close>: the four output vectors of \<open>st'\<close> begin with those of \<open>st\<close>.
  \<open>pushed_shape_names st st'\<close>: the names of the shapes that \<open>st'\<close> holds after those of
  \<open>st\<close>, in order.\<close>

definition keeps_output :: "PassState \<Rightarrow> PassState \<Rightarrow> bool" where
  "keeps_output st st' \<longleftrightarrow>
     take (length (out_c st)) (out_c st') = out_c st \<and>
     take (length (out_l st)) (out_l st') = out_l st \<and>
     take (length (out_s st)) (out_s st') = out_s st \<and>
     take (length (out_p st)) (out_p st') = out_p st"

definition pushed_shape_names :: "PassState \<Rightarrow> PassState \<Rightarrow> string list" where
  "pushed_shape_names st st' = map sh_name_tag (drop (length (out_s st)) (out_s st'))"

text \<open>The names of the sub-volumes for which a module adds records: those of positive
  density.\<close>

definition hybrid_names :: "(Volume \<Rightarrow> real) \<Rightarrow> ModuleComplex \<Rightarrow> string list" where
  "hybrid_names getDensity modcomplex = map getName (filter (\<lambda>v. getDensity v > 0) (volumes modcomplex))"

chapter \<open>Properties\<close>

section \<open>Properties of the elementary-material pass\<close>

lemma analyseElements_from_drop:
  "analyseElements_from mattab i elems = elems @ map element_of_row (drop i mattab)"
proof (induction mattab i elems rule: analyseElements_from.induct)
  case (1 mattab i elems)
  show ?case
  proof (cases "i < length mattab")
    case True
    then have "drop i mattab = mattab ! i # drop (Suc i) mattab"
      by (simp add: Cons_nth_drop_Suc)
    with True "1.IH" show ?thesis
      by (subst analyseElements_from.simps) simp
  next
    case False
    then show ?thesis
      by (subst analyseElements_from.simps) simp
  qed
qed

lemma truncation_of_int: "truncation (of_int n) = n"
  by (simp add: truncation_def)

lemma trunc_int_of_int: "in_int_range (of_int n) \<Longrightarrow> trunc_int (of_int n) = n"
  by (simp add: trunc_int_def truncation_of_int)

lemma in_int_range_of_int: "in_int_range (of_int n) \<longleftrightarrow> - 2147483648 \<le> n \<and> n \<le> 2147483647"
  by (simp add: in_int_range_def truncation_of_int INT_MIN_def INT_MAX_def)

lemma Z_spec:
  assumes "in_int_range (of_int (spec_atomic_number x0 A))"
  shows "Z x0 A = spec_atomic_number x0 A"
proof (cases "4 - 4 * (1 - 181 * A / x0) > 0")
  case True
  with assms have "in_int_range (of_int \<lfloor>(sqrt (4 - 4 * (1 - 181 * A / x0)) - 2) / 2 + 1 / 2\<rfloor>)"
    by (simp add: spec_atomic_number_def)
  then have "trunc_int (of_int \<lfloor>(sqrt (4 - 4 * (1 - 181 * A / x0)) - 2) / 2 + 1 / 2\<rfloor>) =
      \<lfloor>(sqrt (4 - 4 * (1 - 181 * A / x0)) - 2) / 2 + 1 / 2\<rfloor>"
    by (rule trunc_int_of_int)
  with True show ?thesis
    by (simp add: Z_def spec_atomic_number_def Let_def)
next
  case False
  then show ?thesis
    by (simp add: Z_def spec_atomic_number_def Let_def)
qed

lemma element_of_row_spec:
  assumes "in_int_range (of_int (spec_atomic_number (rlength r) (spec_atomic_weight (ilength r))))"
  shows "element_of_row r = spec_element r"
  using Z_spec[OF assms]
  by (simp add: element_of_row_def spec_element_def spec_atomic_weight_def Let_def)

lemma map_element_of_row_spec:
  assumes "\<forall>r \<in> set rows.
      in_int_range (of_int (spec_atomic_number (rlength r) (spec_atomic_weight (ilength r))))"
  shows "map element_of_row rows = map spec_element rows"
  using assms by (simp add: element_of_row_spec)

text \<open>The worked example of the specification: for \<open>X0 = 100\<close> and \<open>A = 1\<close> the
  discriminant is \<open>7.24\<close> and the atomic number is \<open>0\<close>.\<close>

lemma floor_sqrt_half:
  fixes s :: real
  assumes "1 \<le> s" "s < 3"
  shows "\<lfloor>(s - 2) / 2 + 1 / 2\<rfloor> = (0::int)"
proof -
  have a: "0 \<le> (s - 2) / 2 + 1 / 2" using assms by (simp add: field_simps)
  have b: "(s - 2) / 2 + 1 / 2 < 1" using assms by (simp add: field_simps)
  from a b show ?thesis by (simp add: floor_eq_iff)
qed

lemma spec_atomic_number_example: "spec_atomic_number 100 1 = 0"
proof -
  have d: "4 - 4 * (1 - 181 * 1 / 100) = (181 / 25 :: real)" by simp
  have lo: "(1::real) \<le> sqrt (181 / 25)"
    using real_sqrt_le_iff[of 1 "181 / 25"] by simp
  have hi: "sqrt (181 / 25) < (3::real)"
    using real_sqrt_less_iff[of "181 / 25" 9] by simp
  have "\<lfloor>(sqrt (181 / 25) - 2) / 2 + 1 / 2\<rfloor> = (0::int)"
    by (rule floor_sqrt_half[OF lo hi])
  then show ?thesis unfolding spec_atomic_number_def d by simp
qed

text \<open>
  Claim C3. For every row of the material table whose radiation length is not zero and
  for which the atomic number below fits the 32-bit \<open>int\<close> that \<open>Z\<close> returns, the
  record appended by \<open>analyseElements\<close> has atomic weight \<open>(il/35)^3\<close> and the atomic
  number \<open>floor((sqrt d - 2)/2 + 0.5)\<close> when \<open>d = 4 - 4 (1 - 181 A / X0)\<close> is positive,
  and \<open>-1\<close> otherwise; one record per row, appended in the order of the rows.
\<close>

theorem analyseElements_spec:
  assumes "\<forall>r \<in> set mattab. rlength r \<noteq> 0 \<and>
      in_int_range (of_int (spec_atomic_number (rlength r) (spec_atomic_weight (ilength r))))"
  shows "analyseElements mattab elems = elems @ map spec_element mattab"
  using assms
  by (simp add: analyseElements_def analyseElements_from_drop map_element_of_row_spec)

text \<open>Witness of C3: the row of the worked example.\<close>

theorem analyseElements_spec_witness:
  "rlength \<lparr>tag = ''Si'', density = 2, rlength = 100, ilength = 35\<rparr> \<noteq> 0 \<and>
   in_int_range (of_int (spec_atomic_number
      (rlength \<lparr>tag = ''Si'', density = 2, rlength = 100, ilength = 35\<rparr>)
      (spec_atomic_weight (ilength \<lparr>tag = ''Si'', density = 2, rlength = 100, ilength = 35\<rparr>)))) \<and>
   analyseElements [\<lparr>tag = ''Si'', density = 2, rlength = 100, ilength = 35\<rparr>] [] =
   [\<lparr>elem_tag = ''Si'', elem_density = 2, atomic_weight = 1, atomic_number = 0\<rparr>]"
  using analyseElements_spec[of "[\<lparr>tag = ''Si'', density = 2, rlength = 100, ilength = 35\<rparr>]" "[]"]
    spec_atomic_number_example in_int_range_of_int[of 0]
  by (simp add: spec_element_def spec_atomic_weight_def)

section \<open>Properties of \<open>buildSubVolumes\<close>\<close>

subsection \<open>Results and extrema\<close>

lemma and_then_Inr_iff: "and_then r f = Inr y \<longleftrightarrow> (\<exists>x. r = Inr x \<and> f x = Inr y)"
  by (cases r) (simp_all add: and_then_def)

lemma foldl_min_Min: "foldl min (y::real) ys = Min (set (y # ys))"
proof (induction ys arbitrary: y)
  case Nil
  show ?case by simp
next
  case (Cons a ys)
  have "foldl min y (a # ys) = foldl min (min y a) ys" by simp
  also have "\<dots> = Min (set (min y a # ys))" by (rule Cons.IH)
  also have "\<dots> = Min (set (y # a # ys))"
  proof (cases "ys = []")
    case True
    then show ?thesis by simp
  next
    case False
    then show ?thesis by (simp add: min.assoc)
  qed
  finally show ?case .
qed

lemma foldl_max_Max: "foldl max (y::real) ys = Max (set (y # ys))"
proof (induction ys arbitrary: y)
  case Nil
  show ?case by simp
next
  case (Cons a ys)
  have "foldl max y (a # ys) = foldl max (max y a) ys" by simp
  also have "\<dots> = Max (set (max y a # ys))" by (rule Cons.IH)
  also have "\<dots> = Max (set (y # a # ys))"
  proof (cases "ys = []")
    case True
    then show ?thesis by simp
  next
    case False
    then show ?thesis by (simp add: max.assoc)
  qed
  finally show ?case .
qed

lemma min_element_Inr_iff: "min_element xs = Inr m \<longleftrightarrow> xs \<noteq> [] \<and> m = Min (set xs)"
  by (cases xs) (auto simp: min_element_def foldl_min_Min simp del: foldl.simps set_simps)

lemma max_element_Inr_iff: "max_element xs = Inr m \<longleftrightarrow> xs \<noteq> [] \<and> m = Max (set xs)"
  by (cases xs) (auto simp: max_element_def foldl_max_Max simp del: foldl.simps set_simps)

subsection \<open>The material assignment keeps extents and envelope\<close>

lemma on_vol_preserves:
  assumes "\<And>v. g (f v) = g v"
  shows "map (map_option g) (on_vol i f vol) = map (map_option g) vol"
proof (cases "nat i < length vol")
  case True
  have "map (map_option g) (on_vol i f vol) = (map (map_option g) vol)[nat i := map_option g (map_option f (vol ! nat i))]"
    by (simp add: on_vol_def map_update)
  also have "map_option g (map_option f (vol ! nat i)) = map_option g (vol ! nat i)"
    by (cases "vol ! nat i") (simp_all add: assms)
  also have "(map (map_option g) vol)[nat i := map_option g (vol ! nat i)] = map (map_option g) vol"
    using True by (simp add: list_update_same_conv)
  finally show ?thesis .
next
  case False
  then show ?thesis by (simp add: on_vol_def list_update_beyond)
qed

lemma extent_addMaterial: "extent (addMaterial n q v) = extent v"
  by (simp add: extent_def addMaterial_def)

lemma extent_addMass: "extent (addMass q v) = extent v"
  by (simp add: extent_def addMass_def)

lemmas on_vol_extent =
  on_vol_preserves[of extent, OF extent_addMaterial] on_vol_preserves[of extent, OF extent_addMass]

lemma assign_element_preserves:
  assumes "assign_element el (mc, vol) = Inr (mc', vol')"
  shows "map (map_option extent) vol' = map (map_option extent) vol \<and> envelope mc' = envelope mc
     \<and> volumes mc' = volumes mc"
  using assms
  by (auto simp: assign_element_def Let_def on_vol_extent envelope_def split: if_splits)

lemma assign_elements_preserves:
  "assign_elements els (mc, vol) = Inr (mc', vol') \<Longrightarrow>
   map (map_option extent) vol' = map (map_option extent) vol \<and> envelope mc' = envelope mc
     \<and> volumes mc' = volumes mc"
proof (induction els arbitrary: mc vol)
  case Nil
  then show ?case by simp
next
  case (Cons el els)
  from Cons.prems obtain st where st: "assign_element el (mc, vol) = Inr st"
    and rest: "assign_elements els st = Inr (mc', vol')"
    by (auto simp: and_then_Inr_iff)
  obtain mc1 vol1 where st1: "st = (mc1, vol1)" by (cases st)
  from assign_element_preserves[OF st[unfolded st1]] Cons.IH[OF rest[unfolded st1]]
  show ?case by simp
qed

subsection \<open>What a returned object holds\<close>

lemma set_interleave: "length xs = length ys \<Longrightarrow> set (interleave xs ys) = set xs \<union> set ys"
  by (induction xs ys rule: list_induct2) auto

lemma interleave_Nil_iff: "length xs = length ys \<Longrightarrow> interleave xs ys = [] \<longleftrightarrow> xs = []"
  by (induction xs ys rule: list_induct2) auto

lemma length_expanded_vertices: "length (expanded_vertices mc) = 4"
  by (simp add: expanded_vertices_def Let_def)

lemma length_v_top: "length (v_top mc) = 4"
  by (simp add: v_top_def length_expanded_vertices)

lemma length_v_bottom: "length (v_bottom mc) = 4"
  by (simp add: v_bottom_def length_expanded_vertices)

lemma geometry_vertex_update:
  "v_top (mc\<lparr>vertex := vs\<rparr>) = v_top mc" "v_bottom (mc\<lparr>vertex := vs\<rparr>) = v_bottom mc"
  by (simp_all add: v_top_def v_bottom_def expanded_vertices_def)

lemma radius_lists_vertex_update: "radius_lists (mc\<lparr>vertex := vs\<rparr>) = radius_lists mc"
  by (rule ext)+ (simp add: radius_lists_def geometry_vertex_update v_mid_top_def v_mid_bottom_def)

lemma buildSubVolumes_InrD:
  assumes "buildSubVolumes mc = Inr r"
  shows "xmin r = Min (vecX ` set (corners8 mc))" "xmax r = Max (vecX ` set (corners8 mc))"
    "ymin r = Min (vecY ` set (corners8 mc))" "ymax r = Max (vecY ` set (corners8 mc))"
    "zmin r = Min (vecZ ` set (corners8 mc))" "zmax r = Max (vecZ ` set (corners8 mc))"
    "\<exists>ratzminv ratzmaxv rv. radius_lists mc (zmin r) (zmax r) = (ratzminv, ratzmaxv, rv) \<and>
       rv \<noteq> [] \<and> ratzminv \<noteq> [] \<and> ratzmaxv \<noteq> [] \<and>
       rmin r = Min (set rv) \<and> rmax r = Max (set rv) \<and>
       rminatzmin r = Min (set ratzminv) \<and> rmaxatzmax r = Max (set ratzmaxv)"
    "\<exists>vol'. map (map_option extent) vol' = map (map_option extent) (make_volumes mc) \<and>
       volumes r = volumes mc @ pushed_volumes vol'"
    "\<exists>st st'. assign_elements (getLocalElements (the_module mc)) st = Inr st'"
proof -
  let ?xv = "interleave (map vecX (v_top mc)) (map vecX (v_bottom mc))"
  let ?yv = "interleave (map vecY (v_top mc)) (map vecY (v_bottom mc))"
  let ?zv = "interleave (map vecZ (v_top mc)) (map vecZ (v_bottom mc))"
  have sets: "set ?xv = vecX ` set (corners8 mc)" "set ?yv = vecY ` set (corners8 mc)"
    "set ?zv = vecZ ` set (corners8 mc)"
    by (simp_all add: set_interleave length_v_top length_v_bottom corners8_def image_Un)
  let ?zmin = "Min (set ?zv)" and ?zmax = "Max (set ?zv)"
  obtain ratzminv ratzmaxv rv where rl: "radius_lists mc ?zmin ?zmax = (ratzminv, ratzmaxv, rv)"
    by (cases "radius_lists mc ?zmin ?zmax") auto
  let ?mc0 = "mc\<lparr>vertex := vertex mc @ interleave (v_top mc) (v_bottom mc),
        xmin := Min (set ?xv), xmax := Max (set ?xv), ymin := Min (set ?yv), ymax := Max (set ?yv),
        zmin := ?zmin, zmax := ?zmax, rmin := Min (set rv), rmax := Max (set rv),
        rminatzmin := Min (set ratzminv), rmaxatzmax := Max (set ratzmaxv)\<rparr>"
  from assms rl obtain mc' vol' where
    ne: "rv \<noteq> []" "ratzminv \<noteq> []" "ratzmaxv \<noteq> []"
    and asg: "assign_elements (getLocalElements (the_module mc)) (?mc0, make_volumes mc) = Inr (mc', vol')"
    and r: "r = mc'\<lparr>volumes := volumes mc' @ pushed_volumes vol'\<rparr>"
    by (auto simp: buildSubVolumes_def Let_def and_then_Inr_iff min_element_Inr_iff
        max_element_Inr_iff radius_lists_vertex_update)
  from assign_elements_preserves[OF asg]
  have pres: "map (map_option extent) vol' = map (map_option extent) (make_volumes mc)"
    "envelope mc' = envelope ?mc0" "volumes mc' = volumes mc"
    by simp_all
  from pres(2) have env: "xmin mc' = Min (set ?xv)" "xmax mc' = Max (set ?xv)"
    "ymin mc' = Min (set ?yv)" "ymax mc' = Max (set ?yv)" "zmin mc' = ?zmin" "zmax mc' = ?zmax"
    "rmin mc' = Min (set rv)" "rmax mc' = Max (set rv)"
    "rminatzmin mc' = Min (set ratzminv)" "rmaxatzmax mc' = Max (set ratzmaxv)"
    by (simp_all add: envelope_def)
  show "xmin r = Min (vecX ` set (corners8 mc))" "xmax r = Max (vecX ` set (corners8 mc))"
    "ymin r = Min (vecY ` set (corners8 mc))" "ymax r = Max (vecY ` set (corners8 mc))"
    "zmin r = Min (vecZ ` set (corners8 mc))" "zmax r = Max (vecZ ` set (corners8 mc))"
    using env sets by (simp_all add: r)
  show "\<exists>ratzminv ratzmaxv rv. radius_lists mc (zmin r) (zmax r) = (ratzminv, ratzmaxv, rv) \<and>
       rv \<noteq> [] \<and> ratzminv \<noteq> [] \<and> ratzmaxv \<noteq> [] \<and>
       rmin r = Min (set rv) \<and> rmax r = Max (set rv) \<and>
       rminatzmin r = Min (set ratzminv) \<and> rmaxatzmax r = Max (set ratzmaxv)"
    using env rl ne by (simp add: r)
  show "\<exists>vol'. map (map_option extent) vol' = map (map_option extent) (make_volumes mc) \<and>
       volumes r = volumes mc @ pushed_volumes vol'"
    using pres by (auto simp: r)
  show "\<exists>st st'. assign_elements (getLocalElements (the_module mc)) st = Inr st'"
    using asg by blast
qed

subsection \<open>The radius lists\<close>

lemma R_SetZ: "R (SetZ p 0) = Rho p"
  by (simp add: R_def SetZ_def Rho_def)

lemma SetZ_SetZ: "SetZ (SetZ p 0) 0 = SetZ p 0"
  by (simp add: SetZ_def)

lemma vecZ_SetZ: "vecZ (SetZ p z) = z"
  by (simp add: SetZ_def)

lemma Rho_SetZ: "Rho (SetZ p z) = Rho p"
  by (simp add: SetZ_def Rho_def)

lemma radius_step_eq:
  "radius_step z_min z_max (vb, vt, vmb, vmt) (ratzminv, ratzmaxv, rv) =
     (ratzminv @ map Rho (filter (near z_min) [vb, vt, vmb, vmt]),
      ratzmaxv @ map Rho (filter (tested_at_zmax z_min z_max) [vb, vt]),
      rv @ map Rho [vb, vt, vmb, vmt])"
  by (simp add: radius_step_def Let_def R_SetZ Rho_SetZ SetZ_SetZ vecZ_SetZ near_def tested_at_zmax_def)

lemmas target_ids = HybridFBLR_0_def InnerSensor_def OuterSensor_def HybridFront_def HybridBack_def
  HybridLeft_def HybridRight_def HybridBetween_def SupportPlate_def nTypes_def HybridFB_def
  HybridLR_def HybridFBLR_3456_def

lemma upt4: "[0..<4] = [0, 1, 2, 3]"
  by (simp add: upt_rec)

lemma list4: "length xs = 4 \<Longrightarrow> xs = [xs ! 0, xs ! 1, xs ! 2, xs ! 3]"
  by (rule nth_equalityI) (auto simp: nth_Cons' less_Suc_eq numeral_eq_Suc)

lemma length_mid_points: "length (mid_points vs) = 4"
  by (simp add: mid_points_def)

lemma radius_lists_eq:
  "radius_lists mc z_min z_max =
     (map Rho (filter (near z_min) (loop_points mc)),
      map Rho (filter (tested_at_zmax z_min z_max) (loop_corners mc)),
      map Rho (loop_points mc))"
  by (simp add: radius_lists_def upt4 radius_step_eq loop_points_def loop_corners_def)

lemma set_loop_corners: "set (loop_corners mc) = set (corners8 mc)"
proof -
  have t: "v_top mc = [v_top mc ! 0, v_top mc ! 1, v_top mc ! 2, v_top mc ! 3]"
    by (rule list4[OF length_v_top])
  have b: "v_bottom mc = [v_bottom mc ! 0, v_bottom mc ! 1, v_bottom mc ! 2, v_bottom mc ! 3]"
    by (rule list4[OF length_v_bottom])
  have "set (corners8 mc) = set [v_top mc ! 0, v_top mc ! 1, v_top mc ! 2, v_top mc ! 3]
      \<union> set [v_bottom mc ! 0, v_bottom mc ! 1, v_bottom mc ! 2, v_bottom mc ! 3]"
    unfolding corners8_def set_append using t b by simp
  then show ?thesis
    by (auto simp: loop_corners_def upt4)
qed

lemma set_loop_points: "set (loop_points mc) = set (points16 mc)"
proof -
  have t: "v_top mc = [v_top mc ! 0, v_top mc ! 1, v_top mc ! 2, v_top mc ! 3]"
    by (rule list4[OF length_v_top])
  have b: "v_bottom mc = [v_bottom mc ! 0, v_bottom mc ! 1, v_bottom mc ! 2, v_bottom mc ! 3]"
    by (rule list4[OF length_v_bottom])
  have mt: "v_mid_top mc = [v_mid_top mc ! 0, v_mid_top mc ! 1, v_mid_top mc ! 2, v_mid_top mc ! 3]"
    by (rule list4) (simp add: v_mid_top_def length_mid_points)
  have mb: "v_mid_bottom mc = [v_mid_bottom mc ! 0, v_mid_bottom mc ! 1, v_mid_bottom mc ! 2, v_mid_bottom mc ! 3]"
    by (rule list4) (simp add: v_mid_bottom_def length_mid_points)
  have "set (points16 mc) = set [v_top mc ! 0, v_top mc ! 1, v_top mc ! 2, v_top mc ! 3]
      \<union> set [v_bottom mc ! 0, v_bottom mc ! 1, v_bottom mc ! 2, v_bottom mc ! 3]
      \<union> set [v_mid_top mc ! 0, v_mid_top mc ! 1, v_mid_top mc ! 2, v_mid_top mc ! 3]
      \<union> set [v_mid_bottom mc ! 0, v_mid_bottom mc ! 1, v_mid_bottom mc ! 2, v_mid_bottom mc ! 3]"
    unfolding points16_def set_append using t b mt mb by (simp add: Un_assoc)
  then show ?thesis
    by (auto simp: loop_points_def upt4)
qed

lemma Rho_projected: "Rho = projected_radius"
  by (rule ext) (simp add: Rho_def projected_radius_def)

lemma tested_at_zmax_near:
  assumes "2 / 1000 \<le> z_max - z_min" "1 / 1000 \<le> \<bar>z_max\<bar>"
  shows "tested_at_zmax z_min z_max p \<longleftrightarrow> near z_max p"
proof (cases "near z_min p")
  case True
  with assms have "\<not> near z_max p"
    unfolding near_def by linarith
  moreover have "\<not> \<bar>0 - z_max\<bar> < 1 / 1000"
    using assms by linarith
  ultimately show ?thesis
    using True by (simp add: tested_at_zmax_def)
next
  case False
  then show ?thesis
    by (simp add: tested_at_zmax_def)
qed

lemma and_then_Inr: "and_then (Inr x) f = f x"
  by (simp add: and_then_def)

lemma and_then_Inl: "and_then (Inl e) f = Inl e"
  by (simp add: and_then_def)

lemma min_element_nonempty: "xs \<noteq> [] \<Longrightarrow> min_element xs = Inr (Min (set xs))"
  by (simp add: min_element_Inr_iff)

lemma max_element_nonempty: "xs \<noteq> [] \<Longrightarrow> max_element xs = Inr (Max (set xs))"
  by (simp add: max_element_Inr_iff)

subsection \<open>Which elements stop the process\<close>

lemma assign_element_sensor:
  "is_sensor_component (componentName el) \<Longrightarrow> assign_element el st = Inr st"
  by (cases st) (simp add: assign_element_def Let_def)

lemma assign_element_rejected: "rejected el \<Longrightarrow> assign_element el st = Inl (exit_of el)"
  by (cases st) (auto simp: assign_element_def Let_def rejected_def exit_of_def target_ids)

lemma assign_element_succeeds: "\<not> rejected el \<Longrightarrow> \<exists>st'. assign_element el st = Inr st'"
  by (cases st) (auto simp: assign_element_def Let_def rejected_def target_ids)

lemma assign_elements_succeeds:
  "\<forall>el \<in> set els. \<not> rejected el \<Longrightarrow> \<exists>st'. assign_elements els st = Inr st'"
proof (induction els arbitrary: st)
  case Nil
  show ?case by simp
next
  case (Cons el els)
  then obtain st1 where "assign_element el st = Inr st1"
    using assign_element_succeeds[of el st] by auto
  with Cons show ?case by (simp add: and_then_Inr)
qed

lemma assign_elements_first_rejected:
  "\<forall>y \<in> set pre. \<not> rejected y \<Longrightarrow> rejected el \<Longrightarrow>
   assign_elements (pre @ el # post) st = Inl (exit_of el)"
proof (induction pre arbitrary: st)
  case Nil
  then show ?case by (simp add: assign_element_rejected and_then_Inl)
next
  case (Cons y pre)
  then obtain st1 where "assign_element y st = Inr st1"
    using assign_element_succeeds[of y st] by auto
  with Cons show ?case by (simp add: and_then_Inr)
qed

lemma assign_elements_some_rejected:
  assumes "\<exists>el \<in> set els. rejected el"
  shows "\<exists>e. assign_elements els st = Inl e"
proof -
  from assms obtain pre el post where "els = pre @ el # post" "rejected el" "\<forall>y \<in> set pre. \<not> rejected y"
    using split_list_first_prop[of els rejected] by blast
  then show ?thesis
    using assign_elements_first_rejected[of pre el post st] by auto
qed

lemma assign_elements_skip_sensors:
  "assign_elements (filter (\<lambda>el. \<not> is_sensor_component (componentName el)) els) st =
   assign_elements els st"
proof (induction els arbitrary: st)
  case Nil
  show ?case by simp
next
  case (Cons el els)
  show ?case
  proof (cases "is_sensor_component (componentName el)")
    case True
    then show ?thesis by (simp add: assign_element_sensor and_then_Inr Cons.IH)
  next
    case False
    have "and_then (assign_element el st)
            (assign_elements (filter (\<lambda>el. \<not> is_sensor_component (componentName el)) els)) =
          and_then (assign_element el st) (assign_elements els)"
      by (cases "assign_element el st") (simp_all add: and_then_def Cons.IH)
    with False show ?thesis by simp
  qed
qed

subsection \<open>When \<open>buildSubVolumes\<close> returns\<close>

lemma loop_vertex_update:
  "loop_points (mc\<lparr>vertex := vs\<rparr>) = loop_points mc"
  "loop_corners (mc\<lparr>vertex := vs\<rparr>) = loop_corners mc"
  by (simp_all add: loop_points_def loop_corners_def geometry_vertex_update v_mid_top_def
      v_mid_bottom_def)

lemma build_tail:
  assumes "\<forall>el \<in> set els. \<not> rejected el"
  shows "\<exists>r. and_then (assign_elements els st) (\<lambda>(mc, vol). Inr (g mc vol)) = Inr r"
proof -
  from assign_elements_succeeds[OF assms] obtain st' where "assign_elements els st = Inr st'"
    by blast
  then show ?thesis
    by (cases st') (simp add: and_then_Inr)
qed

lemma corners8_nonempty: "set (corners8 mc) \<noteq> {}"
  using length_v_top[of mc] by (auto simp: corners8_def)

lemma buildSubVolumes_succeeds:
  assumes ok: "\<forall>el \<in> set (getLocalElements (the_module mc)). \<not> rejected el"
    and ext: "2 / 1000 \<le> Max (vecZ ` set (corners8 mc)) - Min (vecZ ` set (corners8 mc))"
    and off: "1 / 1000 \<le> \<bar>Max (vecZ ` set (corners8 mc))\<bar>"
  shows "\<exists>r. buildSubVolumes mc = Inr r"
proof -
  let ?xv = "interleave (map vecX (v_top mc)) (map vecX (v_bottom mc))"
  let ?yv = "interleave (map vecY (v_top mc)) (map vecY (v_bottom mc))"
  let ?zv = "interleave (map vecZ (v_top mc)) (map vecZ (v_bottom mc))"
  let ?zmin = "Min (vecZ ` set (corners8 mc))" and ?zmax = "Max (vecZ ` set (corners8 mc))"
  have sets: "set ?zv = vecZ ` set (corners8 mc)"
    by (simp add: set_interleave length_v_top length_v_bottom corners8_def image_Un)
  have vt: "v_top mc \<noteq> []"
  proof
    assume "v_top mc = []"
    then have "length (v_top mc) = 0" by simp
    then show False by (simp add: length_v_top)
  qed
  have ne: "?xv \<noteq> []" "?yv \<noteq> []" "?zv \<noteq> []"
    using vt by (simp_all add: interleave_Nil_iff length_v_top length_v_bottom)
  have fin: "finite (vecZ ` set (corners8 mc))" "vecZ ` set (corners8 mc) \<noteq> {}"
    using corners8_nonempty by simp_all
  from Min_in[OF fin] obtain p where p: "p \<in> set (corners8 mc)" "vecZ p = ?zmin" by auto
  from Max_in[OF fin] obtain q where q: "q \<in> set (corners8 mc)" "vecZ q = ?zmax" by auto
  have "near ?zmin p" using p by (simp add: near_def)
  moreover have "p \<in> set (loop_points mc)"
    using p(1) by (auto simp: set_loop_points points16_def corners8_def)
  ultimately have a: "filter (near ?zmin) (loop_points mc) \<noteq> []"
    by (auto simp: filter_empty_conv)
  have "tested_at_zmax ?zmin ?zmax q"
    using q by (simp add: tested_at_zmax_near[OF ext off] near_def)
  moreover have "q \<in> set (loop_corners mc)"
    using q by (simp add: set_loop_corners)
  ultimately have b: "filter (tested_at_zmax ?zmin ?zmax) (loop_corners mc) \<noteq> []"
    by (auto simp: filter_empty_conv)
  have c: "loop_points mc \<noteq> []"
    by (simp add: loop_points_def upt4)
  show ?thesis
    using ne a b c
    by (simp add: buildSubVolumes_def Let_def min_element_nonempty max_element_nonempty
        and_then_Inr sets radius_lists_eq radius_lists_vertex_update loop_vertex_update build_tail[OF ok])
qed

lemma buildSubVolumes_rejected:
  assumes "\<exists>el \<in> set (getLocalElements (the_module mc)). rejected el"
  shows "\<exists>e. buildSubVolumes mc = Inl e"
proof (cases "buildSubVolumes mc")
  case (Inl e)
  then show ?thesis by blast
next
  case (Inr r)
  from buildSubVolumes_InrD(9)[OF Inr] obtain st st' where
    "assign_elements (getLocalElements (the_module mc)) st = Inr st'" by blast
  with assign_elements_some_rejected[OF assms, of st] show ?thesis by simp
qed







subsection \<open>The example modules\<close>

lemma ex_v_top: "v_top (ex_mc els) =
   [\<lparr>vecX = 85, vecY = - 2, vecZ = 51\<rparr>, \<lparr>vecX = 85, vecY = 2, vecZ = 51\<rparr>,
    \<lparr>vecX = 115, vecY = 2, vecZ = 51\<rparr>, \<lparr>vecX = 115, vecY = - 2, vecZ = 51\<rparr>]"
  by (simp add: v_top_def expanded_vertices_def ex_mc_def new_ModuleComplex_def ex_cap_def
      ex_module_def Let_def getVertex_def vadd_def vsub_def smul_def)

lemma ex_v_bottom: "v_bottom (ex_mc els) =
   [\<lparr>vecX = 85, vecY = - 2, vecZ = 49\<rparr>, \<lparr>vecX = 85, vecY = 2, vecZ = 49\<rparr>,
    \<lparr>vecX = 115, vecY = 2, vecZ = 49\<rparr>, \<lparr>vecX = 115, vecY = - 2, vecZ = 49\<rparr>]"
  by (simp add: v_bottom_def expanded_vertices_def ex_mc_def new_ModuleComplex_def ex_cap_def
      ex_module_def Let_def getVertex_def vadd_def vsub_def smul_def)

lemma ex_z: "Min (vecZ ` set (corners8 (ex_mc els))) = 49" "Max (vecZ ` set (corners8 (ex_mc els))) = 51"
  by (simp_all add: corners8_def ex_v_top ex_v_bottom)

lemma ex_elements: "getLocalElements (the_module (ex_mc els)) = els"
  by (simp add: ex_mc_def new_ModuleComplex_def ex_cap_def ex_module_def Let_def)

lemma ex_builds:
  assumes "\<forall>el \<in> set els. \<not> rejected el"
  shows "\<exists>r. buildSubVolumes (ex_mc els) = Inr r"
  by (rule buildSubVolumes_succeeds) (simp_all add: ex_z ex_elements assms)

lemma tilted_v_top: "v_top tilted_mc =
   [\<lparr>vecX = 90, vecY = - 1, vecZ = 51 + 3 / 4000\<rparr>, \<lparr>vecX = 90, vecY = 1, vecZ = 51 + 3 / 4000\<rparr>,
    \<lparr>vecX = 110, vecY = 1, vecZ = 51 - 3 / 4000\<rparr>, \<lparr>vecX = 110, vecY = - 1, vecZ = 51 - 3 / 4000\<rparr>]"
  by (simp add: v_top_def expanded_vertices_def tilted_mc_def tilted_module_def
      new_ModuleComplex_def ex_cap_def
      ex_module_def Let_def getVertex_def vadd_def vsub_def smul_def)

lemma tilted_v_bottom: "v_bottom tilted_mc =
   [\<lparr>vecX = 90, vecY = - 1, vecZ = 49 + 3 / 4000\<rparr>, \<lparr>vecX = 90, vecY = 1, vecZ = 49 + 3 / 4000\<rparr>,
    \<lparr>vecX = 110, vecY = 1, vecZ = 49 - 3 / 4000\<rparr>, \<lparr>vecX = 110, vecY = - 1, vecZ = 49 - 3 / 4000\<rparr>]"
  by (simp add: v_bottom_def expanded_vertices_def tilted_mc_def tilted_module_def
      new_ModuleComplex_def ex_cap_def
      ex_module_def Let_def getVertex_def vadd_def vsub_def smul_def)

lemma tilted_z: "Min (vecZ ` set (corners8 tilted_mc)) = 49 - 3 / 4000"
  "Max (vecZ ` set (corners8 tilted_mc)) = 51 + 3 / 4000"
  by (simp_all add: corners8_def tilted_v_top tilted_v_bottom)

lemma tilted_builds: "\<exists>r. buildSubVolumes tilted_mc = Inr r"
  by (rule buildSubVolumes_succeeds)
    (simp_all add: tilted_z, simp add: tilted_mc_def tilted_module_def new_ModuleComplex_def ex_module_def Let_def)

lemma example_elements:
  "\<not> rejected hybrid_element" "rejected misplaced_element" "\<not> rejected sensor_element"
  "is_sensor_component (componentName sensor_element)"
  "exit_of misplaced_element = SensorTargetVolume 1"
  by (simp_all add: rejected_def hybrid_element_def misplaced_element_def sensor_element_def
      is_sensor_component_def exit_of_def)

lemma set_filter_conv: "{p \<in> set xs. P p} = set (filter P xs)"
  by auto

lemma tilted_v_mid_top: "v_mid_top tilted_mc =
   [\<lparr>vecX = 90, vecY = 0, vecZ = 51 + 3 / 4000\<rparr>, \<lparr>vecX = 100, vecY = 1, vecZ = 51\<rparr>,
    \<lparr>vecX = 110, vecY = 0, vecZ = 51 - 3 / 4000\<rparr>, \<lparr>vecX = 100, vecY = - 1, vecZ = 51\<rparr>]"
  by (simp add: v_mid_top_def mid_points_def tilted_v_top upt4 vadd_def vdiv_def)

subsection \<open>The claims about \<open>buildSubVolumes\<close>\<close>

text \<open>
  Claim C2, as amended. The loop over the material elements stops the process at the
  first element that is not a sensor component and whose target is a sensor volume
  (1 or 2) or an identifier from 9 on other than 34, 56 and 3456, with the exit that
  names this target; a module with such an element makes \<open>buildSubVolumes\<close> not return;
  and the elements whose component name is one of the six sensor names are skipped,
  whatever their target is.
\<close>

theorem buildSubVolumes_fatal_targets:
  "((\<forall>y \<in> set pre. \<not> rejected y) \<and> rejected el \<longrightarrow>
      assign_elements (pre @ el # post) st = Inl (exit_of el)) \<and>
   ((\<exists>el \<in> set (getLocalElements (the_module mc)). rejected el) \<longrightarrow>
      (\<exists>e. buildSubVolumes mc = Inl e)) \<and>
   assign_elements (filter (\<lambda>el. \<not> is_sensor_component (componentName el)) els) st =
     assign_elements els st"
  using assign_elements_first_rejected[of pre el post st] buildSubVolumes_rejected[of mc]
    assign_elements_skip_sensors[of els st]
  by blast

text \<open>Witness of C2: copper on the front hybrid, then copper sent to the inner sensor
  volume.\<close>

theorem buildSubVolumes_fatal_targets_witness:
  "\<not> rejected hybrid_element \<and> rejected misplaced_element \<and>
   assign_elements ([hybrid_element] @ misplaced_element # [sensor_element])
     (ex_mc [], make_volumes (ex_mc [])) = Inl (SensorTargetVolume 1) \<and>
   (\<exists>e. buildSubVolumes (ex_mc [hybrid_element, misplaced_element, sensor_element]) = Inl e)"
  using buildSubVolumes_fatal_targets[of "[hybrid_element]" misplaced_element "[sensor_element]"
      "(ex_mc [], make_volumes (ex_mc []))"
      "ex_mc [hybrid_element, misplaced_element, sensor_element]" "[]"]
  by (simp add: example_elements ex_elements)

text \<open>Counterexample to C2 as stated: a module whose element list holds a sensor
  component, with the target identifier 99 that does not exist, is decomposed
  without any error.\<close>

theorem buildSubVolumes_sensor_counterexample:
  "is_sensor_component (componentName sensor_element) \<and> targetVolume sensor_element = 99 \<and>
   (\<exists>r. buildSubVolumes (ex_mc [hybrid_element, sensor_element]) = Inr r)"
  using ex_builds[of "[hybrid_element, sensor_element]"]
  by (simp add: example_elements) (simp add: sensor_element_def)

text \<open>
  Claim C4, as amended. For every envelope that \<open>buildSubVolumes\<close> computes, \<open>zmin\<close>
  and \<open>zmax\<close> are the extrema of \<open>z\<close> over the eight corners; \<open>rmin\<close> and \<open>rmax\<close> are
  the least and the greatest projected radius over the sixteen points; \<open>rminatzmin\<close>
  is the least projected radius among those of the sixteen points whose \<open>z\<close> lies
  within \<open>0.001\<close> of \<open>zmin\<close>; and, when the module extends over at least \<open>0.002\<close> in
  \<open>z\<close> and \<open>zmax\<close> is at least \<open>0.001\<close> away from \<open>0\<close>, \<open>rmaxatzmax\<close> is the greatest
  projected radius among those of the eight corners (the mid-points are not tested)
  whose \<open>z\<close> lies within \<open>0.001\<close> of \<open>zmax\<close>.
\<close>

theorem buildSubVolumes_radius_extrema:
  assumes "buildSubVolumes mc = Inr r"
  shows "zmin r = Min (vecZ ` set (corners8 mc)) \<and> zmax r = Max (vecZ ` set (corners8 mc)) \<and>
     rmin r = Min (projected_radius ` set (points16 mc)) \<and>
     rmax r = Max (projected_radius ` set (points16 mc)) \<and>
     rminatzmin r = Min (projected_radius ` {p \<in> set (points16 mc). \<bar>vecZ p - zmin r\<bar> < 1 / 1000}) \<and>
     (2 / 1000 \<le> zmax r - zmin r \<and> 1 / 1000 \<le> \<bar>zmax r\<bar> \<longrightarrow>
        rmaxatzmax r = Max (projected_radius ` {p \<in> set (corners8 mc). \<bar>vecZ p - zmax r\<bar> < 1 / 1000}))"
proof -
  from buildSubVolumes_InrD(7)[OF assms] obtain ratzminv ratzmaxv rv where
    rl: "radius_lists mc (zmin r) (zmax r) = (ratzminv, ratzmaxv, rv)"
    and vals: "rmin r = Min (set rv)" "rmax r = Max (set rv)"
      "rminatzmin r = Min (set ratzminv)" "rmaxatzmax r = Max (set ratzmaxv)"
    by blast
  from rl have rv: "set rv = projected_radius ` set (points16 mc)"
    and ratzminv: "set ratzminv = projected_radius ` {p \<in> set (points16 mc). near (zmin r) p}"
    and ratzmaxv: "set ratzmaxv = projected_radius ` {p \<in> set (corners8 mc). tested_at_zmax (zmin r) (zmax r) p}"
    by (auto simp: radius_lists_eq Rho_projected set_loop_points set_loop_corners)
  have "rmaxatzmax r = Max (projected_radius ` {p \<in> set (corners8 mc). \<bar>vecZ p - zmax r\<bar> < 1 / 1000})"
    if "2 / 1000 \<le> zmax r - zmin r" "1 / 1000 \<le> \<bar>zmax r\<bar>"
    using vals(4) ratzmaxv tested_at_zmax_near[OF that] by (simp add: near_def)
  then show ?thesis
    using buildSubVolumes_InrD(5,6)[OF assms] vals rv ratzminv by (simp add: near_def)
qed

text \<open>Witness of C4: the example module, between \<open>z = 49\<close> and \<open>z = 51\<close>.\<close>

theorem buildSubVolumes_radius_extrema_witness:
  "\<exists>r. buildSubVolumes (ex_mc []) = Inr r \<and> zmin r = 49 \<and> zmax r = 51 \<and>
     2 / 1000 \<le> zmax r - zmin r \<and> 1 / 1000 \<le> \<bar>zmax r\<bar> \<and>
     rmaxatzmax r = Max (projected_radius ` {p \<in> set (corners8 (ex_mc [])). \<bar>vecZ p - zmax r\<bar> < 1 / 1000}) \<and>
     rmaxatzmax r = sqrt 13229"
proof -
  from ex_builds[of "[]"] obtain r where r: "buildSubVolumes (ex_mc []) = Inr r" by auto
  note th = buildSubVolumes_radius_extrema[OF r]
  have z: "zmin r = 49" "zmax r = 51"
    using th by (simp_all add: ex_z)
  have h: "2 / 1000 \<le> zmax r - zmin r \<and> 1 / 1000 \<le> \<bar>zmax r\<bar>"
    by (simp add: z)
  with th have m: "rmaxatzmax r = Max (projected_radius ` {p \<in> set (corners8 (ex_mc [])). \<bar>vecZ p - zmax r\<bar> < 1 / 1000})"
    by blast
  have f: "filter (\<lambda>p. \<bar>vecZ p - zmax r\<bar> < 1 / 1000) (corners8 (ex_mc [])) = v_top (ex_mc [])"
    by (simp add: corners8_def ex_v_top ex_v_bottom z)
  have v: "Max (projected_radius ` {p \<in> set (corners8 (ex_mc [])). \<bar>vecZ p - zmax r\<bar> < 1 / 1000}) = sqrt 13229"
    unfolding set_filter_conv f by (simp add: ex_v_top projected_radius_def)
  from m v have "rmaxatzmax r = sqrt 13229" by (simp only:)
  with r z h m show ?thesis by blast
qed

text \<open>Counterexample to C4 as stated: on the inclined module the mid-point
  \<open>(100, 1, 51)\<close> of a top edge lies within \<open>0.001\<close> of \<open>zmax = 51.00075\<close> and has the
  projected radius \<open>sqrt 10001\<close>, yet \<open>rmaxatzmax\<close> is \<open>sqrt 8101\<close>, taken from the two
  corners at \<open>zmax\<close>.\<close>

theorem buildSubVolumes_rmaxatzmax_counterexample:
  "\<exists>r. buildSubVolumes tilted_mc = Inr r \<and>
     rmaxatzmax r \<noteq>
       Max (projected_radius ` {p \<in> set (points16 tilted_mc). \<bar>vecZ p - zmax r\<bar> < 1 / 1000})"
proof -
  from tilted_builds obtain r where r: "buildSubVolumes tilted_mc = Inr r" by blast
  have z: "zmin r = 49 - 3 / 4000" "zmax r = 51 + 3 / 4000"
    using buildSubVolumes_InrD(5,6)[OF r] by (simp_all add: tilted_z)
  from buildSubVolumes_InrD(7)[OF r] have
    code: "rmaxatzmax r = Max (set (map Rho (filter (tested_at_zmax (zmin r) (zmax r)) (loop_corners tilted_mc))))"
    by (auto simp: radius_lists_eq)
  have corners: "map Rho (filter (tested_at_zmax (zmin r) (zmax r)) (loop_corners tilted_mc)) = [sqrt 8101, sqrt 8101]"
    by (simp add: z loop_corners_def upt4 tilted_v_top tilted_v_bottom tested_at_zmax_def near_def Rho_def)
  have code_val: "rmaxatzmax r = sqrt 8101"
    unfolding code corners by simp
  let ?S = "projected_radius ` {p \<in> set (points16 tilted_mc). \<bar>vecZ p - zmax r\<bar> < 1 / 1000}"
  have mid: "\<lparr>vecX = 100, vecY = 1, vecZ = 51\<rparr> \<in> set (points16 tilted_mc)"
    by (simp add: points16_def tilted_v_mid_top)
  have "projected_radius \<lparr>vecX = 100, vecY = 1, vecZ = 51\<rparr> \<in> ?S"
    using mid by (intro imageI CollectI conjI) (simp_all add: z)
  then have "sqrt 10001 \<in> ?S"
    by (simp add: projected_radius_def)
  moreover have "finite ?S" by simp
  ultimately have le: "sqrt 10001 \<le> Max ?S" by (rule Max_ge[rotated])
  have "rmaxatzmax r \<noteq> Max ?S"
  proof
    assume "rmaxatzmax r = Max ?S"
    with code_val le have "sqrt 10001 \<le> sqrt 8101" by (simp only:)
    then show False by simp
  qed
  with r show ?thesis by blast
qed





section \<open>Properties of the composite materials\<close>

lemma collect_elements_eq:
  "collect_elements s ns xs acc =
     (fst acc @ filter (\<lambda>it. \<not> ns \<or> fst it \<noteq> s) xs,
      snd acc + sum_list (map snd (filter (\<lambda>it. \<not> ns \<or> fst it \<noteq> s) xs)))"
  by (induction xs arbitrary: acc) (auto simp: algebra_simps)

lemma copy_materials_eq:
  "copy_materials xs acc = (fst acc @ xs, snd acc + sum_list (map snd xs))"
  by (induction xs arbitrary: acc) (auto simp: algebra_simps)

lemma normalise_from_eq:
  "normalise_from m i elems = take i elems @ map (\<lambda>it. (fst it, snd it / m)) (drop i elems)"
proof (induction m i elems rule: normalise_from.induct)
  case (1 m i elems)
  show ?case
  proof (cases "i < length elems")
    case True
    let ?e = "elems[i := (fst (elems ! i), snd (elems ! i) / m)]"
    have "normalise_from m i elems = normalise_from m (Suc i) ?e"
      using True by (subst normalise_from.simps) simp
    also have "\<dots> = take (Suc i) ?e @ map (\<lambda>it. (fst it, snd it / m)) (drop (Suc i) ?e)"
      using True by (rule "1.IH")
    also have "take (Suc i) ?e = take i elems @ [(fst (elems ! i), snd (elems ! i) / m)]"
      using True by (simp add: take_Suc_conv_app_nth)
    also have "drop (Suc i) ?e = drop (Suc i) elems"
      by simp
    finally show ?thesis
      using True by (simp add: Cons_nth_drop_Suc[symmetric])
  next
    case False
    then show ?thesis
      by (subst normalise_from.simps) simp
  qed
qed

lemma sum_scaled: "sum_list (map snd (map (\<lambda>it. (fst it, snd it / m)) xs)) = sum_list (map snd xs) / (m::real)"
  by (induction xs) (simp_all add: add_divide_distrib)

lemma createComposite_elements:
  "comp_elements (createComposite K name dens mp nosensors) =
     map (\<lambda>it. (fst it, snd it / sum_list (map snd (kept_masses K nosensors (getLocalMasses mp)))))
       (kept_masses K nosensors (getLocalMasses mp))"
  by (simp add: createComposite_def collect_elements_eq normalise_from_eq kept_masses_def)

lemma volume_composite_elements:
  "comp_elements (volume_composite mc gd v) =
     map (\<lambda>it. (fst it, snd it / sum_list (map snd (getMaterialList v)))) (getMaterialList v)"
  by (simp add: volume_composite_def copy_materials_eq normalise_from_eq)

lemma addMaterialInfo_loop_eq:
  "addMaterialInfo_loop mc vs gd vec = vec @ map (volume_composite mc gd) (filter (\<lambda>v. gd v > 0) vs)"
  by (induction vs arbitrary: vec) simp_all

text \<open>
  Claim C7, as amended. The mass fractions of the composite that \<open>createComposite\<close>
  returns sum to 1 when the masses it keeps (all of them, or all but the sensor silicon
  when \<open>nosensors\<close> is set) do not sum to zero; \<open>addMaterialInfo\<close> appends one
  composite for every sub-volume of positive density, in order, and the fractions of
  the composite of a sub-volume sum to 1 when the masses of its material list do not
  sum to zero. In real arithmetic the sum is exactly 1.
\<close>

theorem composite_fractions_sum:
  "(sum_list (map snd (kept_masses K nosensors (getLocalMasses mp))) \<noteq> 0 \<longrightarrow>
      fractions_sum (createComposite K name dens mp nosensors) = 1) \<and>
   addMaterialInfo mc getDensity vec =
      vec @ map (volume_composite mc getDensity) (filter (\<lambda>v. getDensity v > 0) (volumes mc)) \<and>
   (sum_list (map snd (getMaterialList v)) \<noteq> 0 \<longrightarrow>
      fractions_sum (volume_composite mc getDensity v) = 1)"
  by (simp add: fractions_sum_def createComposite_elements volume_composite_elements sum_scaled
      addMaterialInfo_def addMaterialInfo_loop_eq del: map_map)

text \<open>Witness of C7: three grams of copper and one of sensor silicon, nothing
  excluded.\<close>

theorem composite_fractions_sum_witness:
  "\<forall>K. sum_list (map snd (kept_masses K False
          (getLocalMasses \<lparr>getCategory = b_ser, getLocalMasses = [(''Cu'', 3), (''SenSi'', 1)],
             getTotalMass = 4, getRadiationLength = 0, getInteractionLength = 0\<rparr>))) \<noteq> 0 \<and>
       fractions_sum (createComposite K ''c'' 1
          \<lparr>getCategory = b_ser, getLocalMasses = [(''Cu'', 3), (''SenSi'', 1)],
             getTotalMass = 4, getRadiationLength = 0, getInteractionLength = 0\<rparr> False) = 1"
proof
  fix K
  let ?mp = "\<lparr>getCategory = b_ser, getLocalMasses = [(''Cu'', 3), (''SenSi'', 1)],
             getTotalMass = 4, getRadiationLength = 0, getInteractionLength = (0::real)\<rparr>"
  have ne: "sum_list (map snd (kept_masses K False (getLocalMasses ?mp))) \<noteq> 0"
    by (simp add: kept_masses_def)
  with composite_fractions_sum[of K False ?mp "''c''" 1]
  show "sum_list (map snd (kept_masses K False (getLocalMasses ?mp))) \<noteq> 0 \<and>
       fractions_sum (createComposite K ''c'' 1 ?mp False) = 1"
    by blast
qed

text \<open>Counterexample to C7 as stated: a mapping that holds sensor silicon only is not
  empty, yet with \<open>nosensors\<close> set the composite has no element at all, and its
  fractions sum to 0.\<close>

theorem createComposite_sensor_only_counterexample:
  "\<forall>K. getLocalMasses \<lparr>getCategory = b_mod, getLocalMasses = [(xml_sensor_silicon K, 5)],
             getTotalMass = 5, getRadiationLength = 0, getInteractionLength = 0\<rparr> \<noteq> [] \<and>
       \<bar>fractions_sum (createComposite K ''c'' 1
          \<lparr>getCategory = b_mod, getLocalMasses = [(xml_sensor_silicon K, 5)],
             getTotalMass = 5, getRadiationLength = 0, getInteractionLength = 0\<rparr> True) - 1\<bar> > 1 / 10 ^ 9"
  by (simp add: fractions_sum_def createComposite_elements kept_masses_def)

section \<open>The barrel services\<close>

lemma barrel_services_run_append:
  "barrel_services_run K ns (xs @ ys) st = barrel_services_run K ns ys (barrel_services_run K ns xs st)"
  by (simp add: barrel_services_run_def)

lemma barrel_services_run_Cons:
  "barrel_services_run K ns (x # xs) st = barrel_services_run K ns xs (barrel_service_step K ns x st)"
  by (simp add: barrel_services_run_def)

lemma barrel_services_run_Nil: "barrel_services_run K ns [] st = st"
  by (simp add: barrel_services_run_def)

lemma barrel_services_run_snoc:
  "barrel_services_run K ns (xs @ [x]) st = barrel_service_step K ns x (barrel_services_run K ns xs st)"
  by (simp add: barrel_services_run_def)

lemma analyseBarrelServices_run:
  "analyseBarrelServices K D surfaces c l s p wtflag =
   barrel_services_run K (nspace_of K wtflag) (getBarrelServices surfaces) (barrel_service_init D c l s p)"
  by (simp add: analyseBarrelServices_def barrel_services_run_def)

lemma step_pass_through_previous:
  "pass_through a \<Longrightarrow> previousInnerRadius (barrel_service_step K ns a st) = trunc_int (getInnerRadius a)"
  by (simp add: barrel_service_step_def pass_through_def Let_def)

lemma step_other_previous:
  "\<not> pass_through y \<Longrightarrow> previousInnerRadius (barrel_service_step K ns y st) = previousInnerRadius st"
  by (simp add: barrel_service_step_def pass_through_def Let_def)

lemma run_others_previous:
  "\<forall>y \<in> set ys. \<not> pass_through y \<Longrightarrow>
   previousInnerRadius (barrel_services_run K ns ys st) = previousInnerRadius st"
proof (induction ys arbitrary: st)
  case Nil
  show ?case by (simp add: barrel_services_run_Nil)
next
  case (Cons y ys)
  then show ?case by (simp add: barrel_services_run_Cons step_other_previous)
qed

lemma run_previous:
  assumes "pass_through a" "\<forall>y \<in> set ys. \<not> pass_through y"
  shows "previousInnerRadius (barrel_services_run K ns (xs @ [a] @ ys) st) = trunc_int (getInnerRadius a)"
proof -
  have "barrel_services_run K ns (xs @ [a] @ ys) st =
      barrel_services_run K ns ys (barrel_service_step K ns a (barrel_services_run K ns xs st))"
    by (simp add: barrel_services_run_append barrel_services_run_Cons)
  with assms show ?thesis
    by (simp add: run_others_previous step_pass_through_previous)
qed

lemma step_repeated:
  "pass_through b \<Longrightarrow> previousInnerRadius st = trunc_int (getInnerRadius b) \<Longrightarrow>
   barrel_service_step K ns b st = st"
  by (simp add: barrel_service_step_def pass_through_def)

lemma step_emits:
  assumes "previousInnerRadius st \<noteq> trunc_int (getInnerRadius b)"
    and "getLocalMasses b \<noteq> []" and "0 < getZOffset b + getZLength b"
  shows "sv_c (barrel_service_step K ns b st) =
      sv_c st @ [createComposite K (barrel_matname K b) (compositeDensity_ie b) b False]"
    and "\<exists>shape. sv_s (barrel_service_step K ns b st) = sv_s st @ [shape] \<and>
      sh_name_tag shape = barrel_shapename K b"
    and "\<exists>logic. sv_l (barrel_service_step K ns b st) = sv_l st @ [logic] \<and>
      lg_name_tag logic = barrel_shapename K b \<and>
      lg_material_tag logic = ns @ '':'' @ barrel_matname K b"
    and "\<exists>pos1 pos2. sv_p (barrel_service_step K ns b st) = sv_p st @ [pos1, pos2] \<and>
      pos_child_tag pos1 = ns @ '':'' @ barrel_shapename K b \<and>
      pos_child_tag pos2 = ns @ '':'' @ barrel_shapename K b \<and> pos_copy pos2 = 2"
  using assms by (simp_all add: barrel_service_step_def Let_def)

text \<open>
  Claim C8, as amended. Take a list of barrel services whose converted values are in the
  range of \<open>int\<close>, and in it two pass-throughs (services whose z-offset has integer
  part 0) \<open>a\<close> and \<open>b\<close> with no pass-through between them, whatever comes before \<open>a\<close>.
  When the integer part of the inner radius of \<open>b\<close> equals that of \<open>a\<close>, \<open>b\<close> produces
  no record and changes nothing: the analysis of the list that ends with \<open>b\<close> equals
  the analysis of the list without it. When the integer parts differ, and \<open>b\<close> holds
  local masses and reaches beyond \<open>z = 0\<close>, \<open>b\<close> produces its records (one composite,
  one shape, one logical volume and two placements, the second with copy number 2),
  also when a pass-through of the same radius was emitted before \<open>a\<close>. The comparison
  is with the previous pass-through only, and on the integer parts of the radii.
\<close>

theorem barrel_services_consecutive_dedup:
  assumes range: "\<forall>x \<in> set (xs @ [a] @ ys @ [b]). casts_in_range x"
    and pt: "pass_through a" "pass_through b"
    and others: "\<forall>y \<in> set ys. \<not> pass_through y"
  shows "(trunc_int (getInnerRadius b) = trunc_int (getInnerRadius a) \<longrightarrow>
      analyseBarrelServices K D (barrel_only (xs @ [a] @ ys @ [b])) c l s p wtflag =
      analyseBarrelServices K D (barrel_only (xs @ [a] @ ys)) c l s p wtflag) \<and>
    (trunc_int (getInnerRadius b) \<noteq> trunc_int (getInnerRadius a) \<and>
     getLocalMasses b \<noteq> [] \<and> 0 < getZOffset b + getZLength b \<longrightarrow>
      (let before = analyseBarrelServices K D (barrel_only (xs @ [a] @ ys)) c l s p wtflag;
           after = analyseBarrelServices K D (barrel_only (xs @ [a] @ ys @ [b])) c l s p wtflag
       in sv_c after = sv_c before @ [createComposite K (barrel_matname K b) (compositeDensity_ie b) b False] \<and>
          (\<exists>shape. sv_s after = sv_s before @ [shape] \<and> sh_name_tag shape = barrel_shapename K b) \<and>
          (\<exists>logic. sv_l after = sv_l before @ [logic] \<and> lg_name_tag logic = barrel_shapename K b \<and>
             lg_material_tag logic = nspace_of K wtflag @ '':'' @ barrel_matname K b) \<and>
          (\<exists>pos1 pos2. sv_p after = sv_p before @ [pos1, pos2] \<and>
             pos_child_tag pos1 = nspace_of K wtflag @ '':'' @ barrel_shapename K b \<and>
             pos_child_tag pos2 = nspace_of K wtflag @ '':'' @ barrel_shapename K b \<and>
             pos_copy pos2 = 2)))"
proof -
  let ?ns = "nspace_of K wtflag"
  let ?st = "barrel_services_run K ?ns (xs @ [a] @ ys) (barrel_service_init D c l s p)"
  have before: "analyseBarrelServices K D (barrel_only (xs @ [a] @ ys)) c l s p wtflag = ?st"
    by (simp add: analyseBarrelServices_run barrel_only_def)
  have "xs @ [a] @ ys @ [b] = (xs @ [a] @ ys) @ [b]" by simp
  then have after: "analyseBarrelServices K D (barrel_only (xs @ [a] @ ys @ [b])) c l s p wtflag =
      barrel_service_step K ?ns b ?st"
    by (simp only: analyseBarrelServices_run barrel_only_def barrel_services_run_snoc
        InactiveSurfaces.simps)
  have prev: "previousInnerRadius ?st = trunc_int (getInnerRadius a)"
    using pt(1) others by (rule run_previous)
  have same: "barrel_service_step K ?ns b ?st = ?st"
    if "trunc_int (getInnerRadius b) = trunc_int (getInnerRadius a)"
    using pt(2) prev that by (intro step_repeated) simp_all
  have differ: "previousInnerRadius ?st \<noteq> trunc_int (getInnerRadius b)"
    if "trunc_int (getInnerRadius b) \<noteq> trunc_int (getInnerRadius a)"
    using prev that by simp
  show ?thesis
    unfolding before after Let_def
    using same step_emits[of ?st b K ?ns, OF differ] by blast
qed

lemma copper_pass_through: "pass_through (copper_service r)"
  by (simp add: pass_through_def copper_service_def trunc_int_def in_int_range_def truncation_def
      INT_MIN_def INT_MAX_def)

lemma trunc_int_numerals:
  "trunc_int 10 = 10" "trunc_int 20 = 20" "trunc_int (21 / 2) = 10" "trunc_int 50 = 50"
  by (simp_all add: trunc_int_def in_int_range_def truncation_def INT_MIN_def INT_MAX_def)

lemma copper_in_range:
  "casts_in_range (copper_service 10)" "casts_in_range (copper_service 20)"
  "casts_in_range (copper_service (21 / 2))"
  by (simp_all add: casts_in_range_def copper_service_def in_int_range_def truncation_def
      INT_MIN_def INT_MAX_def)

lemma copper_fields:
  "getInnerRadius (copper_service r) = r" "getLocalMasses (copper_service r) \<noteq> []"
  "0 < getZOffset (copper_service r) + getZLength (copper_service r)"
  by (simp_all add: copper_service_def)

text \<open>Witness of C8: two pass-throughs of inner radius 10 and 10.5, one after the other,
  of which the second is suppressed; and pass-throughs of inner radius 10, 20 and 10, of
  which the third is emitted.\<close>

theorem barrel_services_consecutive_dedup_witness:
  "\<forall>K D. casts_in_range (copper_service 10) \<and> casts_in_range (copper_service (21 / 2)) \<and>
     casts_in_range (copper_service 20) \<and>
     pass_through (copper_service 10) \<and> pass_through (copper_service (21 / 2)) \<and>
     pass_through (copper_service 20) \<and>
     trunc_int (getInnerRadius (copper_service (21 / 2))) = trunc_int (getInnerRadius (copper_service 10)) \<and>
     analyseBarrelServices K D (barrel_only ([] @ [copper_service 10] @ [] @ [copper_service (21 / 2)]))
       [] [] [] [] False =
     analyseBarrelServices K D (barrel_only ([] @ [copper_service 10] @ [])) [] [] [] [] False \<and>
     trunc_int (getInnerRadius (copper_service 10)) \<noteq> trunc_int (getInnerRadius (copper_service 20)) \<and>
     sv_c (analyseBarrelServices K D
         (barrel_only ([copper_service 10] @ [copper_service 20] @ [] @ [copper_service 10]))
         [] [] [] [] False) =
     sv_c (analyseBarrelServices K D (barrel_only ([copper_service 10] @ [copper_service 20] @ []))
         [] [] [] [] False) @
     [createComposite K (barrel_matname K (copper_service 10)) (compositeDensity_ie (copper_service 10))
        (copper_service 10) False]"
proof (intro allI)
  fix K D
  have t: "trunc_int (getInnerRadius (copper_service (21 / 2))) = trunc_int (getInnerRadius (copper_service 10))"
    "trunc_int (getInnerRadius (copper_service 10)) \<noteq> trunc_int (getInnerRadius (copper_service 20))"
    by (simp_all add: copper_fields trunc_int_numerals)
  have r1: "\<forall>x \<in> set ([] @ [copper_service 10] @ [] @ [copper_service (21 / 2)]). casts_in_range x"
    by (simp add: copper_in_range)
  have r2: "\<forall>x \<in> set ([copper_service 10] @ [copper_service 20] @ [] @ [copper_service 10]). casts_in_range x"
    by (simp add: copper_in_range)
  have e: "\<forall>y \<in> set ([]::InactiveElement list). \<not> pass_through y"
    by simp
  note first = barrel_services_consecutive_dedup[OF r1 copper_pass_through copper_pass_through e,
      of K D "[]" "[]" "[]" "[]" False]
  note second = barrel_services_consecutive_dedup[OF r2 copper_pass_through copper_pass_through e,
      of K D "[]" "[]" "[]" "[]" False]
  from first t(1) have a: "analyseBarrelServices K D
        (barrel_only ([] @ [copper_service 10] @ [] @ [copper_service (21 / 2)])) [] [] [] [] False =
      analyseBarrelServices K D (barrel_only ([] @ [copper_service 10] @ [])) [] [] [] [] False"
    by blast
  from second t(2) copper_fields(2,3)[of 10] have b: "sv_c (analyseBarrelServices K D
         (barrel_only ([copper_service 10] @ [copper_service 20] @ [] @ [copper_service 10]))
         [] [] [] [] False) =
     sv_c (analyseBarrelServices K D (barrel_only ([copper_service 10] @ [copper_service 20] @ []))
         [] [] [] [] False) @
     [createComposite K (barrel_matname K (copper_service 10)) (compositeDensity_ie (copper_service 10))
        (copper_service 10) False]"
    unfolding Let_def by blast
  from a b t copper_in_range copper_pass_through
  show "casts_in_range (copper_service 10) \<and> casts_in_range (copper_service (21 / 2)) \<and>
     casts_in_range (copper_service 20) \<and>
     pass_through (copper_service 10) \<and> pass_through (copper_service (21 / 2)) \<and>
     pass_through (copper_service 20) \<and>
     trunc_int (getInnerRadius (copper_service (21 / 2))) = trunc_int (getInnerRadius (copper_service 10)) \<and>
     analyseBarrelServices K D (barrel_only ([] @ [copper_service 10] @ [] @ [copper_service (21 / 2)]))
       [] [] [] [] False =
     analyseBarrelServices K D (barrel_only ([] @ [copper_service 10] @ [])) [] [] [] [] False \<and>
     trunc_int (getInnerRadius (copper_service 10)) \<noteq> trunc_int (getInnerRadius (copper_service 20)) \<and>
     sv_c (analyseBarrelServices K D
         (barrel_only ([copper_service 10] @ [copper_service 20] @ [] @ [copper_service 10]))
         [] [] [] [] False) =
     sv_c (analyseBarrelServices K D (barrel_only ([copper_service 10] @ [copper_service 20] @ []))
         [] [] [] [] False) @
     [createComposite K (barrel_matname K (copper_service 10)) (compositeDensity_ie (copper_service 10))
        (copper_service 10) False]"
    by blast
qed

lemma copper_step:
  assumes "previousInnerRadius st \<noteq> trunc_int r"
  shows "length (sv_c (barrel_service_step K ns (copper_service r) st)) = Suc (length (sv_c st))"
    "previousInnerRadius (barrel_service_step K ns (copper_service r) st) = trunc_int r"
    "comp_name (last (sv_c (barrel_service_step K ns (copper_service r) st))) =
       barrel_matname K (copper_service r)"
proof -
  have p: "previousInnerRadius st \<noteq> trunc_int (getInnerRadius (copper_service r))"
    using assms by (simp add: copper_fields)
  from step_emits(1)[OF p copper_fields(2,3), of K ns]
  show "length (sv_c (barrel_service_step K ns (copper_service r) st)) = Suc (length (sv_c st))"
    "comp_name (last (sv_c (barrel_service_step K ns (copper_service r) st))) =
       barrel_matname K (copper_service r)"
    by (simp_all add: createComposite_def split_def Let_def)
  show "previousInnerRadius (barrel_service_step K ns (copper_service r) st) = trunc_int r"
    using step_pass_through_previous[OF copper_pass_through, of K ns r st]
    by (simp add: copper_fields)
qed

text \<open>Counterexample to C8 as stated: three pass-throughs of inner radius 10, 20 and
  10. The third has a radius that was emitted before, yet it produces a composite, the
  third of the output, of the same name as the first.\<close>

theorem barrel_services_repeat_counterexample:
  "\<forall>K D. (let out = sv_c (analyseBarrelServices K D
               \<lparr>getBarrelServices = [copper_service 10, copper_service 20, copper_service 10],
                getEndcapServices = [], getSupports = []\<rparr> [] [] [] [] False)
           in length out = 3 \<and> comp_name (out ! 2) = comp_name (out ! 0))"
proof (intro allI)
  fix K D
  let ?ns = "nspace_of K False"
  let ?s0 = "barrel_service_init D [] [] [] []"
  let ?s1 = "barrel_service_step K ?ns (copper_service 10) ?s0"
  let ?s2 = "barrel_service_step K ?ns (copper_service 20) ?s1"
  let ?s3 = "barrel_service_step K ?ns (copper_service 10) ?s2"
  have p0: "previousInnerRadius ?s0 = - 1" "sv_c ?s0 = []"
    by (simp_all add: barrel_service_init_def split_def Let_def)
  note t = trunc_int_numerals(1,2)
  have s1: "length (sv_c ?s1) = 1" "previousInnerRadius ?s1 = 10"
    "comp_name (last (sv_c ?s1)) = barrel_matname K (copper_service 10)"
    using copper_step[of ?s0 10 K ?ns] by (simp_all add: p0 t)
  have s2: "length (sv_c ?s2) = 2" "previousInnerRadius ?s2 = 20"
    using copper_step[of ?s1 20 K ?ns] by (simp_all add: s1 t)
  have s3: "length (sv_c ?s3) = 3"
    "comp_name (last (sv_c ?s3)) = barrel_matname K (copper_service 10)"
    using copper_step[of ?s2 10 K ?ns] by (simp_all add: s2 t)
  have keep: "sv_c (barrel_service_step K ns x st) ! i = sv_c st ! i" if "i < length (sv_c st)" for ns x st i
    using that by (simp add: barrel_service_step_def Let_def nth_append)
  have first: "sv_c ?s3 ! 0 = last (sv_c ?s1)"
  proof -
    have "sv_c ?s3 ! 0 = sv_c ?s2 ! 0" by (rule keep) (simp add: s2)
    also have "\<dots> = sv_c ?s1 ! 0" by (rule keep) (simp add: s1)
    also have "\<dots> = last (sv_c ?s1)"
      using s1(1) by (cases "sv_c ?s1") simp_all
    finally show ?thesis .
  qed
  have third: "sv_c ?s3 ! 2 = last (sv_c ?s3)"
    using s3(1) by (simp add: last_conv_nth[of "sv_c ?s3"] s3 flip: length_0_conv)
  have out: "analyseBarrelServices K D
               \<lparr>getBarrelServices = [copper_service 10, copper_service 20, copper_service 10],
                getEndcapServices = [], getSupports = []\<rparr> [] [] [] [] False = ?s3"
    by (simp add: analyseBarrelServices_def)
  show "(let out = sv_c (analyseBarrelServices K D
               \<lparr>getBarrelServices = [copper_service 10, copper_service 20, copper_service 10],
                getEndcapServices = [], getSupports = []\<rparr> [] [] [] [] False)
           in length out = 3 \<and> comp_name (out ! 2) = comp_name (out ! 0))"
    unfolding out Let_def first third using s3 s1 by simp
qed

section \<open>The container volumes\<close>

lemma any_v_top: "v_top (new_ModuleComplex n p (ex_cap els)) =
   [\<lparr>vecX = 85, vecY = - 2, vecZ = 51\<rparr>, \<lparr>vecX = 85, vecY = 2, vecZ = 51\<rparr>,
    \<lparr>vecX = 115, vecY = 2, vecZ = 51\<rparr>, \<lparr>vecX = 115, vecY = - 2, vecZ = 51\<rparr>]"
  by (simp add: v_top_def expanded_vertices_def new_ModuleComplex_def ex_cap_def
      ex_module_def Let_def getVertex_def vadd_def vsub_def smul_def)

lemma any_v_bottom: "v_bottom (new_ModuleComplex n p (ex_cap els)) =
   [\<lparr>vecX = 85, vecY = - 2, vecZ = 49\<rparr>, \<lparr>vecX = 85, vecY = 2, vecZ = 49\<rparr>,
    \<lparr>vecX = 115, vecY = 2, vecZ = 49\<rparr>, \<lparr>vecX = 115, vecY = - 2, vecZ = 49\<rparr>]"
  by (simp add: v_bottom_def expanded_vertices_def new_ModuleComplex_def ex_cap_def
      ex_module_def Let_def getVertex_def vadd_def vsub_def smul_def)

lemma mirrored_v_top: "v_top (new_ModuleComplex n p mirrored_cap) =
   [\<lparr>vecX = 85, vecY = - 2, vecZ = - 49\<rparr>, \<lparr>vecX = 85, vecY = 2, vecZ = - 49\<rparr>,
    \<lparr>vecX = 115, vecY = 2, vecZ = - 49\<rparr>, \<lparr>vecX = 115, vecY = - 2, vecZ = - 49\<rparr>]"
  by (simp add: v_top_def expanded_vertices_def new_ModuleComplex_def mirrored_cap_def mirrored_module_def
      ex_cap_def ex_module_def Let_def getVertex_def vadd_def vsub_def smul_def)

lemma mirrored_v_bottom: "v_bottom (new_ModuleComplex n p mirrored_cap) =
   [\<lparr>vecX = 85, vecY = - 2, vecZ = - 51\<rparr>, \<lparr>vecX = 85, vecY = 2, vecZ = - 51\<rparr>,
    \<lparr>vecX = 115, vecY = 2, vecZ = - 51\<rparr>, \<lparr>vecX = 115, vecY = - 2, vecZ = - 51\<rparr>]"
  by (simp add: v_bottom_def expanded_vertices_def new_ModuleComplex_def mirrored_cap_def mirrored_module_def
      ex_cap_def ex_module_def Let_def getVertex_def vadd_def vsub_def smul_def)

lemma any_z: "Min (vecZ ` set (corners8 (new_ModuleComplex n p (ex_cap els)))) = 49"
  "Max (vecZ ` set (corners8 (new_ModuleComplex n p (ex_cap els)))) = 51"
  by (simp_all add: corners8_def any_v_top any_v_bottom)

lemma mirrored_z: "Min (vecZ ` set (corners8 (new_ModuleComplex n p mirrored_cap))) = - 51"
  "Max (vecZ ` set (corners8 (new_ModuleComplex n p mirrored_cap))) = - 49"
  by (simp_all add: corners8_def mirrored_v_top mirrored_v_bottom)

lemma any_builds:
  "\<exists>r. buildSubVolumes (new_ModuleComplex n p (ex_cap [])) = Inr r \<and> zmax r = 51"
proof -
  have "\<exists>r. buildSubVolumes (new_ModuleComplex n p (ex_cap [])) = Inr r"
    by (rule buildSubVolumes_succeeds)
      (simp_all add: any_z, simp add: new_ModuleComplex_def ex_cap_def ex_module_def Let_def)
  then obtain r where r: "buildSubVolumes (new_ModuleComplex n p (ex_cap [])) = Inr r" ..
  from buildSubVolumes_InrD(6)[OF r] r show ?thesis by (simp add: any_z)
qed

lemma mirrored_builds:
  "\<exists>r. buildSubVolumes (new_ModuleComplex n p mirrored_cap) = Inr r \<and> zmax r = - 49"
proof -
  have "\<exists>r. buildSubVolumes (new_ModuleComplex n p mirrored_cap) = Inr r"
    by (rule buildSubVolumes_succeeds)
      (simp_all add: mirrored_z, simp add: new_ModuleComplex_def mirrored_cap_def mirrored_module_def
        ex_cap_def ex_module_def Let_def)
  then obtain r where r: "buildSubVolumes (new_ModuleComplex n p mirrored_cap) = Inr r" ..
  from buildSubVolumes_InrD(6)[OF r] r show ?thesis by (simp add: mirrored_z)
qed

lemma disc_positive:
  "\<exists>ridx lrmin lrmax lzmin.
     for_each (endcap_container_module K layer) [ex_cap []] ({}, DBL_MAX, 0, DBL_MAX, 0) =
       Inr (ridx, lrmin, lrmax, lzmin, 51)"
proof -
  from any_builds obtain r where
    "buildSubVolumes (new_ModuleComplex (xml_endcap_module K @ show_int (ring (uniRef (getModule (ex_cap [])))) @ xml_disc K @ show_int layer)
        (xml_endcap_module K @ show_int (ring (uniRef (getModule (ex_cap [])))) @ xml_disc K @ show_int layer) (ex_cap [])) = Inr r"
    "zmax r = 51"
    by blast
  then show ?thesis
    by (simp add: endcap_container_module_def Let_def and_then_Inr)
qed

lemma disc_negative:
  "\<exists>ridx lrmin lrmax lzmin.
     for_each (endcap_container_module K layer) [mirrored_cap] ({}, DBL_MAX, 0, DBL_MAX, 0) =
       Inr (ridx, lrmin, lrmax, lzmin, 0)"
proof -
  from mirrored_builds obtain r where
    "buildSubVolumes (new_ModuleComplex (xml_endcap_module K @ show_int (ring (uniRef (getModule mirrored_cap))) @ xml_disc K @ show_int layer)
        (xml_endcap_module K @ show_int (ring (uniRef (getModule mirrored_cap))) @ xml_disc K @ show_int layer) mirrored_cap) = Inr r"
    "zmax r = - 49"
    by blast
  then show ?thesis
    by (simp add: endcap_container_module_def Let_def and_then_Inr)
qed

lemma and_then_Inr_right: "and_then r Inr = r"
  by (cases r) (simp_all add: and_then_def)

lemma for_each_2: "for_each f [x, y] st = and_then (f x st) (f y)"
proof -
  have "for_each f [y] = f y"
    by (rule ext) (simp add: and_then_def split: sum.splits)
  then show ?thesis by simp
qed

lemma run_first_1:
  "\<exists>up down. analyseEndcapContainer K 1 two_sided_ec two_sided_tracker = Inr (up, down) \<and>
     length up = 3 \<and> length down = 3"
proof -
  from disc_negative[of K 1] obtain a1 a2 a3 a4 where
    d1: "for_each (endcap_container_module K 1) [mirrored_cap] ({}, DBL_MAX, 0, DBL_MAX, 0) =
       Inr (a1, a2, a3, a4, 0)" by blast
  from disc_positive[of K 2] obtain b1 b2 b3 b4 where
    d2: "for_each (endcap_container_module K 2) [ex_cap []] ({}, DBL_MAX, 0, DBL_MAX, 0) =
       Inr (b1, b2, b3, b4, 51)" by blast
  show ?thesis
    unfolding analyseEndcapContainer_def two_sided_ec_def for_each_2
    by (simp add: two_sided_tracker_def
        endcap_container_disc_def d1 d2 and_then_Inr Let_def del: for_each.simps)
qed

lemma run_first_2:
  "\<exists>up down. analyseEndcapContainer K 2 two_sided_ec two_sided_tracker = Inr (up, down) \<and>
     length up = 2 \<and> length down = 2"
proof -
  from disc_negative[of K 1] obtain a1 a2 a3 a4 where
    d1: "for_each (endcap_container_module K 1) [mirrored_cap] ({}, DBL_MAX, 0, DBL_MAX, 0) =
       Inr (a1, a2, a3, a4, 0)" by blast
  from disc_positive[of K 2] obtain b1 b2 b3 b4 where
    d2: "for_each (endcap_container_module K 2) [ex_cap []] ({}, DBL_MAX, 0, DBL_MAX, 0) =
       Inr (b1, b2, b3, b4, 51)" by blast
  show ?thesis
    unfolding analyseEndcapContainer_def two_sided_ec_def for_each_2
    by (simp add: two_sided_tracker_def
        endcap_container_disc_def d1 d2 and_then_Inr Let_def del: for_each.simps)
qed

lemma analyseBarrelContainer_empty: "analyseBarrelContainer K two_sided_tracker = Inr ([], [])"
  by (simp add: analyseBarrelContainer_def two_sided_tracker_def and_then_Inr)

text \<open>
  Claim C1. The output of \<open>analyse\<close> is not determined by its input. For the tracker
  \<open>two_sided_tracker\<close>, whose first endcap disc lies at negative \<open>z\<close>,
  \<open>analyseEndcapContainer\<close> reads its local \<open>first\<close> at the first disc, before any
  assignment to it. When that local holds 1 the polycone of the endcap container, the
  second shape that \<open>analyse\<close> pushes, has a profile of three points on each side; when
  it holds 2 the profile has two points on each side.
\<close>

theorem analyse_containers_uninitialised_first:
  "\<forall>K D. \<exists>s1 s2.
     analyse_containers K D 1 two_sided_tracker two_sided_ec False = Inr s1 \<and>
     analyse_containers K D 2 two_sided_tracker two_sided_ec False = Inr s2 \<and>
     length s1 = 2 \<and> length s2 = 2 \<and>
     length (sh_rzup (s1 ! 1)) = 3 \<and> length (sh_rzdown (s1 ! 1)) = 3 \<and>
     length (sh_rzup (s2 ! 1)) = 2 \<and> length (sh_rzdown (s2 ! 1)) = 2"
proof (intro allI)
  fix K D
  from run_first_1[of K] obtain up1 down1 where
    r1: "analyseEndcapContainer K 1 two_sided_ec two_sided_tracker = Inr (up1, down1)"
    and l1: "length up1 = 3" "length down1 = 3" by blast
  from run_first_2[of K] obtain up2 down2 where
    r2: "analyseEndcapContainer K 2 two_sided_ec two_sided_tracker = Inr (up2, down2)"
    and l2: "length up2 = 2" "length down2 = 2" by blast
  have ne: "up1 \<noteq> []" "down1 \<noteq> []" "up2 \<noteq> []" "down2 \<noteq> []"
    using l1 l2 by auto
  have s1: "analyse_containers K D 1 two_sided_tracker two_sided_ec False =
      Inr [(declared_ShapeInfo D)\<lparr>sh_type := pc, sh_name_tag := xml_tob K, sh_rzup := [], sh_rzdown := []\<rparr>,
           (declared_ShapeInfo D)\<lparr>sh_type := pc, sh_name_tag := xml_tid K, sh_rzup := up1, sh_rzdown := down1\<rparr>]"
    using ne by (simp add: analyse_containers_def analyseBarrelContainer_empty r1 and_then_Inr Let_def)
  have s2: "analyse_containers K D 2 two_sided_tracker two_sided_ec False =
      Inr [(declared_ShapeInfo D)\<lparr>sh_type := pc, sh_name_tag := xml_tob K, sh_rzup := [], sh_rzdown := []\<rparr>,
           (declared_ShapeInfo D)\<lparr>sh_type := pc, sh_name_tag := xml_tid K, sh_rzup := up2, sh_rzdown := down2\<rparr>]"
    using ne by (simp add: analyse_containers_def analyseBarrelContainer_empty r2 and_then_Inr Let_def)
  show "\<exists>s1 s2.
     analyse_containers K D 1 two_sided_tracker two_sided_ec False = Inr s1 \<and>
     analyse_containers K D 2 two_sided_tracker two_sided_ec False = Inr s2 \<and>
     length s1 = 2 \<and> length s2 = 2 \<and>
     length (sh_rzup (s1 ! 1)) = 3 \<and> length (sh_rzdown (s1 ! 1)) = 3 \<and>
     length (sh_rzup (s2 ! 1)) = 2 \<and> length (sh_rzdown (s2 ! 1)) = 2"
    unfolding s1 s2 using l1 l2 by simp
qed

section \<open>Properties of the records of a module\<close>

lemmas upd_defs = upd_shape_def upd_logic_def upd_pos_def upd_rot_def upd_minfo_def
  push_shape_def push_logic_def push_pos_def

subsection \<open>What the pieces of a module push\<close>

lemma keeps_output_refl: "keeps_output st st"
  by (simp add: keeps_output_def)

lemma keeps_outputI:
  assumes "out_c st' = out_c st @ nc" "out_l st' = out_l st @ nl" "out_s st' = out_s st @ ns"
    "out_p st' = out_p st @ np"
  shows "keeps_output st st'"
  using assms by (simp add: keeps_output_def)

lemma take_eqD: "take (length xs) ys = xs \<Longrightarrow> ys = xs @ drop (length xs) ys"
  by (metis append_take_drop_id)

lemma keeps_output_trans:
  assumes "keeps_output a b" "keeps_output b c"
  shows "keeps_output a c"
proof -
  from assms have b: "out_c b = out_c a @ drop (length (out_c a)) (out_c b)"
    "out_l b = out_l a @ drop (length (out_l a)) (out_l b)"
    "out_s b = out_s a @ drop (length (out_s a)) (out_s b)"
    "out_p b = out_p a @ drop (length (out_p a)) (out_p b)"
    by (simp_all add: keeps_output_def take_eqD)
  from assms have c: "out_c c = out_c b @ drop (length (out_c b)) (out_c c)"
    "out_l c = out_l b @ drop (length (out_l b)) (out_l c)"
    "out_s c = out_s b @ drop (length (out_s b)) (out_s c)"
    "out_p c = out_p b @ drop (length (out_p b)) (out_p c)"
    by (simp_all add: keeps_output_def take_eqD)
  show ?thesis
    by (rule keeps_outputI[of c a "drop (length (out_c a)) (out_c b) @ drop (length (out_c b)) (out_c c)"
          "drop (length (out_l a)) (out_l b) @ drop (length (out_l b)) (out_l c)"
          "drop (length (out_s a)) (out_s b) @ drop (length (out_s b)) (out_s c)"
          "drop (length (out_p a)) (out_p b) @ drop (length (out_p b)) (out_p c)"])
      (metis b c append_assoc)+
qed

lemma pushed_shape_names_trans:
  assumes "keeps_output a b" "keeps_output b c"
  shows "pushed_shape_names a c = pushed_shape_names a b @ pushed_shape_names b c"
proof -
  from assms obtain n1 where b: "out_s b = out_s a @ n1"
    using take_eqD[of "out_s a" "out_s b"] by (auto simp: keeps_output_def)
  from assms obtain n2 where c: "out_s c = out_s b @ n2"
    using take_eqD[of "out_s b" "out_s c"] by (auto simp: keeps_output_def)
  show ?thesis
    by (simp add: pushed_shape_names_def c b)
qed

lemma pushed_shape_names_same: "out_s st' = out_s st \<Longrightarrow> pushed_shape_names st st' = []"
  by (simp add: pushed_shape_names_def)

lemma pushed_shape_names_append:
  "out_s st' = out_s st @ new \<Longrightarrow> pushed_shape_names st st' = map sh_name_tag new"
  by (simp add: pushed_shape_names_def)

lemma name_active_surface_unknown:
  "unknown_type m \<Longrightarrow>
   name_active_surface (moduleType m) ps_name s2_name st = st\<lparr>cerr := cerr st @ [unknown_type_message m]\<rparr>"
  by (simp add: name_active_surface_def unknown_type_def unknown_type_message_def)

lemma addShapeInfo_loop_names:
  "\<exists>new. addShapeInfo_loop vs gd ele vec = vec @ new \<and>
     map sh_name_tag new = map getName (filter (\<lambda>v. gd v > 0) vs)"
proof (induction vs arbitrary: ele vec)
  case Nil
  show ?case by simp
next
  case (Cons v vs)
  show ?case
  proof (cases "gd v > 0")
    case False
    with Cons[of ele vec] show ?thesis by simp
  next
    case True
    let ?ele = "ele\<lparr>sh_name_tag := getName v, sh_dx := getDx v / 2, sh_dy := getDy v / 2,
                        sh_dz := getDz v / 2\<rparr>"
    from Cons[of ?ele "vec @ [?ele]"] obtain new where
      "addShapeInfo_loop vs gd ?ele (vec @ [?ele]) = (vec @ [?ele]) @ new"
      "map sh_name_tag new = map getName (filter (\<lambda>v. gd v > 0) vs)" by blast
    with True show ?thesis by (simp add: Let_def)
  qed
qed

lemma addLogicInfo_loop_append: "\<exists>new. addLogicInfo_loop mc vs gd ele vec = vec @ new"
proof (induction vs arbitrary: ele vec)
  case Nil
  show ?case by simp
next
  case (Cons v vs)
  show ?case
  proof (cases "gd v > 0")
    case False
    with Cons[of ele vec] show ?thesis by simp
  next
    case True
    let ?ele = "ele\<lparr>lg_name_tag := getName v,
                        lg_shape_tag := prefix_xmlfile mc @ getName v,
                        lg_material_tag := prefix_xmlfile mc @ prefix_material mc @ getName v\<rparr>"
    from Cons[of ?ele "vec @ [?ele]"] obtain new where
      "addLogicInfo_loop mc vs gd ?ele (vec @ [?ele]) = (vec @ [?ele]) @ new" by blast
    with True show ?thesis by (simp add: Let_def)
  qed
qed

lemma addPositionInfo_loop_append: "\<exists>new. addPositionInfo_loop mc vs gd ele vec = vec @ new"
proof (induction vs arbitrary: ele vec)
  case Nil
  show ?case by simp
next
  case (Cons v vs)
  show ?case
  proof (cases "gd v > 0")
    case False
    with Cons[of ele vec] show ?thesis by simp
  next
    case True
    let ?ele = "ele\<lparr>pos_parent_tag := prefix_xmlfile mc @ getParentName v,
                        pos_child_tag := prefix_xmlfile mc @ getName v,
                        pos_trans := (pos_trans ele)\<lparr>tr_dx := getX v, tr_dy := getY v, tr_dz := getZ v\<rparr>\<rparr>"
    from Cons[of ?ele "vec @ [?ele]"] obtain new where
      "addPositionInfo_loop mc vs gd ?ele (vec @ [?ele]) = (vec @ [?ele]) @ new" by blast
    with True show ?thesis by (simp add: Let_def)
  qed
qed

lemma add_hybrid_records_effect:
  "keeps_output st (add_hybrid_records D gd mc st)"
  "pushed_shape_names st (add_hybrid_records D gd mc st) = hybrid_names gd mc"
  "cerr (add_hybrid_records D gd mc st) = cerr st"
  "loc_pos (add_hybrid_records D gd mc st) = loc_pos st"
proof -
  from addShapeInfo_loop_names[of "volumes mc" gd "(declared_ShapeInfo D)\<lparr>sh_type := bx\<rparr>" "out_s st"]
  obtain ns where ns: "out_s (add_hybrid_records D gd mc st) = out_s st @ ns"
    "map sh_name_tag ns = hybrid_names gd mc"
    by (auto simp: add_hybrid_records_def addShapeInfo_def hybrid_names_def)
  from addLogicInfo_loop_append[of mc "volumes mc" gd "declared_LogicalInfo D" "out_l st"]
  obtain nl where nl: "out_l (add_hybrid_records D gd mc st) = out_l st @ nl"
    by (auto simp: add_hybrid_records_def addLogicInfo_def)
  from addPositionInfo_loop_append[of mc "volumes mc" gd "(declared_PosInfo D)\<lparr>pos_copy := 1\<rparr>" "out_p st"]
  obtain np where np: "out_p (add_hybrid_records D gd mc st) = out_p st @ np"
    by (auto simp: add_hybrid_records_def addPositionInfo_def)
  have nc: "out_c (add_hybrid_records D gd mc st) =
      out_c st @ map (volume_composite mc gd) (filter (\<lambda>v. gd v > 0) (volumes mc))"
    by (simp add: add_hybrid_records_def addMaterialInfo_def addMaterialInfo_loop_eq)
  show "keeps_output st (add_hybrid_records D gd mc st)"
    by (rule keeps_outputI[OF nc nl ns(1) np])
  show "pushed_shape_names st (add_hybrid_records D gd mc st) = hybrid_names gd mc"
    using ns by (simp add: pushed_shape_names_append)
  show "cerr (add_hybrid_records D gd mc st) = cerr st"
    "loc_pos (add_hybrid_records D gd mc st) = loc_pos st"
    by (simp_all add: add_hybrid_records_def)
qed

lemma stereo_rotation_frame:
  "out_s (stereo_rotation ns rn m st) = out_s st" "loc_shape (stereo_rotation ns rn m st) = loc_shape st"
  "cerr (stereo_rotation ns rn m st) = cerr st"
  "pos_copy (loc_pos (stereo_rotation ns rn m st)) = pos_copy (loc_pos st)"
  "out_p (stereo_rotation ns rn m st) = out_p st" "out_l (stereo_rotation ns rn m st) = out_l st"
  "out_c (stereo_rotation ns rn m st) = out_c st"
  by (simp_all add: stereo_rotation_def Let_def upd_defs)

lemma reset_rotation_frame:
  "out_s (reset_rotation st) = out_s st" "loc_shape (reset_rotation st) = loc_shape st"
  "cerr (reset_rotation st) = cerr st" "pos_copy (loc_pos (reset_rotation st)) = 1"
  "out_p (reset_rotation st) = out_p st" "out_l (reset_rotation st) = out_l st"
  "out_c (reset_rotation st) = out_c st"
  by (simp_all add: reset_rotation_def Let_def upd_defs)

lemma layer_module_box_effect:
  "keeps_output st (layer_module_box K ns mname mc st)"
  "pushed_shape_names st (layer_module_box K ns mname mc st) = [mname]"
  "cerr (layer_module_box K ns mname mc st) = cerr st"
  "pos_copy (loc_pos (layer_module_box K ns mname mc st)) = pos_copy (loc_pos st)"
  by (simp_all add: layer_module_box_def Let_def upd_defs keeps_output_def pushed_shape_names_def)

lemma rod_placement_effect:
  "keeps_output st (rod_placement K ns rodname mname iiter rest rg RadiusIn st)"
  "pushed_shape_names st (rod_placement K ns rodname mname iiter rest rg RadiusIn st) = []"
  "cerr (rod_placement K ns rodname mname iiter rest rg RadiusIn st) = cerr st"
  "pos_copy (loc_pos st) = 1 \<Longrightarrow>
     pos_copy (loc_pos (rod_placement K ns rodname mname iiter rest rg RadiusIn st)) = 1"
  by (simp_all add: rod_placement_def Let_def upd_defs keeps_output_def pushed_shape_names_def)

lemma layer_wafer_effect:
  "keeps_output st (layer_wafer K ns mname m st)"
  "pushed_shape_names st (layer_wafer K ns mname m st) =
     [mname @ (if numSensors m = 2 then xml_base_lower K else []) @ xml_base_waf K]"
  "sh_name_tag (loc_shape (layer_wafer K ns mname m st)) =
     mname @ (if numSensors m = 2 then xml_base_lower K else []) @ xml_base_waf K"
  "cerr (layer_wafer K ns mname m st) = cerr st"
  "pos_copy (loc_pos (layer_wafer K ns mname m st)) = pos_copy (loc_pos st)"
  by (simp_all add: layer_wafer_def Let_def upd_defs keeps_output_def pushed_shape_names_def)

lemma layer_wafer_upper_effect:
  "keeps_output st (layer_wafer_upper K ns mname m st)"
  "pushed_shape_names st (layer_wafer_upper K ns mname m st) = [mname @ xml_base_upper K @ xml_base_waf K]"
  "sh_name_tag (loc_shape (layer_wafer_upper K ns mname m st)) = mname @ xml_base_upper K @ xml_base_waf K"
  "cerr (layer_wafer_upper K ns mname m st) = cerr st"
  "pos_copy (loc_pos (layer_wafer_upper K ns mname m st)) = 1"
  by (simp_all add: layer_wafer_upper_def Let_def upd_defs keeps_output_def pushed_shape_names_def
      stereo_rotation_frame reset_rotation_frame)

lemma name_active_surface_frame:
  "out_c (name_active_surface ty n1 n2 st) = out_c st" "out_l (name_active_surface ty n1 n2 st) = out_l st"
  "out_s (name_active_surface ty n1 n2 st) = out_s st" "out_p (name_active_surface ty n1 n2 st) = out_p st"
  "loc_pos (name_active_surface ty n1 n2 st) = loc_pos st"
  by (simp_all add: name_active_surface_def upd_defs)

lemma layer_active_inner_keeps:
  "keeps_output st (layer_active_inner K ns mname m st)"
  "pos_copy (loc_pos (layer_active_inner K ns mname m st)) = pos_copy (loc_pos st)"
  by (simp_all add: layer_active_inner_def Let_def upd_defs keeps_output_def name_active_surface_frame)

lemma layer_active_outer_keeps:
  "keeps_output st (layer_active_outer K ns mname m st)"
  "pos_copy (loc_pos (layer_active_outer K ns mname m st)) = pos_copy (loc_pos st)"
  by (simp_all add: layer_active_outer_def Let_def upd_defs keeps_output_def name_active_surface_frame)

lemma layer_active_inner_unknown:
  assumes "unknown_type m"
  shows "pushed_shape_names st (layer_active_inner K ns mname m st) = [sh_name_tag (loc_shape st)]"
    and "sh_name_tag (loc_shape (layer_active_inner K ns mname m st)) = sh_name_tag (loc_shape st)"
    and "cerr (layer_active_inner K ns mname m st) = cerr st @ [unknown_type_message m]"
    and "\<exists>lg. out_l (layer_active_inner K ns mname m st) = out_l st @ [lg] \<and>
       lg_name_tag lg = sh_name_tag (loc_shape st) \<and>
       lg_material_tag lg = ns @ '':'' @ xml_sensor_silicon K"
    and "\<exists>ps. out_p (layer_active_inner K ns mname m st) = out_p st @ [ps] \<and>
       pos_child_tag ps = ns @ '':'' @ sh_name_tag (loc_shape st)"
    and "spec_partselectors (mspec (layer_active_inner K ns mname m st)) =
       spec_partselectors (mspec st) @ [sh_name_tag (loc_shape st)]"
  by (simp_all add: layer_active_inner_def Let_def name_active_surface_unknown[OF assms] upd_defs
      pushed_shape_names_def)

lemma layer_active_outer_unknown:
  assumes "unknown_type m"
  shows "pushed_shape_names st (layer_active_outer K ns mname m st) = [sh_name_tag (loc_shape st)]"
    and "cerr (layer_active_outer K ns mname m st) = cerr st @ [unknown_type_message m]"
  by (simp_all add: layer_active_outer_def Let_def name_active_surface_unknown[OF assms] upd_defs
      pushed_shape_names_def)


lemma disc_module_box_effect:
  "keeps_output st (disc_module_box K ns mname m mc st)"
  "pushed_shape_names st (disc_module_box K ns mname m mc st) = [mname]"
  "cerr (disc_module_box K ns mname m mc st) = cerr st"
  by (simp_all add: disc_module_box_def Let_def upd_defs keeps_output_def pushed_shape_names_def)

lemma disc_wafer_effect:
  "keeps_output st (disc_wafer K ns mname m st)"
  "pushed_shape_names st (disc_wafer K ns mname m st) =
     [mname @ (if numSensors m = 2 then xml_base_lower K else []) @ xml_base_waf K]"
  "sh_name_tag (loc_shape (disc_wafer K ns mname m st)) =
     mname @ (if numSensors m = 2 then xml_base_lower K else []) @ xml_base_waf K"
  "cerr (disc_wafer K ns mname m st) = cerr st"
  by (simp_all add: disc_wafer_def Let_def upd_defs keeps_output_def pushed_shape_names_def)

lemma disc_wafer_upper_effect:
  "keeps_output st (disc_wafer_upper K ns mname m st)"
  "pushed_shape_names st (disc_wafer_upper K ns mname m st) = [mname @ xml_base_upper K @ xml_base_waf K]"
  "sh_name_tag (loc_shape (disc_wafer_upper K ns mname m st)) = mname @ xml_base_upper K @ xml_base_waf K"
  "cerr (disc_wafer_upper K ns mname m st) = cerr st"
  by (simp_all add: disc_wafer_upper_def Let_def upd_defs keeps_output_def pushed_shape_names_def
      stereo_rotation_frame reset_rotation_frame)

lemma disc_active_inner_keeps: "keeps_output st (disc_active_inner K ns mname m st)"
  by (simp add: disc_active_inner_def Let_def upd_defs keeps_output_def name_active_surface_frame)

lemma disc_active_outer_keeps: "keeps_output st (disc_active_outer K ns mname m st)"
  by (simp add: disc_active_outer_def Let_def upd_defs keeps_output_def name_active_surface_frame)

lemma disc_active_inner_unknown:
  assumes "unknown_type m"
  shows "pushed_shape_names st (disc_active_inner K ns mname m st) = [sh_name_tag (loc_shape st)]"
    and "sh_name_tag (loc_shape (disc_active_inner K ns mname m st)) = sh_name_tag (loc_shape st)"
    and "cerr (disc_active_inner K ns mname m st) = cerr st @ [unknown_type_message m]"
    and "\<exists>lg. out_l (disc_active_inner K ns mname m st) = out_l st @ [lg] \<and>
       lg_name_tag lg = sh_name_tag (loc_shape st) \<and>
       lg_material_tag lg = ns @ '':'' @ xml_sensor_silicon K"
    and "\<exists>ps. out_p (disc_active_inner K ns mname m st) = out_p st @ [ps] \<and>
       pos_child_tag ps = ns @ '':'' @ sh_name_tag (loc_shape st)"
    and "spec_partselectors (mspec (disc_active_inner K ns mname m st)) =
       spec_partselectors (mspec st) @ [sh_name_tag (loc_shape st)]"
  by (simp_all add: disc_active_inner_def Let_def name_active_surface_unknown[OF assms] upd_defs
      pushed_shape_names_def)

lemma disc_active_outer_unknown:
  assumes "unknown_type m"
  shows "pushed_shape_names st (disc_active_outer K ns mname m st) = [sh_name_tag (loc_shape st)]"
    and "cerr (disc_active_outer K ns mname m st) = cerr st @ [unknown_type_message m]"
  by (simp_all add: disc_active_outer_def Let_def name_active_surface_unknown[OF assms] upd_defs
      pushed_shape_names_def)

lemma pushed_step:
  assumes "keeps_output a b \<and> pushed_shape_names a b = X" "keeps_output b c" "pushed_shape_names b c = Y"
  shows "keeps_output a c \<and> pushed_shape_names a c = X @ Y"
  using assms keeps_output_trans[of a b c] pushed_shape_names_trans[of a b c] by simp

lemma sspec_update_effect:
  "keeps_output st (st\<lparr>sspec := x\<rparr>)" "pushed_shape_names st (st\<lparr>sspec := x\<rparr>) = []"
  by (simp_all add: keeps_output_def pushed_shape_names_def)

lemma layer_module_records_unknown:
  assumes u: "unknown_type (getModule iiter)"
  shows "keeps_output st
       (layer_module_records K D gd ns rodname mname iiter rest rg RadiusIn tilted ta mc st) \<and>
     pushed_shape_names st
       (layer_module_records K D gd ns rodname mname iiter rest rg RadiusIn tilted ta mc st) =
       [mname, mname @ (if numSensors (getModule iiter) = 2 then xml_base_lower K else []) @ xml_base_waf K] @
       (if numSensors (getModule iiter) = 2 then [mname @ xml_base_upper K @ xml_base_waf K] else []) @
       [last_wafer_name K mname (getModule iiter)] @
       (if numSensors (getModule iiter) = 2
        then last_wafer_name K mname (getModule iiter) # hybrid_names gd mc else [])"
    and "cerr (layer_module_records K D gd ns rodname mname iiter rest rg RadiusIn tilted ta mc st) =
       cerr st @ [unknown_type_message (getModule iiter)] @
       (if numSensors (getModule iiter) = 2 then [unknown_type_message (getModule iiter)] else [])"
proof -
  let ?m = "getModule iiter"
  define s1 where "s1 = layer_module_box K ns mname mc st"
  define s2 where "s2 = (if \<not> tilted \<or> (tilted \<and> ta = 0)
      then rod_placement K ns rodname mname iiter rest rg RadiusIn s1 else s1)"
  define s3 where "s3 = s2\<lparr>sspec := select_part mname minfo_zero (sspec s2)\<rparr>"
  define s4 where "s4 = layer_wafer K ns mname ?m s3"
  define s5 where "s5 = (if numSensors ?m = 2 then layer_wafer_upper K ns mname ?m s4 else s4)"
  define s6 where "s6 = layer_active_inner K ns mname ?m s5"
  define s7 where "s7 = (if numSensors ?m = 2
      then add_hybrid_records D gd mc (layer_active_outer K ns mname ?m s6) else s6)"
  have eq: "layer_module_records K D gd ns rodname mname iiter rest rg RadiusIn tilted ta mc st = s7"
    by (simp add: layer_module_records_def Let_def s1_def s2_def s3_def s4_def s5_def s6_def s7_def)
  have a1: "keeps_output st s1 \<and> pushed_shape_names st s1 = [mname]" and c1: "cerr s1 = cerr st"
    by (simp_all add: s1_def layer_module_box_effect)
  have k2: "keeps_output s1 s2" and p2: "pushed_shape_names s1 s2 = []" and c2: "cerr s2 = cerr s1"
    by (simp_all add: s2_def rod_placement_effect keeps_output_refl pushed_shape_names_same)
  have k3: "keeps_output s2 s3" and p3: "pushed_shape_names s2 s3 = []" and c3: "cerr s3 = cerr s2"
    by (simp_all add: s3_def sspec_update_effect)
  have k4: "keeps_output s3 s4"
    and p4: "pushed_shape_names s3 s4 =
      [mname @ (if numSensors ?m = 2 then xml_base_lower K else []) @ xml_base_waf K]"
    and n4: "sh_name_tag (loc_shape s4) =
      mname @ (if numSensors ?m = 2 then xml_base_lower K else []) @ xml_base_waf K"
    and c4: "cerr s4 = cerr s3"
    by (simp_all add: s4_def layer_wafer_effect)
  have k5: "keeps_output s4 s5"
    and p5: "pushed_shape_names s4 s5 =
      (if numSensors ?m = 2 then [mname @ xml_base_upper K @ xml_base_waf K] else [])"
    and n5: "sh_name_tag (loc_shape s5) = last_wafer_name K mname ?m"
    and c5: "cerr s5 = cerr s4"
    by (simp_all add: s5_def layer_wafer_upper_effect keeps_output_refl pushed_shape_names_same n4
        last_wafer_name_def)
  have k6: "keeps_output s5 s6"
    and p6: "pushed_shape_names s5 s6 = [last_wafer_name K mname ?m]"
    and n6: "sh_name_tag (loc_shape s6) = last_wafer_name K mname ?m"
    and c6: "cerr s6 = cerr s5 @ [unknown_type_message ?m]"
    by (simp_all add: s6_def layer_active_inner_keeps layer_active_inner_unknown[OF u] n5)
  have k7: "keeps_output s6 s7"
    and p7: "pushed_shape_names s6 s7 =
      (if numSensors ?m = 2 then last_wafer_name K mname ?m # hybrid_names gd mc else [])"
    and c7: "cerr s7 = cerr s6 @ (if numSensors ?m = 2 then [unknown_type_message ?m] else [])"
  proof -
    let ?o = "layer_active_outer K ns mname ?m s6"
    have "keeps_output s6 ?o \<and> pushed_shape_names s6 ?o = [last_wafer_name K mname ?m]"
      by (simp add: layer_active_outer_keeps layer_active_outer_unknown[OF u] n6)
    from pushed_step[OF this add_hybrid_records_effect(1,2)[of ?o D gd mc]]
    have "keeps_output s6 (add_hybrid_records D gd mc ?o) \<and>
       pushed_shape_names s6 (add_hybrid_records D gd mc ?o) =
         last_wafer_name K mname ?m # hybrid_names gd mc"
      by simp
    then show "keeps_output s6 s7"
      and "pushed_shape_names s6 s7 =
        (if numSensors ?m = 2 then last_wafer_name K mname ?m # hybrid_names gd mc else [])"
      by (simp_all add: s7_def keeps_output_refl pushed_shape_names_same)
    show "cerr s7 = cerr s6 @ (if numSensors ?m = 2 then [unknown_type_message ?m] else [])"
      by (simp add: s7_def add_hybrid_records_effect layer_active_outer_unknown[OF u])
  qed
  note a2 = pushed_step[OF a1 k2 p2]
  note a3 = pushed_step[OF a2 k3 p3]
  note a4 = pushed_step[OF a3 k4 p4]
  note a5 = pushed_step[OF a4 k5 p5]
  note a6 = pushed_step[OF a5 k6 p6]
  note a7 = pushed_step[OF a6 k7 p7]
  from a7 show "keeps_output st
       (layer_module_records K D gd ns rodname mname iiter rest rg RadiusIn tilted ta mc st) \<and>
     pushed_shape_names st
       (layer_module_records K D gd ns rodname mname iiter rest rg RadiusIn tilted ta mc st) =
       [mname, mname @ (if numSensors (getModule iiter) = 2 then xml_base_lower K else []) @ xml_base_waf K] @
       (if numSensors (getModule iiter) = 2 then [mname @ xml_base_upper K @ xml_base_waf K] else []) @
       [last_wafer_name K mname (getModule iiter)] @
       (if numSensors (getModule iiter) = 2
        then last_wafer_name K mname (getModule iiter) # hybrid_names gd mc else [])"
    unfolding eq by simp
  show "cerr (layer_module_records K D gd ns rodname mname iiter rest rg RadiusIn tilted ta mc st) =
       cerr st @ [unknown_type_message (getModule iiter)] @
       (if numSensors (getModule iiter) = 2 then [unknown_type_message (getModule iiter)] else [])"
    unfolding eq by (simp add: c7 c6 c5 c4 c3 c2 c1)
qed


lemma disc_module_records_unknown:
  assumes u: "unknown_type (getModule iiter)"
  shows "keeps_output st (disc_module_records K D gd ns mname iiter mc st) \<and>
     pushed_shape_names st (disc_module_records K D gd ns mname iiter mc st) =
       [mname, mname @ (if numSensors (getModule iiter) = 2 then xml_base_lower K else []) @ xml_base_waf K] @
       (if numSensors (getModule iiter) = 2 then [mname @ xml_base_upper K @ xml_base_waf K] else []) @
       [last_wafer_name K mname (getModule iiter)] @
       (if numSensors (getModule iiter) = 2
        then last_wafer_name K mname (getModule iiter) # hybrid_names gd mc else [])"
    and "cerr (disc_module_records K D gd ns mname iiter mc st) =
       cerr st @ [unknown_type_message (getModule iiter)] @
       (if numSensors (getModule iiter) = 2 then [unknown_type_message (getModule iiter)] else [])"
proof -
  let ?m = "getModule iiter"
  define s1 where "s1 = disc_module_box K ns mname ?m mc st"
  define s3 where "s3 = s1\<lparr>sspec := select_part mname minfo_zero (sspec s1)\<rparr>"
  define s4 where "s4 = disc_wafer K ns mname ?m s3"
  define s5 where "s5 = (if numSensors ?m = 2 then disc_wafer_upper K ns mname ?m s4 else s4)"
  define s6 where "s6 = disc_active_inner K ns mname ?m s5"
  define s7 where "s7 = (if numSensors ?m = 2
      then add_hybrid_records D gd mc (disc_active_outer K ns mname ?m s6) else s6)"
  have eq: "disc_module_records K D gd ns mname iiter mc st = s7"
    by (simp add: disc_module_records_def Let_def s1_def s3_def s4_def s5_def s6_def s7_def)
  have a1: "keeps_output st s1 \<and> pushed_shape_names st s1 = [mname]" and c1: "cerr s1 = cerr st"
    by (simp_all add: s1_def disc_module_box_effect)
  have k3: "keeps_output s1 s3" and p3: "pushed_shape_names s1 s3 = []" and c3: "cerr s3 = cerr s1"
    by (simp_all add: s3_def sspec_update_effect)
  have k4: "keeps_output s3 s4"
    and p4: "pushed_shape_names s3 s4 =
      [mname @ (if numSensors ?m = 2 then xml_base_lower K else []) @ xml_base_waf K]"
    and n4: "sh_name_tag (loc_shape s4) =
      mname @ (if numSensors ?m = 2 then xml_base_lower K else []) @ xml_base_waf K"
    and c4: "cerr s4 = cerr s3"
    by (simp_all add: s4_def disc_wafer_effect)
  have k5: "keeps_output s4 s5"
    and p5: "pushed_shape_names s4 s5 =
      (if numSensors ?m = 2 then [mname @ xml_base_upper K @ xml_base_waf K] else [])"
    and n5: "sh_name_tag (loc_shape s5) = last_wafer_name K mname ?m"
    and c5: "cerr s5 = cerr s4"
    by (simp_all add: s5_def disc_wafer_upper_effect keeps_output_refl pushed_shape_names_same n4
        last_wafer_name_def)
  have k6: "keeps_output s5 s6"
    and p6: "pushed_shape_names s5 s6 = [last_wafer_name K mname ?m]"
    and n6: "sh_name_tag (loc_shape s6) = last_wafer_name K mname ?m"
    and c6: "cerr s6 = cerr s5 @ [unknown_type_message ?m]"
    by (simp_all add: s6_def disc_active_inner_keeps disc_active_inner_unknown[OF u] n5)
  have k7: "keeps_output s6 s7"
    and p7: "pushed_shape_names s6 s7 =
      (if numSensors ?m = 2 then last_wafer_name K mname ?m # hybrid_names gd mc else [])"
    and c7: "cerr s7 = cerr s6 @ (if numSensors ?m = 2 then [unknown_type_message ?m] else [])"
  proof -
    let ?o = "disc_active_outer K ns mname ?m s6"
    have "keeps_output s6 ?o \<and> pushed_shape_names s6 ?o = [last_wafer_name K mname ?m]"
      by (simp add: disc_active_outer_keeps disc_active_outer_unknown[OF u] n6)
    from pushed_step[OF this add_hybrid_records_effect(1,2)[of ?o D gd mc]]
    have "keeps_output s6 (add_hybrid_records D gd mc ?o) \<and>
       pushed_shape_names s6 (add_hybrid_records D gd mc ?o) =
         last_wafer_name K mname ?m # hybrid_names gd mc"
      by simp
    then show "keeps_output s6 s7"
      and "pushed_shape_names s6 s7 =
        (if numSensors ?m = 2 then last_wafer_name K mname ?m # hybrid_names gd mc else [])"
      by (simp_all add: s7_def keeps_output_refl pushed_shape_names_same)
    show "cerr s7 = cerr s6 @ (if numSensors ?m = 2 then [unknown_type_message ?m] else [])"
      by (simp add: s7_def add_hybrid_records_effect disc_active_outer_unknown[OF u])
  qed
  note a3 = pushed_step[OF a1 k3 p3]
  note a4 = pushed_step[OF a3 k4 p4]
  note a5 = pushed_step[OF a4 k5 p5]
  note a6 = pushed_step[OF a5 k6 p6]
  note a7 = pushed_step[OF a6 k7 p7]
  from a7 show "keeps_output st (disc_module_records K D gd ns mname iiter mc st) \<and>
     pushed_shape_names st (disc_module_records K D gd ns mname iiter mc st) =
       [mname, mname @ (if numSensors (getModule iiter) = 2 then xml_base_lower K else []) @ xml_base_waf K] @
       (if numSensors (getModule iiter) = 2 then [mname @ xml_base_upper K @ xml_base_waf K] else []) @
       [last_wafer_name K mname (getModule iiter)] @
       (if numSensors (getModule iiter) = 2
        then last_wafer_name K mname (getModule iiter) # hybrid_names gd mc else [])"
    unfolding eq by simp
  show "cerr (disc_module_records K D gd ns mname iiter mc st) =
       cerr st @ [unknown_type_message (getModule iiter)] @
       (if numSensors (getModule iiter) = 2 then [unknown_type_message (getModule iiter)] else [])"
    unfolding eq by (simp add: c7 c6 c5 c4 c3 c1)
qed

lemma layer_module_records_copy:
  assumes "pos_copy (loc_pos st) = 1"
  shows "pos_copy (loc_pos (layer_module_records K D gd ns rodname mname iiter rest rg RadiusIn tilted ta
      mc st)) = 1"
proof -
  let ?m = "getModule iiter"
  define s1 where "s1 = layer_module_box K ns mname mc st"
  define s2 where "s2 = (if \<not> tilted \<or> (tilted \<and> ta = 0)
      then rod_placement K ns rodname mname iiter rest rg RadiusIn s1 else s1)"
  define s3 where "s3 = s2\<lparr>sspec := select_part mname minfo_zero (sspec s2)\<rparr>"
  define s4 where "s4 = layer_wafer K ns mname ?m s3"
  define s5 where "s5 = (if numSensors ?m = 2 then layer_wafer_upper K ns mname ?m s4 else s4)"
  define s6 where "s6 = layer_active_inner K ns mname ?m s5"
  define s7 where "s7 = (if numSensors ?m = 2
      then add_hybrid_records D gd mc (layer_active_outer K ns mname ?m s6) else s6)"
  have eq: "layer_module_records K D gd ns rodname mname iiter rest rg RadiusIn tilted ta mc st = s7"
    by (simp add: layer_module_records_def Let_def s1_def s2_def s3_def s4_def s5_def s6_def s7_def)
  have 1: "pos_copy (loc_pos s1) = 1"
    using assms by (simp add: s1_def layer_module_box_effect)
  have 2: "pos_copy (loc_pos s2) = 1"
    using 1 by (simp add: s2_def rod_placement_effect)
  have 3: "pos_copy (loc_pos s3) = 1"
    using 2 by (simp add: s3_def)
  have 4: "pos_copy (loc_pos s4) = 1"
    using 3 by (simp add: s4_def layer_wafer_effect)
  have 5: "pos_copy (loc_pos s5) = 1"
    using 4 by (simp add: s5_def layer_wafer_upper_effect)
  have 6: "pos_copy (loc_pos s6) = 1"
    using 5 by (simp add: s6_def layer_active_inner_keeps)
  have 7: "pos_copy (loc_pos s7) = 1"
    using 6 by (simp add: s7_def add_hybrid_records_effect layer_active_outer_keeps)
  show ?thesis unfolding eq by (rule 7)
qed

subsection \<open>The partner of a module\<close>

lemma partner_scan_end:
  "partner_scan caps rg False True = length caps \<longleftrightarrow> \<not> list_ex (opposite_on_ring rg) caps"
proof (induction caps)
  case Nil
  show ?case by simp
next
  case (Cons c caps)
  show ?case
  proof (cases "opposite_on_ring rg c")
    case True
    then show ?thesis by (simp add: opposite_on_ring_def)
  next
    case False
    with Cons show ?thesis by (auto simp: opposite_on_ring_def)
  qed
qed

lemma partner_scan_found:
  "list_ex (opposite_on_ring rg) caps \<Longrightarrow>
   partner_scan caps rg False True < length caps \<and>
   opposite_on_ring rg (caps ! partner_scan caps rg False True) \<and>
   (\<forall>j < partner_scan caps rg False True. \<not> opposite_on_ring rg (caps ! j))"
proof (induction caps)
  case Nil
  then show ?case by simp
next
  case (Cons c caps)
  show ?case
  proof (cases "opposite_on_ring rg c")
    case True
    then show ?thesis by (simp add: opposite_on_ring_def)
  next
    case False
    with Cons.prems have "list_ex (opposite_on_ring rg) caps" by simp
    from Cons.IH[OF this] False show ?thesis
      by (auto simp: opposite_on_ring_def nth_Cons split: nat.splits)
  qed
qed

lemma findPartnerModule_plus:
  "side (uniRef (getModule iiter)) > 0 \<Longrightarrow>
   findPartnerModule (iiter # rest) rg False = partner_scan (iiter # rest) rg False True"
  by (simp add: findPartnerModule_def Let_def)

lemma rod_placement_alone:
  assumes "findPartnerModule (iiter # rest) rg False = length (iiter # rest)"
  shows "\<exists>pos1. out_p (rod_placement K ns rodname mname iiter rest rg RadiusIn st) = out_p st @ [pos1] \<and>
      pos_copy pos1 = pos_copy (loc_pos st) \<and> pos_child_tag pos1 = ns @ '':'' @ mname \<and>
      pos_parent_tag pos1 = ns @ '':'' @ rodname"
  using assms by (simp add: rod_placement_def Let_def upd_defs)

lemma rod_placement_pair:
  assumes "findPartnerModule (iiter # rest) rg False \<noteq> length (iiter # rest)"
  shows "\<exists>pos1 pos2. out_p (rod_placement K ns rodname mname iiter rest rg RadiusIn st) =
        out_p st @ [pos1, pos2] \<and>
      pos_copy pos1 = pos_copy (loc_pos st) \<and> pos_copy pos2 = 2 \<and>
      pos_child_tag pos1 = ns @ '':'' @ mname \<and> pos_child_tag pos2 = ns @ '':'' @ mname \<and>
      pos_parent_tag pos1 = ns @ '':'' @ rodname \<and> pos_parent_tag pos2 = ns @ '':'' @ rodname \<and>
      tr_dz (pos_trans pos1) = vecZ (center (getModule iiter)) \<and>
      tr_dz (pos_trans pos2) =
        vecZ (center (getModule ((iiter # rest) ! findPartnerModule (iiter # rest) rg False)))"
  using assms by (simp add: rod_placement_def Let_def upd_defs)


subsection \<open>The claims about the records of a module\<close>

text \<open>
  Claim C5. Take a module cap \<open>iiter\<close> on the positive side and the module caps \<open>rest\<close>
  after it in its layer, and let \<open>pos.copy\<close> be 1 when the placement of the module in its
  rod begins. When no module cap from \<open>iiter\<close> on is on ring \<open>rg\<close> and on the negative
  side, \<open>findPartnerModule\<close> returns the end of the range, and the placement pushes one
  record, with copy number 1. When there is one, \<open>findPartnerModule\<close> returns the first
  of them, and the placement pushes two records, with copy numbers 1 and 2, the second at
  the \<open>z\<close> of the partner. Nothing is written to the error stream. \<open>pos.copy\<close> is 1
  again after all the records of the module, as it is when \<open>analyseLayers\<close> begins.
\<close>

theorem rod_placement_partner:
  assumes plus: "side (uniRef (getModule iiter)) > 0"
    and copy: "pos_copy (loc_pos st) = 1"
  shows "(\<not> list_ex (opposite_on_ring rg) (iiter # rest) \<longrightarrow>
       findPartnerModule (iiter # rest) rg False = length (iiter # rest) \<and>
       (\<exists>pos1. out_p (rod_placement K nspace rodname mname iiter rest rg RadiusIn st) = out_p st @ [pos1] \<and>
          pos_copy pos1 = 1 \<and> pos_child_tag pos1 = nspace @ '':'' @ mname)) \<and>
     (list_ex (opposite_on_ring rg) (iiter # rest) \<longrightarrow>
       findPartnerModule (iiter # rest) rg False < length (iiter # rest) \<and>
       opposite_on_ring rg ((iiter # rest) ! findPartnerModule (iiter # rest) rg False) \<and>
       (\<forall>j < findPartnerModule (iiter # rest) rg False. \<not> opposite_on_ring rg ((iiter # rest) ! j)) \<and>
       (\<exists>pos1 pos2. out_p (rod_placement K nspace rodname mname iiter rest rg RadiusIn st) =
            out_p st @ [pos1, pos2] \<and>
          pos_copy pos1 = 1 \<and> pos_copy pos2 = 2 \<and>
          pos_child_tag pos1 = nspace @ '':'' @ mname \<and> pos_child_tag pos2 = nspace @ '':'' @ mname \<and>
          tr_dz (pos_trans pos1) = vecZ (center (getModule iiter)) \<and>
          tr_dz (pos_trans pos2) =
            vecZ (center (getModule ((iiter # rest) ! findPartnerModule (iiter # rest) rg False))))) \<and>
     cerr (rod_placement K nspace rodname mname iiter rest rg RadiusIn st) = cerr st \<and>
     pos_copy (loc_pos (layer_module_records K D getDensity nspace rodname mname iiter rest rg RadiusIn
        isTilted tilt_angle modcomplex st)) = 1"
proof -
  have none: "findPartnerModule (iiter # rest) rg False = length (iiter # rest) \<and>
       (\<exists>pos1. out_p (rod_placement K nspace rodname mname iiter rest rg RadiusIn st) = out_p st @ [pos1] \<and>
          pos_copy pos1 = 1 \<and> pos_child_tag pos1 = nspace @ '':'' @ mname)"
    if n: "\<not> list_ex (opposite_on_ring rg) (iiter # rest)"
  proof -
    have "partner_scan (iiter # rest) rg False True = length (iiter # rest)"
      using n partner_scan_end[of "iiter # rest" rg] by blast
    then have e: "findPartnerModule (iiter # rest) rg False = length (iiter # rest)"
      by (simp only: findPartnerModule_plus[OF plus])
    from rod_placement_alone[OF e, of K nspace rodname mname RadiusIn st] copy e
    show ?thesis by auto
  qed
  have some: "findPartnerModule (iiter # rest) rg False < length (iiter # rest) \<and>
       opposite_on_ring rg ((iiter # rest) ! findPartnerModule (iiter # rest) rg False) \<and>
       (\<forall>j < findPartnerModule (iiter # rest) rg False. \<not> opposite_on_ring rg ((iiter # rest) ! j)) \<and>
       (\<exists>pos1 pos2. out_p (rod_placement K nspace rodname mname iiter rest rg RadiusIn st) =
            out_p st @ [pos1, pos2] \<and>
          pos_copy pos1 = 1 \<and> pos_copy pos2 = 2 \<and>
          pos_child_tag pos1 = nspace @ '':'' @ mname \<and> pos_child_tag pos2 = nspace @ '':'' @ mname \<and>
          tr_dz (pos_trans pos1) = vecZ (center (getModule iiter)) \<and>
          tr_dz (pos_trans pos2) =
            vecZ (center (getModule ((iiter # rest) ! findPartnerModule (iiter # rest) rg False))))"
    if s: "list_ex (opposite_on_ring rg) (iiter # rest)"
  proof -
    note f = partner_scan_found[OF s, folded findPartnerModule_plus[OF plus]]
    from f have ne: "findPartnerModule (iiter # rest) rg False \<noteq> length (iiter # rest)" by simp
    from rod_placement_pair[OF ne, of K nspace rodname mname RadiusIn st] copy f
    show ?thesis by auto
  qed
  have frame: "cerr (rod_placement K nspace rodname mname iiter rest rg RadiusIn st) = cerr st"
    by (rule rod_placement_effect)
  have inv: "pos_copy (loc_pos (layer_module_records K D getDensity nspace rodname mname iiter rest rg RadiusIn
        isTilted tilt_angle modcomplex st)) = 1"
    using copy by (rule layer_module_records_copy)
  from none some frame inv show ?thesis by blast
qed

lemma rod_cap_fields:
  "side (uniRef (getModule (rod_cap sd rg))) = sd" "ring (uniRef (getModule (rod_cap sd rg))) = rg"
  by (simp_all add: rod_cap_def)

lemma layers_init_copy: "pos_copy (loc_pos (layers_init K D c l s p r)) = 1"
  by (simp add: layers_init_def pass_locals_def)

lemma layers_init_out:
  "out_p (layers_init K D c l s p r) = p" "out_s (layers_init K D c l s p r) = s"
  "cerr (layers_init K D c l s p r) = []"
  by (simp_all add: layers_init_def pass_locals_def)

text \<open>Witness of C5: the module of ring 1 on the positive side, first alone in its layer,
  then followed by the module of ring 1 on the negative side.\<close>

theorem rod_placement_partner_witness:
  "\<forall>K D. side (uniRef (getModule (rod_cap 1 1))) > 0 \<and>
     pos_copy (loc_pos (layers_init K D [] [] [] [] [])) = 1 \<and>
     \<not> list_ex (opposite_on_ring 1) (rod_cap 1 1 # []) \<and>
     findPartnerModule (rod_cap 1 1 # []) 1 False = length (rod_cap 1 1 # []) \<and>
     length (out_p (rod_placement K ''tracker'' ''Rod1'' ''BModule1Layer1'' (rod_cap 1 1) [] 1 100
        (layers_init K D [] [] [] [] []))) = 1 \<and>
     list_ex (opposite_on_ring 1) (rod_cap 1 1 # [rod_cap (- 1) 1]) \<and>
     findPartnerModule (rod_cap 1 1 # [rod_cap (- 1) 1]) 1 False = 1 \<and>
     map pos_copy (out_p (rod_placement K ''tracker'' ''Rod1'' ''BModule1Layer1'' (rod_cap 1 1)
        [rod_cap (- 1) 1] 1 100 (layers_init K D [] [] [] [] []))) = [1, 2]"
proof (intro allI)
  fix K D
  let ?st = "layers_init K D [] [] [] [] []"
  have plus: "side (uniRef (getModule (rod_cap 1 1))) > 0"
    by (simp add: rod_cap_fields)
  have none: "\<not> list_ex (opposite_on_ring 1) (rod_cap 1 1 # [])"
    by (simp add: opposite_on_ring_def rod_cap_fields)
  have some: "list_ex (opposite_on_ring 1) (rod_cap 1 1 # [rod_cap (- 1) 1])"
    by (simp add: opposite_on_ring_def rod_cap_fields)
  note a = rod_placement_partner[OF plus layers_init_copy, where rg = 1 and rest = "[]" and K = K
      and nspace = "''tracker''" and rodname = "''Rod1''" and mname = "''BModule1Layer1''"
      and RadiusIn = 100 and D1 = D and K1 = K and c1 = "[]" and l1 = "[]" and s1 = "[]" and p1 = "[]"
      and r1 = "[]"]
  note b = rod_placement_partner[OF plus layers_init_copy, where rg = 1 and rest = "[rod_cap (- 1) 1]"
      and K = K and nspace = "''tracker''" and rodname = "''Rod1''" and mname = "''BModule1Layer1''"
      and RadiusIn = 100 and D1 = D and K1 = K and c1 = "[]" and l1 = "[]" and s1 = "[]" and p1 = "[]"
      and r1 = "[]"]
  from a none have a1: "findPartnerModule (rod_cap 1 1 # []) 1 False = length (rod_cap 1 1 # [])"
    by blast
  from a none obtain pos1 where
    "out_p (rod_placement K ''tracker'' ''Rod1'' ''BModule1Layer1'' (rod_cap 1 1) [] 1 100 ?st) =
       out_p ?st @ [pos1]"
    by blast
  then have a2: "length (out_p (rod_placement K ''tracker'' ''Rod1'' ''BModule1Layer1'' (rod_cap 1 1) [] 1 100
        ?st)) = 1"
    by (simp add: layers_init_out)
  from b some have b1: "findPartnerModule (rod_cap 1 1 # [rod_cap (- 1) 1]) 1 False <
        length (rod_cap 1 1 # [rod_cap (- 1) 1])"
    and b0: "opposite_on_ring 1 ((rod_cap 1 1 # [rod_cap (- 1) 1]) !
        findPartnerModule (rod_cap 1 1 # [rod_cap (- 1) 1]) 1 False)"
    by blast+
  from b some obtain p1 p2 where
    "out_p (rod_placement K ''tracker'' ''Rod1'' ''BModule1Layer1'' (rod_cap 1 1)
        [rod_cap (- 1) 1] 1 100 ?st) = out_p ?st @ [p1, p2]" "pos_copy p1 = 1" "pos_copy p2 = 2"
    by blast
  then have b2: "map pos_copy (out_p (rod_placement K ''tracker'' ''Rod1'' ''BModule1Layer1'' (rod_cap 1 1)
        [rod_cap (- 1) 1] 1 100 ?st)) = [1, 2]"
    by (simp add: layers_init_out)
  have b3: "findPartnerModule (rod_cap 1 1 # [rod_cap (- 1) 1]) 1 False = 1"
  proof (rule ccontr)
    assume "findPartnerModule (rod_cap 1 1 # [rod_cap (- 1) 1]) 1 False \<noteq> 1"
    with b1 have "findPartnerModule (rod_cap 1 1 # [rod_cap (- 1) 1]) 1 False = 0" by simp
    with b0 show False by (simp add: opposite_on_ring_def rod_cap_fields)
  qed
  from plus none some a1 a2 b2 b3 layers_init_copy[of K D "[]" "[]" "[]" "[]" "[]"]
  show "side (uniRef (getModule (rod_cap 1 1))) > 0 \<and>
     pos_copy (loc_pos ?st) = 1 \<and>
     \<not> list_ex (opposite_on_ring 1) (rod_cap 1 1 # []) \<and>
     findPartnerModule (rod_cap 1 1 # []) 1 False = length (rod_cap 1 1 # []) \<and>
     length (out_p (rod_placement K ''tracker'' ''Rod1'' ''BModule1Layer1'' (rod_cap 1 1) [] 1 100
        ?st)) = 1 \<and>
     list_ex (opposite_on_ring 1) (rod_cap 1 1 # [rod_cap (- 1) 1]) \<and>
     findPartnerModule (rod_cap 1 1 # [rod_cap (- 1) 1]) 1 False = 1 \<and>
     map pos_copy (out_p (rod_placement K ''tracker'' ''Rod1'' ''BModule1Layer1'' (rod_cap 1 1)
        [rod_cap (- 1) 1] 1 100 ?st)) = [1, 2]"
    by blast
qed

text \<open>
  Claim C6, as amended. For a module whose type is neither \<open>ptPS\<close> nor \<open>pt2S\<close>, the
  statement that names the shape of an active surface writes the line
  \<open>Unknown module type : <type> .\<close> to the error stream and leaves the shape as it is.
  The shape is pushed all the same, under the name that it still bears, that of the last
  wafer of the module, and so are its logical volume, its placement and its entry in
  \<open>mspec\<close>. In \<open>analyseLayers\<close> and in \<open>analyseDiscs\<close> alike, the records of the
  module keep all that the output vectors held before, and the shapes pushed are, in
  order: the box of the module, its wafer (two wafers for a module of two sensors), the
  active surface of the inner sensor under the name of the last wafer and, for a module of
  two sensors, the active surface of the outer sensor under that same name, followed by
  the shapes of the hybrids. One line is written to the error stream for every active
  surface.
\<close>

theorem unknown_module_type_records:
  assumes u: "unknown_type (getModule iiter)"
  shows "name_active_surface (moduleType (getModule iiter)) ps_name s2_name st =
       st\<lparr>cerr := cerr st @ [unknown_type_message (getModule iiter)]\<rparr> \<and>
     (\<exists>lg. out_l (layer_active_inner K nspace mname (getModule iiter) st) = out_l st @ [lg] \<and>
        lg_name_tag lg = sh_name_tag (loc_shape st) \<and>
        lg_material_tag lg = nspace @ '':'' @ xml_sensor_silicon K) \<and>
     (\<exists>ps. out_p (layer_active_inner K nspace mname (getModule iiter) st) = out_p st @ [ps] \<and>
        pos_child_tag ps = nspace @ '':'' @ sh_name_tag (loc_shape st)) \<and>
     spec_partselectors (mspec (layer_active_inner K nspace mname (getModule iiter) st)) =
        spec_partselectors (mspec st) @ [sh_name_tag (loc_shape st)] \<and>
     (\<exists>lg. out_l (disc_active_inner K nspace mname (getModule iiter) st) = out_l st @ [lg] \<and>
        lg_name_tag lg = sh_name_tag (loc_shape st) \<and>
        lg_material_tag lg = nspace @ '':'' @ xml_sensor_silicon K) \<and>
     (\<exists>ps. out_p (disc_active_inner K nspace mname (getModule iiter) st) = out_p st @ [ps] \<and>
        pos_child_tag ps = nspace @ '':'' @ sh_name_tag (loc_shape st)) \<and>
     spec_partselectors (mspec (disc_active_inner K nspace mname (getModule iiter) st)) =
        spec_partselectors (mspec st) @ [sh_name_tag (loc_shape st)] \<and>
     (let st' = layer_module_records K D getDensity nspace rodname mname iiter rest modRing RadiusIn
          isTilted tilt_angle modcomplex st
      in keeps_output st st' \<and>
         pushed_shape_names st st' =
           [mname, mname @ (if numSensors (getModule iiter) = 2 then xml_base_lower K else []) @ xml_base_waf K] @
           (if numSensors (getModule iiter) = 2 then [mname @ xml_base_upper K @ xml_base_waf K] else []) @
           [last_wafer_name K mname (getModule iiter)] @
           (if numSensors (getModule iiter) = 2
            then last_wafer_name K mname (getModule iiter) # hybrid_names getDensity modcomplex else []) \<and>
         cerr st' = cerr st @ [unknown_type_message (getModule iiter)] @
           (if numSensors (getModule iiter) = 2 then [unknown_type_message (getModule iiter)] else [])) \<and>
     (let st' = disc_module_records K D getDensity nspace mname iiter modcomplex st
      in keeps_output st st' \<and>
         pushed_shape_names st st' =
           [mname, mname @ (if numSensors (getModule iiter) = 2 then xml_base_lower K else []) @ xml_base_waf K] @
           (if numSensors (getModule iiter) = 2 then [mname @ xml_base_upper K @ xml_base_waf K] else []) @
           [last_wafer_name K mname (getModule iiter)] @
           (if numSensors (getModule iiter) = 2
            then last_wafer_name K mname (getModule iiter) # hybrid_names getDensity modcomplex else []) \<and>
         cerr st' = cerr st @ [unknown_type_message (getModule iiter)] @
           (if numSensors (getModule iiter) = 2 then [unknown_type_message (getModule iiter)] else []))"
  unfolding Let_def
  using name_active_surface_unknown[OF u, where ps_name = ps_name and s2_name = s2_name and st = st]
    layer_active_inner_unknown(4,5,6)[OF u, where st = st and K = K and ns = nspace and mname = mname]
    disc_active_inner_unknown(4,5,6)[OF u, where st = st and K = K and ns = nspace and mname = mname]
    layer_module_records_unknown[OF u, where st = st and K = K and D = D and gd = getDensity
      and ns = nspace and rodname = rodname and mname = mname and rest = rest and rg = modRing
      and RadiusIn = RadiusIn and tilted = isTilted and ta = tilt_angle and mc = modcomplex]
    disc_module_records_unknown[OF u, where st = st and K = K and D = D and gd = getDensity
      and ns = nspace and mname = mname and mc = modcomplex]
  by blast

lemma odd_cap_fields:
  "unknown_type (getModule odd_cap)" "numSensors (getModule odd_cap) = 1"
  "moduleType (getModule odd_cap) = ''ptXX''"
  "unknown_type_message (getModule odd_cap) = ''Unknown module type : ptXX .''"
  by (simp_all add: odd_cap_def unknown_type_def unknown_type_message_def)

lemma discs_init_out:
  "out_s (discs_init K D c l s p r) = s" "cerr (discs_init K D c l s p r) = []"
  by (simp_all add: discs_init_def pass_locals_def)

text \<open>Witness of C6: the module of one sensor and of type \<open>ptXX\<close> in a layer.\<close>

theorem unknown_module_type_records_witness:
  "\<forall>K D getDensity. unknown_type (getModule odd_cap) \<and>
     pushed_shape_names (layers_init K D [] [] [] [] [])
       (layer_module_records K D getDensity ''tracker'' ''Rod1'' ''BModule1Layer1'' odd_cap [] 1 100
          False 0 (ex_mc []) (layers_init K D [] [] [] [] [])) =
       [''BModule1Layer1'', ''BModule1Layer1'' @ xml_base_waf K, ''BModule1Layer1'' @ xml_base_waf K] \<and>
     cerr (layer_module_records K D getDensity ''tracker'' ''Rod1'' ''BModule1Layer1'' odd_cap [] 1 100
          False 0 (ex_mc []) (layers_init K D [] [] [] [] [])) = [''Unknown module type : ptXX .'']"
proof (intro allI)
  fix K D getDensity
  let ?st = "layers_init K D [] [] [] [] []"
  from unknown_module_type_records[OF odd_cap_fields(1), where st = ?st and K = K
      and nspace = "''tracker''" and mname = "''BModule1Layer1''" and D = D and getDensity = getDensity
      and rodname = "''Rod1''" and rest = "[]" and modRing = 1 and RadiusIn = 100 and isTilted = False
      and tilt_angle = 0 and modcomplex = "ex_mc []" and ps_name = "[]" and s2_name = "[]"]
  have "pushed_shape_names ?st
       (layer_module_records K D getDensity ''tracker'' ''Rod1'' ''BModule1Layer1'' odd_cap [] 1 100
          False 0 (ex_mc []) ?st) =
       [''BModule1Layer1'', ''BModule1Layer1'' @ xml_base_waf K, ''BModule1Layer1'' @ xml_base_waf K]"
    and "cerr (layer_module_records K D getDensity ''tracker'' ''Rod1'' ''BModule1Layer1'' odd_cap [] 1 100
          False 0 (ex_mc []) ?st) = [''Unknown module type : ptXX .'']"
    by (simp_all add: Let_def odd_cap_fields last_wafer_name_def layers_init_out)
  with odd_cap_fields(1)
  show "unknown_type (getModule odd_cap) \<and>
     pushed_shape_names ?st
       (layer_module_records K D getDensity ''tracker'' ''Rod1'' ''BModule1Layer1'' odd_cap [] 1 100
          False 0 (ex_mc []) ?st) =
       [''BModule1Layer1'', ''BModule1Layer1'' @ xml_base_waf K, ''BModule1Layer1'' @ xml_base_waf K] \<and>
     cerr (layer_module_records K D getDensity ''tracker'' ''Rod1'' ''BModule1Layer1'' odd_cap [] 1 100
          False 0 (ex_mc []) ?st) = [''Unknown module type : ptXX .'']"
    by blast
qed

text \<open>Counterexample to C6 as stated: the same module in a disc. Its type is neither
  \<open>ptPS\<close> nor \<open>pt2S\<close>, yet \<open>analyseDiscs\<close> pushes three shapes for it; the third is
  the shape of its active surface, pushed under the name of the wafer, the second.\<close>

theorem unknown_module_type_counterexample:
  "\<forall>K D getDensity.
     (let out = out_s (disc_module_records K D getDensity ''tracker'' ''EModule1Disc1'' odd_cap (ex_mc [])
                  (discs_init K D [] [] [] [] []))
      in moduleType (getModule odd_cap) \<noteq> ''ptPS'' \<and> moduleType (getModule odd_cap) \<noteq> ''pt2S'' \<and>
         length out = 3 \<and>
         sh_name_tag (out ! 1) = ''EModule1Disc1'' @ xml_base_waf K \<and>
         sh_name_tag (out ! 2) = ''EModule1Disc1'' @ xml_base_waf K)"
proof (intro allI)
  fix K D getDensity
  let ?st = "discs_init K D [] [] [] [] []"
  let ?st' = "disc_module_records K D getDensity ''tracker'' ''EModule1Disc1'' odd_cap (ex_mc []) ?st"
  from disc_module_records_unknown(1)[OF odd_cap_fields(1), of ?st K D getDensity "''tracker''"
      "''EModule1Disc1''" "ex_mc []"]
  have "pushed_shape_names ?st ?st' =
      [''EModule1Disc1'', ''EModule1Disc1'' @ xml_base_waf K, ''EModule1Disc1'' @ xml_base_waf K]"
    by (simp add: odd_cap_fields last_wafer_name_def)
  then have names: "map sh_name_tag (out_s ?st') =
      [''EModule1Disc1'', ''EModule1Disc1'' @ xml_base_waf K, ''EModule1Disc1'' @ xml_base_waf K]"
    by (simp add: pushed_shape_names_def discs_init_out)
  have len: "length (out_s ?st') = 3"
    using arg_cong[OF names, of length] by simp
  have n1: "sh_name_tag (out_s ?st' ! 1) = ''EModule1Disc1'' @ xml_base_waf K"
    using arg_cong[OF names, of "\<lambda>xs. xs ! 1"] len by simp
  have n2: "sh_name_tag (out_s ?st' ! 2) = ''EModule1Disc1'' @ xml_base_waf K"
    using arg_cong[OF names, of "\<lambda>xs. xs ! 2"] len by simp
  show "(let out = out_s ?st'
      in moduleType (getModule odd_cap) \<noteq> ''ptPS'' \<and> moduleType (getModule odd_cap) \<noteq> ''pt2S'' \<and>
         length out = 3 \<and>
         sh_name_tag (out ! 1) = ''EModule1Disc1'' @ xml_base_waf K \<and>
         sh_name_tag (out ! 2) = ''EModule1Disc1'' @ xml_base_waf K)"
    unfolding Let_def using len n1 n2 by (simp add: odd_cap_fields)
qed

end
